theory Spec2Isabelle
  imports Main "HOL-Library.AList" "HOL-Library.Sublist"
begin

section \<open>Values, exceptions and the world the scripts run in\<close>

text \<open>
  The three scripts are sequences of calls to the provider's SDK, glued by Python
  dictionaries, one JSON file and a few module-level variables.  The model keeps that
  shape: JSON-like values, Python exceptions as the left summand of a result, and an
  explicit world holding the event trace of the run, the file system and the module
  globals.
\<close>

datatype jval =
    JNull
  | JBool bool
  | JInt int
  | JStr string
  | JList "jval list"
  | JObj "(string \<times> jval) list"

datatype exn =
    ClientError string
  | WaiterError string
  | KeyError string
  | IndexError
  | TypeError
  | AttributeError
  | NameError string
  | FileNotFoundError string
  | JSONDecodeError
  | RaisedException string
  | SystemExit int

text \<open>\<open>except Exception\<close> catches everything but \<open>SystemExit\<close>.\<close>

fun is_Exception :: "exn \<Rightarrow> bool" where
  "is_Exception (SystemExit _) = False"
| "is_Exception _ = True"

fun is_FileNotFoundError :: "exn \<Rightarrow> bool" where
  "is_FileNotFoundError (FileNotFoundError _) = True"
| "is_FileNotFoundError _ = False"

text \<open>\<open>str(e)\<close>, as far as the scripts use it: the message of the exception.\<close>

fun str_exn :: "exn \<Rightarrow> string" where
  "str_exn (ClientError m) = m"
| "str_exn (WaiterError m) = m"
| "str_exn (KeyError k) = [CHR 0x27] @ k @ [CHR 0x27]"
| "str_exn IndexError = ''list index out of range''"
| "str_exn TypeError = ''unsupported operand''"
| "str_exn AttributeError = ''object has no such attribute''"
| "str_exn (NameError n) = ''name '' @ [CHR 0x27] @ n @ [CHR 0x27] @ '' is not defined''"
| "str_exn (FileNotFoundError f) = ''No such file or directory: '' @ f"
| "str_exn JSONDecodeError = ''Expecting value''"
| "str_exn (RaisedException m) = m"
| "str_exn (SystemExit n) = ''exit''"

text \<open>
  One call of the SDK: client, operation, keyword arguments.  Keyword arguments that are
  constants of the script and flow nowhere (tags, descriptions, health-check settings,
  the user-data and function-code blobs) are left out of the recorded call; the
  arguments that carry identifiers from one call to the next are kept.
\<close>

datatype api_call = Api string string "(string \<times> jval) list"

text \<open>
  The trace of a run.  \<open>Enter f\<close> marks the entry into the stage function \<open>f\<close>;
  \<open>FileOpenW\<close> is \<open>open(path, 'w')\<close>, which truncates; \<open>FileWrite\<close> is one
  \<open>f.write(chunk)\<close> of \<open>json.dump\<close>; \<open>FileClose\<close> is the close of the file at the
  end of the \<open>with\<close> block.
\<close>

datatype event =
    Enter string
  | Print string "jval list"
  | Call api_call
  | Wait string string
  | Sleep nat
  | FileOpenR string
  | FileOpenW string
  | FileWrite string string
  | FileClose string

text \<open>
  What the scripts do not own: the provider (it answers a call with a payload or with an
  error message, and may look at everything that happened before), the \<open>json\<close>
  library (\<open>json.dump\<close> writes the text in chunks; \<open>json.load\<close> rejects some texts)
  and \<open>uuid.uuid4()\<close>, given by its 32 hexadecimal digits.
\<close>

record platform =
  remote :: "event list \<Rightarrow> api_call \<Rightarrow> string + jval"
  json_dump :: "jval \<Rightarrow> string list"
  json_load :: "string \<Rightarrow> jval option"
  uuid4_hex :: "event list \<Rightarrow> string"

record world =
  trace :: "event list"
  files :: "string \<rightharpoonup> string"
  g_vpc_id :: "jval option"
  g_infrastructure :: "jval option"

type_synonym 'a prog = "world \<Rightarrow> (exn + 'a) \<times> world"

definition ret :: "'a \<Rightarrow> 'a prog" where
  "ret x = (\<lambda>w. (Inr x, w))"

definition raise :: "exn \<Rightarrow> 'a prog" where
  "raise e = (\<lambda>w. (Inl e, w))"

definition bnd :: "'a prog \<Rightarrow> ('a \<Rightarrow> 'b prog) \<Rightarrow> 'b prog" where
  "bnd m f = (\<lambda>w. case m w of (Inl e, w') \<Rightarrow> (Inl e, w') | (Inr x, w') \<Rightarrow> f x w')"

text \<open>\<open>try: m except C as e: h e\<close>, with \<open>C\<close> given as a predicate on exceptions.\<close>

definition try_except :: "'a prog \<Rightarrow> (exn \<Rightarrow> bool) \<Rightarrow> (exn \<Rightarrow> 'a prog) \<Rightarrow> 'a prog" where
  "try_except m C h =
     (\<lambda>w. case m w of (Inl e, w') \<Rightarrow> (if C e then h e w' else (Inl e, w')) | (Inr x, w') \<Rightarrow> (Inr x, w'))"

definition lift :: "exn + 'a \<Rightarrow> 'a prog" where
  "lift r = (\<lambda>w. (r, w))"

definition emit :: "event \<Rightarrow> unit prog" where
  "emit e = (\<lambda>w. (Inr (), w\<lparr>trace := trace w @ [e]\<rparr>))"

definition enter :: "string \<Rightarrow> unit prog" where
  "enter f = emit (Enter f)"

definition print :: "string \<Rightarrow> jval list \<Rightarrow> unit prog" where
  "print s vs = emit (Print s vs)"

definition sleep :: "nat \<Rightarrow> unit prog" where
  "sleep n = emit (Sleep n)"

text \<open>A call of the SDK: the provider answers from the history; an error answer raises.\<close>

definition call :: "platform \<Rightarrow> api_call \<Rightarrow> jval prog" where
  "call p c =
     (\<lambda>w. let w' = w\<lparr>trace := trace w @ [Call c]\<rparr> in
          case remote p (trace w) c of
            Inl msg \<Rightarrow> (Inl (ClientError msg), w')
          | Inr v \<Rightarrow> (Inr v, w'))"

text \<open>
  \<open>client.get_waiter(name).wait(...)\<close>: the polling loop is the SDK's; the script sees
  it return or raise.  The provider's answer to the pseudo-operation \<open>wait:name\<close>
  decides which.
\<close>

definition waiter :: "platform \<Rightarrow> string \<Rightarrow> string \<Rightarrow> (string \<times> jval) list \<Rightarrow> unit prog" where
  "waiter p client name args =
     (\<lambda>w. let w' = w\<lparr>trace := trace w @ [Wait client name]\<rparr> in
          case remote p (trace w) (Api client (''wait:'' @ name) args) of
            Inl msg \<Rightarrow> (Inl (WaiterError msg), w')
          | Inr v \<Rightarrow> (Inr (), w'))"

text \<open>\<open>str(u)\<close> of a UUID: its digits in groups of 8, 4, 4, 4 and 12.\<close>

definition str_uuid :: "string \<Rightarrow> string" where
  "str_uuid h = take 8 h @ ''-'' @ take 4 (drop 8 h) @ ''-'' @ take 4 (drop 12 h) @ ''-''
                @ take 4 (drop 16 h) @ ''-'' @ drop 20 h"

definition uuid4 :: "platform \<Rightarrow> string prog" where
  "uuid4 p = (\<lambda>w. (Inr (uuid4_hex p (trace w)), w))"

subsection \<open>Python's subscripts and dictionaries\<close>

text \<open>\<open>v[k]\<close> for a string key: \<open>KeyError\<close> on a dictionary without it, \<open>TypeError\<close> elsewhere.\<close>

fun subscript :: "jval \<Rightarrow> string \<Rightarrow> exn + jval" where
  "subscript (JObj d) k = (case map_of d k of None \<Rightarrow> Inl (KeyError k) | Some v \<Rightarrow> Inr v)"
| "subscript _ k = Inl TypeError"

text \<open>\<open>v[0]\<close>.\<close>

fun first :: "jval \<Rightarrow> exn + jval" where
  "first (JList xs) = (case xs of [] \<Rightarrow> Inl IndexError | x # _ \<Rightarrow> Inr x)"
| "first (JStr s) = (case s of [] \<Rightarrow> Inl IndexError | c # _ \<Rightarrow> Inr (JStr [c]))"
| "first (JObj d) = Inl (KeyError ''0'')"
| "first _ = Inl TypeError"

definition sub2 :: "jval \<Rightarrow> string \<Rightarrow> string \<Rightarrow> exn + jval" where
  "sub2 v k1 k2 = (case subscript v k1 of Inl e \<Rightarrow> Inl e | Inr u \<Rightarrow> subscript u k2)"

text \<open>\<open>v[k1][0][k2]\<close>.\<close>

definition sub_first_sub :: "jval \<Rightarrow> string \<Rightarrow> string \<Rightarrow> exn + jval" where
  "sub_first_sub v k1 k2 =
     (case subscript v k1 of Inl e \<Rightarrow> Inl e
      | Inr u \<Rightarrow> (case first u of Inl e \<Rightarrow> Inl e | Inr x \<Rightarrow> subscript x k2))"

text \<open>Iterating over a value: a list gives its elements, a dictionary its keys.\<close>

fun iter :: "jval \<Rightarrow> exn + jval list" where
  "iter (JList xs) = Inr xs"
| "iter (JObj d) = Inr (map (\<lambda>kv. JStr (fst kv)) d)"
| "iter (JStr s) = Inr (map (\<lambda>c. JStr [c]) s)"
| "iter _ = Inl TypeError"

text \<open>\<open>[x[k] for x in xs]\<close>.\<close>

fun subscript_all :: "jval list \<Rightarrow> string \<Rightarrow> exn + jval list" where
  "subscript_all [] k = Inr []"
| "subscript_all (x # xs) k =
     (case subscript x k of Inl e \<Rightarrow> Inl e
      | Inr v \<Rightarrow> (case subscript_all xs k of Inl e \<Rightarrow> Inl e | Inr vs \<Rightarrow> Inr (v # vs)))"

text \<open>\<open>','.join(v)\<close>: every element must be a string.\<close>

fun join_strs :: "jval list \<Rightarrow> exn + string" where
  "join_strs [] = Inr []"
| "join_strs [JStr s] = Inr s"
| "join_strs (JStr s # xs) = (case join_strs xs of Inl e \<Rightarrow> Inl e | Inr r \<Rightarrow> Inr (s @ '','' @ r))"
| "join_strs (_ # xs) = Inl TypeError"

definition comma_join :: "jval \<Rightarrow> exn + jval" where
  "comma_join v =
     (case iter v of Inl e \<Rightarrow> Inl e
      | Inr xs \<Rightarrow> (case join_strs xs of Inl e \<Rightarrow> Inl e | Inr s \<Rightarrow> Inr (JStr s)))"

text \<open>
  A Python dictionary keeps insertion order: \<open>d[k] = v\<close> replaces in place or appends,
  which is \<open>AList.update\<close>; \<open>d.update(other)\<close> stores the items of \<open>other\<close> in order.
\<close>

definition dict_update :: "(string \<times> jval) list \<Rightarrow> (string \<times> jval) list \<Rightarrow> (string \<times> jval) list" where
  "dict_update d other = fold (\<lambda>kv. AList.update (fst kv) (snd kv)) other d"

text \<open>Decimal digits of a number, for the f-strings that format one.\<close>

fun str_nat :: "nat \<Rightarrow> string" where
  "str_nat n = (if n < 10 then [char_of (48 + n)] else str_nat (n div 10) @ [char_of (48 + n mod 10)])"

declare str_nat.simps [simp del]

subsection \<open>Files\<close>

text \<open>
  A file opened with \<open>open(path, 'w')\<close> is truncated at once.  What \<open>f.write\<close> is
  given goes to the buffer of the file object, not to the file: the text of the ledger is
  far below the size of that buffer, so it reaches the file when the file is closed, at
  the end of the \<open>with\<close> block.
\<close>

definition open_w :: "string \<Rightarrow> unit prog" where
  "open_w path = (\<lambda>w. (Inr (), w\<lparr>trace := trace w @ [FileOpenW path], files := (files w)(path \<mapsto> [])\<rparr>))"

text \<open>The writes of \<open>json.dump\<close>, chunk by chunk; the result is the buffer they leave.\<close>

fun write_chunks :: "string \<Rightarrow> string list \<Rightarrow> string \<Rightarrow> string prog" where
  "write_chunks path [] buffer = ret buffer"
| "write_chunks path (c # cs) buffer =
     bnd (emit (FileWrite path c)) (\<lambda>_. write_chunks path cs (buffer @ c))"

definition close_file :: "string \<Rightarrow> string \<Rightarrow> unit prog" where
  "close_file path buffer =
     (\<lambda>w. (Inr (), w\<lparr>trace := trace w @ [FileClose path],
                      files := (files w)(path \<mapsto> (case files w path of None \<Rightarrow> buffer
                                                    | Some old \<Rightarrow> old @ buffer))\<rparr>))"

text \<open>\<open>with open(path, 'w') as f: json.dump(v, f, indent=2)\<close>\<close>

definition dump_to_file :: "platform \<Rightarrow> string \<Rightarrow> jval \<Rightarrow> unit prog" where
  "dump_to_file p path v =
     bnd (open_w path) (\<lambda>_.
     bnd (write_chunks path (json_dump p v) []) (\<lambda>buffer.
     close_file path buffer))"



text \<open>\<open>with open(path, 'r') as f: json.load(f)\<close>\<close>

definition load_from_file :: "platform \<Rightarrow> string \<Rightarrow> jval prog" where
  "load_from_file p path =
     (\<lambda>w. case files w path of
            None \<Rightarrow> (Inl (FileNotFoundError path), w)
          | Some text \<Rightarrow>
              (case json_load p text of
                 None \<Rightarrow> (Inl JSONDecodeError, w\<lparr>trace := trace w @ [FileOpenR path]\<rparr>)
               | Some v \<Rightarrow> (Inr v, w\<lparr>trace := trace w @ [FileOpenR path]\<rparr>)))"

text \<open>Reading a module-level variable that has not been assigned raises \<open>NameError\<close>.\<close>

definition read_global :: "(world \<Rightarrow> jval option) \<Rightarrow> string \<Rightarrow> jval prog" where
  "read_global g name = (\<lambda>w. case g w of None \<Rightarrow> (Inl (NameError name), w) | Some v \<Rightarrow> (Inr v, w))"

definition the_ledger_file :: string where
  "the_ledger_file = ''infrastructure_details.json''"

section \<open>boto3-iac-script.py\<close>

text \<open>The loop of \<open>create_vpc\<close> over \<open>enumerate(available_azs[:2])\<close>.\<close>

fun create_subnets ::
  "platform \<Rightarrow> jval \<Rightarrow> nat \<Rightarrow> jval list \<Rightarrow> jval list \<times> jval list \<Rightarrow> (jval list \<times> jval list) prog" where
  "create_subnets p vpc_id i [] subnets = ret subnets"
| "create_subnets p vpc_id i (az # azs) subnets =
     bnd (call p (Api ''ec2'' ''create_subnet''
            [(''VpcId'', vpc_id), (''CidrBlock'', JStr (''10.0.'' @ str_nat (i * 2) @ ''.0/24'')),
             (''AvailabilityZone'', az)])) (\<lambda>public_subnet.
     bnd (lift (sub2 public_subnet ''Subnet'' ''SubnetId'')) (\<lambda>public_subnet_id.
     bnd (print ''Public subnet created: {public_subnet_id} in {az}'' [public_subnet_id, az]) (\<lambda>_.
     bnd (call p (Api ''ec2'' ''modify_subnet_attribute''
            [(''SubnetId'', public_subnet_id),
             (''MapPublicIpOnLaunch'', JObj [(''Value'', JBool True)])])) (\<lambda>_.
     bnd (call p (Api ''ec2'' ''create_subnet''
            [(''VpcId'', vpc_id), (''CidrBlock'', JStr (''10.0.'' @ str_nat (i * 2 + 1) @ ''.0/24'')),
             (''AvailabilityZone'', az)])) (\<lambda>private_subnet.
     bnd (lift (sub2 private_subnet ''Subnet'' ''SubnetId'')) (\<lambda>private_subnet_id.
     bnd (print ''Private subnet created: {private_subnet_id} in {az}'' [private_subnet_id, az]) (\<lambda>_.
     create_subnets p vpc_id (Suc i) azs
       (fst subnets @ [public_subnet_id], snd subnets @ [private_subnet_id]))))))))"

text \<open>
  \<open>for subnet_id in subnets[...]: ec2.associate_route_table(...); print(...)\<close>, with the
  message of the loop as a parameter.
\<close>

fun associate_subnets :: "platform \<Rightarrow> string \<Rightarrow> jval \<Rightarrow> jval list \<Rightarrow> unit prog" where
  "associate_subnets p message rt_id [] = ret ()"
| "associate_subnets p message rt_id (subnet_id # rest) =
     bnd (call p (Api ''ec2'' ''associate_route_table''
            [(''RouteTableId'', rt_id), (''SubnetId'', subnet_id)])) (\<lambda>_.
     bnd (print message [subnet_id, rt_id]) (\<lambda>_.
     associate_subnets p message rt_id rest))"

definition create_vpc :: "platform \<Rightarrow> jval prog" where
  "create_vpc p =
     bnd (enter ''create_vpc'') (\<lambda>_.
     bnd (call p (Api ''ec2'' ''create_vpc'' [(''CidrBlock'', JStr ''10.0.0.0/16'')])) (\<lambda>vpc_response.
     bnd (lift (sub2 vpc_response ''Vpc'' ''VpcId'')) (\<lambda>vpc_id.
     bnd (print ''VPC created: {vpc_id}'' [vpc_id]) (\<lambda>_.
     bnd (waiter p ''ec2'' ''vpc_available'' [(''VpcIds'', JList [vpc_id])]) (\<lambda>_.
     bnd (call p (Api ''ec2'' ''modify_vpc_attribute''
            [(''VpcId'', vpc_id), (''EnableDnsHostnames'', JObj [(''Value'', JBool True)])])) (\<lambda>_.
     bnd (call p (Api ''ec2'' ''create_internet_gateway'' [])) (\<lambda>igw_response.
     bnd (lift (sub2 igw_response ''InternetGateway'' ''InternetGatewayId'')) (\<lambda>igw_id.
     bnd (print ''Internet Gateway created: {igw_id}'' [igw_id]) (\<lambda>_.
     bnd (call p (Api ''ec2'' ''attach_internet_gateway''
            [(''InternetGatewayId'', igw_id), (''VpcId'', vpc_id)])) (\<lambda>_.
     bnd (print ''Internet Gateway {igw_id} attached to VPC {vpc_id}'' [igw_id, vpc_id]) (\<lambda>_.
     bnd (call p (Api ''ec2'' ''describe_availability_zones''
            [(''Filters'', JList [JObj [(''Name'', JStr ''region-name''),
                                        (''Values'', JList [JStr ''us-west-1''])]])])) (\<lambda>az_response.
     bnd (lift (subscript az_response ''AvailabilityZones'')) (\<lambda>zones.
     bnd (lift (iter zones)) (\<lambda>zone_list.
     bnd (lift (subscript_all zone_list ''ZoneName'')) (\<lambda>available_azs.
     bnd (if length available_azs < 2
          then raise (RaisedException ''Need at least 2 availability zones'') else ret ()) (\<lambda>_.
     bnd (create_subnets p vpc_id 0 (take 2 available_azs) ([], [])) (\<lambda>subnets.
     bnd (call p (Api ''ec2'' ''create_route_table'' [(''VpcId'', vpc_id)])) (\<lambda>public_rt.
     bnd (lift (sub2 public_rt ''RouteTable'' ''RouteTableId'')) (\<lambda>public_rt_id.
     bnd (print ''Public route table created: {public_rt_id}'' [public_rt_id]) (\<lambda>_.
     bnd (call p (Api ''ec2'' ''create_route''
            [(''RouteTableId'', public_rt_id), (''DestinationCidrBlock'', JStr ''0.0.0.0/0''),
             (''GatewayId'', igw_id)])) (\<lambda>_.
     bnd (associate_subnets p
            ''Associated public subnet {subnet_id} with route table {public_rt_id}''
            public_rt_id (fst subnets)) (\<lambda>_.
     bnd (call p (Api ''ec2'' ''create_route_table'' [(''VpcId'', vpc_id)])) (\<lambda>private_rt.
     bnd (lift (sub2 private_rt ''RouteTable'' ''RouteTableId'')) (\<lambda>private_rt_id.
     bnd (print ''Private route table created: {private_rt_id}'' [private_rt_id]) (\<lambda>_.
     bnd (associate_subnets p
            ''Associated private subnet {subnet_id} with route table {private_rt_id}''
            private_rt_id (snd subnets)) (\<lambda>_.
     bnd (call p (Api ''ec2'' ''allocate_address'' [(''Domain'', JStr ''vpc'')])) (\<lambda>eip.
     bnd (lift (subscript eip ''AllocationId'')) (\<lambda>allocation_id.
     bnd (lift (first (JList (fst subnets)))) (\<lambda>first_public.
     bnd (call p (Api ''ec2'' ''create_nat_gateway''
            [(''AllocationId'', allocation_id), (''SubnetId'', first_public)])) (\<lambda>nat_gateway.
     bnd (lift (sub2 nat_gateway ''NatGateway'' ''NatGatewayId'')) (\<lambda>nat_gateway_id.
     bnd (print ''NAT Gateway created: {nat_gateway_id}'' [nat_gateway_id]) (\<lambda>_.
     bnd (print ''Waiting for NAT Gateway to be available...'' []) (\<lambda>_.
     bnd (waiter p ''ec2'' ''nat_gateway_available''
            [(''NatGatewayIds'', JList [nat_gateway_id])]) (\<lambda>_.
     bnd (call p (Api ''ec2'' ''create_route''
            [(''RouteTableId'', private_rt_id), (''DestinationCidrBlock'', JStr ''0.0.0.0/0''),
             (''NatGatewayId'', nat_gateway_id)])) (\<lambda>_.
     bnd (print ''Added route to NAT Gateway for private route table'' []) (\<lambda>_.
     ret (JObj [(''vpc_id'', vpc_id), (''igw_id'', igw_id),
                (''subnets'', JObj [(''public'', JList (fst subnets)),
                                    (''private'', JList (snd subnets))]),
                (''public_rt_id'', public_rt_id), (''private_rt_id'', private_rt_id),
                (''nat_gateway_id'', nat_gateway_id)])))))))))))))))))))))))))))))))))))))"

definition tcp_from_anywhere :: "int \<Rightarrow> jval" where
  "tcp_from_anywhere port =
     JObj [(''IpProtocol'', JStr ''tcp''), (''FromPort'', JInt port), (''ToPort'', JInt port),
           (''IpRanges'', JList [JObj [(''CidrIp'', JStr ''0.0.0.0/0'')]])]"

definition tcp_from_group :: "int \<Rightarrow> jval \<Rightarrow> jval" where
  "tcp_from_group port sg =
     JObj [(''IpProtocol'', JStr ''tcp''), (''FromPort'', JInt port), (''ToPort'', JInt port),
           (''UserIdGroupPairs'', JList [JObj [(''GroupId'', sg)]])]"

definition create_security_groups :: "platform \<Rightarrow> jval \<Rightarrow> jval prog" where
  "create_security_groups p vpc_id =
     bnd (enter ''create_security_groups'') (\<lambda>_.
     bnd (call p (Api ''ec2'' ''create_security_group''
            [(''GroupName'', JStr ''ProjectOrc-ALB-SG''), (''VpcId'', vpc_id)])) (\<lambda>alb_sg.
     bnd (lift (subscript alb_sg ''GroupId'')) (\<lambda>alb_sg_id.
     bnd (print ''ALB Security Group created: {alb_sg_id}'' [alb_sg_id]) (\<lambda>_.
     bnd (call p (Api ''ec2'' ''authorize_security_group_ingress''
            [(''GroupId'', alb_sg_id),
             (''IpPermissions'', JList [tcp_from_anywhere 80, tcp_from_anywhere 443])])) (\<lambda>_.
     bnd (call p (Api ''ec2'' ''create_security_group''
            [(''GroupName'', JStr ''ProjectOrc-Backend-SG''), (''VpcId'', vpc_id)])) (\<lambda>backend_sg.
     bnd (lift (subscript backend_sg ''GroupId'')) (\<lambda>backend_sg_id.
     bnd (print ''Backend Security Group created: {backend_sg_id}'' [backend_sg_id]) (\<lambda>_.
     bnd (call p (Api ''ec2'' ''authorize_security_group_ingress''
            [(''GroupId'', backend_sg_id),
             (''IpPermissions'', JList [tcp_from_group 3001 alb_sg_id,
                                        tcp_from_group 3002 alb_sg_id])])) (\<lambda>_.
     bnd (call p (Api ''ec2'' ''authorize_security_group_ingress''
            [(''GroupId'', backend_sg_id),
             (''IpPermissions'', JList [tcp_from_anywhere 22])])) (\<lambda>_.
     ret (JObj [(''alb_sg_id'', alb_sg_id), (''backend_sg_id'', backend_sg_id)])))))))))))"

text \<open>
  \<open>create_load_balancer(subnets, alb_sg_id)\<close>.  The two \<open>create_target_group\<close> calls
  pass \<open>VpcId=vpc_id\<close>, and \<open>vpc_id\<close> is neither a parameter nor a local: it is the
  module-level variable.  Python evaluates the keyword arguments before the call, so an
  unassigned \<open>vpc_id\<close> raises before the target group is requested.
\<close>

definition create_load_balancer :: "platform \<Rightarrow> jval \<Rightarrow> jval \<Rightarrow> jval prog" where
  "create_load_balancer p subnets alb_sg_id =
     bnd (enter ''create_load_balancer'') (\<lambda>_.
     bnd (lift (subscript subnets ''public'')) (\<lambda>public_subnets.
     bnd (call p (Api ''elbv2'' ''create_load_balancer''
            [(''Name'', JStr ''ProjectOrc-ALB''), (''Subnets'', public_subnets),
             (''SecurityGroups'', JList [alb_sg_id])])) (\<lambda>load_balancer.
     bnd (lift (sub_first_sub load_balancer ''LoadBalancers'' ''LoadBalancerArn'')) (\<lambda>alb_arn.
     bnd (lift (sub_first_sub load_balancer ''LoadBalancers'' ''DNSName'')) (\<lambda>alb_dns.
     bnd (print ''Application Load Balancer created: {alb_arn}'' [alb_arn]) (\<lambda>_.
     bnd (print ''ALB DNS Name: {alb_dns}'' [alb_dns]) (\<lambda>_.
     bnd (read_global g_vpc_id ''vpc_id'') (\<lambda>vpc_id.
     bnd (call p (Api ''elbv2'' ''create_target_group''
            [(''Name'', JStr ''ProjectOrc-Hello-TG''), (''Port'', JInt 3001),
             (''VpcId'', vpc_id)])) (\<lambda>hello_target_group.
     bnd (lift (sub_first_sub hello_target_group ''TargetGroups'' ''TargetGroupArn'')) (\<lambda>hello_tg_arn.
     bnd (print ''Hello Service Target Group created: {hello_tg_arn}'' [hello_tg_arn]) (\<lambda>_.
     bnd (read_global g_vpc_id ''vpc_id'') (\<lambda>vpc_id.
     bnd (call p (Api ''elbv2'' ''create_target_group''
            [(''Name'', JStr ''ProjectOrc-Profile-TG''), (''Port'', JInt 3002),
             (''VpcId'', vpc_id)])) (\<lambda>profile_target_group.
     bnd (lift (sub_first_sub profile_target_group ''TargetGroups'' ''TargetGroupArn'')) (\<lambda>profile_tg_arn.
     bnd (print ''Profile Service Target Group created: {profile_tg_arn}'' [profile_tg_arn]) (\<lambda>_.
     bnd (call p (Api ''elbv2'' ''create_listener''
            [(''LoadBalancerArn'', alb_arn), (''Port'', JInt 80),
             (''DefaultActions'', JList [JObj [(''Type'', JStr ''forward''),
                                              (''TargetGroupArn'', hello_tg_arn)]])])) (\<lambda>hello_listener.
     bnd (print ''Hello Service Listener created'' []) (\<lambda>_.
     bnd (lift (sub_first_sub hello_listener ''Listeners'' ''ListenerArn'')) (\<lambda>listener_arn.
     bnd (call p (Api ''elbv2'' ''create_rule''
            [(''ListenerArn'', listener_arn), (''Priority'', JInt 10),
             (''Actions'', JList [JObj [(''Type'', JStr ''forward''),
                                       (''TargetGroupArn'', profile_tg_arn)]])])) (\<lambda>_.
     bnd (print ''Profile Service Listener Rule created'' []) (\<lambda>_.
     ret (JObj [(''alb_arn'', alb_arn), (''alb_dns'', alb_dns),
                (''hello_tg_arn'', hello_tg_arn),
                (''profile_tg_arn'', profile_tg_arn)])))))))))))))))))))))"

definition create_iam_role :: "platform \<Rightarrow> jval prog" where
  "create_iam_role p =
     bnd (enter ''create_iam_role'') (\<lambda>_.
     bnd (call p (Api ''iam'' ''create_role'' [(''RoleName'', JStr ''ProjectOrc-EC2-ECR-Role'')])) (\<lambda>role.
     bnd (lift (sub2 role ''Role'' ''RoleName'')) (\<lambda>role_name.
     bnd (lift (sub2 role ''Role'' ''Arn'')) (\<lambda>role_arn.
     bnd (print ''IAM Role created: {role_name} - {role_arn}'' [role_name, role_arn]) (\<lambda>_.
     bnd (call p (Api ''iam'' ''attach_role_policy''
            [(''RoleName'', role_name),
             (''PolicyArn'', JStr ''arn:aws:iam::aws:policy/AmazonECR-FullAccess'')])) (\<lambda>_.
     bnd (print ''Attached ECR policy to role {role_name}'' [role_name]) (\<lambda>_.
     bnd (call p (Api ''iam'' ''create_instance_profile''
            [(''InstanceProfileName'', JStr ''ProjectOrc-EC2-ECR-Profile'')])) (\<lambda>instance_profile.
     bnd (call p (Api ''iam'' ''add_role_to_instance_profile''
            [(''InstanceProfileName'', JStr ''ProjectOrc-EC2-ECR-Profile''),
             (''RoleName'', role_name)])) (\<lambda>_.
     bnd (lift (sub2 instance_profile ''InstanceProfile'' ''Arn'')) (\<lambda>instance_profile_arn.
     bnd (print ''Instance Profile created: {instance_profile_arn}'' [instance_profile_arn]) (\<lambda>_.
     bnd (print ''Waiting for the instance profile to be ready...'' []) (\<lambda>_.
     bnd (sleep 15) (\<lambda>_.
     ret (JObj [(''role_name'', role_name), (''role_arn'', role_arn),
                (''instance_profile_name'', JStr ''ProjectOrc-EC2-ECR-Profile''),
                (''instance_profile_arn'', instance_profile_arn)]))))))))))))))"

definition create_launch_template :: "platform \<Rightarrow> jval \<Rightarrow> jval \<Rightarrow> jval prog" where
  "create_launch_template p backend_sg_id instance_profile_name =
     bnd (enter ''create_launch_template'') (\<lambda>_.
     bnd (call p (Api ''ec2'' ''create_launch_template''
            [(''LaunchTemplateName'', JStr ''ProjectOrc-BackendLT''),
             (''LaunchTemplateData'',
                JObj [(''ImageId'', JStr ''ami-0c110e13b02dea71a''),
                      (''InstanceType'', JStr ''t2.micro''),
                      (''SecurityGroupIds'', JList [backend_sg_id]),
                      (''IamInstanceProfile'', JObj [(''Name'', instance_profile_name)])])])) (\<lambda>launch_template.
     bnd (lift (sub2 launch_template ''LaunchTemplate'' ''LaunchTemplateId'')) (\<lambda>lt_id.
     bnd (lift (sub2 launch_template ''LaunchTemplate'' ''LatestVersionNumber'')) (\<lambda>lt_version.
     bnd (print ''Launch Template created: {lt_id}, version: {lt_version}'' [lt_id, lt_version]) (\<lambda>_.
     ret (JObj [(''lt_id'', lt_id), (''lt_version'', lt_version)]))))))"

definition create_auto_scaling_group :: "platform \<Rightarrow> jval \<Rightarrow> jval \<Rightarrow> jval \<Rightarrow> jval prog" where
  "create_auto_scaling_group p lt_id subnets target_group_arns =
     bnd (enter ''create_auto_scaling_group'') (\<lambda>_.
     bnd (lift (subscript subnets ''private'')) (\<lambda>private_subnets.
     bnd (lift (comma_join private_subnets)) (\<lambda>zone_identifier.
     bnd (call p (Api ''autoscaling'' ''create_auto_scaling_group''
            [(''AutoScalingGroupName'', JStr ''ProjectOrc-Backend-ASG''),
             (''LaunchTemplate'', JObj [(''LaunchTemplateId'', lt_id), (''Version'', JStr ''$Latest'')]),
             (''MinSize'', JInt 2), (''MaxSize'', JInt 5), (''DesiredCapacity'', JInt 2),
             (''VPCZoneIdentifier'', zone_identifier),
             (''TargetGroupARNs'', target_group_arns)])) (\<lambda>_.
     bnd (print ''Auto Scaling Group created: ProjectOrc-Backend-ASG'' []) (\<lambda>_.
     bnd (call p (Api ''autoscaling'' ''put_scaling_policy''
            [(''AutoScalingGroupName'', JStr ''ProjectOrc-Backend-ASG''),
             (''PolicyName'', JStr ''ProjectOrc-ScaleUp'')])) (\<lambda>_.
     bnd (print ''Scale up policy created'' []) (\<lambda>_.
     ret (JObj [(''asg_name'', JStr ''ProjectOrc-Backend-ASG'')]))))))))"

definition save_infrastructure_details :: "platform \<Rightarrow> jval \<Rightarrow> unit prog" where
  "save_infrastructure_details p infrastructure =
     bnd (dump_to_file p the_ledger_file infrastructure) (\<lambda>_.
     print ''Infrastructure details saved to infrastructure_details.json'' [])"

definition assign_vpc_id :: "jval \<Rightarrow> unit prog" where
  "assign_vpc_id v = (\<lambda>w. (Inr (), w\<lparr>g_vpc_id := Some v\<rparr>))"

text \<open>The \<open>__main__\<close> block of boto3-iac-script.py.\<close>

definition main_iac :: "platform \<Rightarrow> unit prog" where
  "main_iac p =
     bnd (print ''Starting infrastructure deployment...'' []) (\<lambda>_.
     bnd (create_vpc p) (\<lambda>vpc_info.
     bnd (lift (subscript vpc_info ''vpc_id'')) (\<lambda>vpc_id.
     bnd (assign_vpc_id vpc_id) (\<lambda>_.
     bnd (create_security_groups p vpc_id) (\<lambda>sg_info.
     bnd (create_iam_role p) (\<lambda>iam_info.
     bnd (lift (subscript sg_info ''backend_sg_id'')) (\<lambda>backend_sg_id.
     bnd (lift (subscript iam_info ''instance_profile_name'')) (\<lambda>instance_profile_name.
     bnd (create_launch_template p backend_sg_id instance_profile_name) (\<lambda>lt_info.
     bnd (lift (subscript vpc_info ''subnets'')) (\<lambda>subnets.
     bnd (lift (subscript sg_info ''alb_sg_id'')) (\<lambda>alb_sg_id.
     bnd (create_load_balancer p subnets alb_sg_id) (\<lambda>lb_info.
     bnd (lift (subscript lt_info ''lt_id'')) (\<lambda>lt_id.
     bnd (lift (subscript vpc_info ''subnets'')) (\<lambda>subnets'.
     bnd (lift (subscript lb_info ''hello_tg_arn'')) (\<lambda>hello_tg_arn.
     bnd (lift (subscript lb_info ''profile_tg_arn'')) (\<lambda>profile_tg_arn.
     bnd (create_auto_scaling_group p lt_id subnets' (JList [hello_tg_arn, profile_tg_arn])) (\<lambda>asg_info.
     bnd (save_infrastructure_details p
            (JObj [(''vpc'', vpc_info), (''security_groups'', sg_info), (''iam'', iam_info),
                   (''launch_template'', lt_info), (''load_balancer'', lb_info),
                   (''auto_scaling_group'', asg_info)])) (\<lambda>_.
     print ''Infrastructure deployment completed successfully!'' []))))))))))))))))))"

section \<open>complete-deployment-script.py\<close>

definition assign_infrastructure :: "jval \<Rightarrow> unit prog" where
  "assign_infrastructure v = (\<lambda>w. (Inr (), w\<lparr>g_infrastructure := Some v\<rparr>))"

text \<open>
  The module-level load, run before anything else of the script: only
  \<open>FileNotFoundError\<close> is caught; it prints the diagnostic and calls \<open>exit(1)\<close>.
\<close>

definition load_infrastructure :: "platform \<Rightarrow> unit prog" where
  "load_infrastructure p =
     try_except
       (bnd (load_from_file p the_ledger_file) (\<lambda>infrastructure.
        bnd (assign_infrastructure infrastructure) (\<lambda>_.
        bnd (print ''Loaded existing infrastructure details'' []) (\<lambda>_.
        bnd (lift (sub2 infrastructure ''vpc'' ''vpc_id'')) (\<lambda>vpc_id.
        assign_vpc_id vpc_id)))))
       is_FileNotFoundError
       (\<lambda>e. bnd (print ''No existing infrastructure details found, please run the VPC setup script first'' []) (\<lambda>_.
            raise (SystemExit 1)))"

definition deploy_backend_services :: "platform \<Rightarrow> jval prog" where
  "deploy_backend_services p =
     bnd (enter ''deploy_backend_services'') (\<lambda>_.
     bnd (print ''Deploying backend services...'' []) (\<lambda>_.
     bnd (read_global g_infrastructure ''infrastructure'') (\<lambda>infrastructure.
     bnd (lift (sub2 infrastructure ''auto_scaling_group'' ''asg_name'')) (\<lambda>asg_name.
     bnd (call p (Api ''autoscaling'' ''put_lifecycle_hook''
            [(''AutoScalingGroupName'', asg_name),
             (''LifecycleHookName'', JStr ''terminate-backend-hook''),
             (''HeartbeatTimeout'', JInt 300)])) (\<lambda>_.
     bnd (read_global g_infrastructure ''infrastructure'') (\<lambda>infrastructure.
     bnd (lift (sub2 infrastructure ''auto_scaling_group'' ''asg_name'')) (\<lambda>asg_name.
     bnd (call p (Api ''autoscaling'' ''put_scheduled_update_group_action''
            [(''AutoScalingGroupName'', asg_name),
             (''ScheduledActionName'', JStr ''scale-up-morning''),
             (''DesiredCapacity'', JInt 4),
             (''Recurrence'', JStr ''0 8 * * MON-FRI'')])) (\<lambda>_.
     bnd (read_global g_infrastructure ''infrastructure'') (\<lambda>infrastructure.
     bnd (lift (sub2 infrastructure ''auto_scaling_group'' ''asg_name'')) (\<lambda>asg_name.
     bnd (call p (Api ''autoscaling'' ''put_scheduled_update_group_action''
            [(''AutoScalingGroupName'', asg_name),
             (''ScheduledActionName'', JStr ''scale-down-evening''),
             (''DesiredCapacity'', JInt 2),
             (''Recurrence'', JStr ''0 20 * * MON-FRI'')])) (\<lambda>_.
     bnd (print ''Backend services deployment configured'' []) (\<lambda>_.
     ret (JObj [(''status'',
                 JStr ''Backend ASG configured with lifecycle hooks and scheduled scaling'')])))))))))))))"

definition set_up_load_balancer :: "platform \<Rightarrow> jval prog" where
  "set_up_load_balancer p =
     bnd (enter ''set_up_load_balancer'') (\<lambda>_.
     bnd (read_global g_infrastructure ''infrastructure'') (\<lambda>infrastructure.
     bnd (lift (sub2 infrastructure ''load_balancer'' ''alb_arn'')) (\<lambda>alb_arn.
     bnd (call p (Api ''elbv2'' ''modify_load_balancer_attributes''
            [(''LoadBalancerArn'', alb_arn),
             (''Attributes'', JList [JObj [(''Key'', JStr ''load_balancing.cross_zone.enabled''),
                                          (''Value'', JStr ''true'')]])])) (\<lambda>_.
     bnd (print ''Load balancer configured with additional settings'' []) (\<lambda>_.
     bnd (read_global g_infrastructure ''infrastructure'') (\<lambda>infrastructure.
     bnd (lift (sub2 infrastructure ''load_balancer'' ''alb_dns'')) (\<lambda>alb_dns.
     ret (JObj [(''alb_arn'', alb_arn), (''alb_dns'', alb_dns)]))))))))"

text \<open>
  The search loop of \<open>configure_dns\<close>:
  \<open>for zone in response['HostedZones']: if zone['Name'] == f"{domain_name}." or
  zone['Name'] == domain_name: hosted_zone = zone; break\<close>
\<close>

fun find_zone :: "jval list \<Rightarrow> string \<Rightarrow> exn + jval option" where
  "find_zone [] domain_name = Inr None"
| "find_zone (zone # zones) domain_name =
     (case subscript zone ''Name'' of
        Inl e \<Rightarrow> Inl e
      | Inr name \<Rightarrow>
          if name = JStr (domain_name @ ''.'') \<or> name = JStr domain_name
          then Inr (Some zone) else find_zone zones domain_name)"

text \<open>\<open>v.split('/')[-1]\<close>: what follows the last slash; \<open>v\<close> must be a string.\<close>

fun last_segment :: "jval \<Rightarrow> exn + jval" where
  "last_segment (JStr s) = Inr (JStr (rev (takeWhile (\<lambda>c. c \<noteq> CHR ''/'') (rev s))))"
| "last_segment _ = Inl AttributeError"

text \<open>\<open>v.get(k, default)\<close>: \<open>v\<close> must be a dictionary.\<close>

fun dict_get :: "jval \<Rightarrow> string \<Rightarrow> jval \<Rightarrow> exn + jval" where
  "dict_get (JObj d) k dflt = Inr (case map_of d k of None \<Rightarrow> dflt | Some v \<Rightarrow> v)"
| "dict_get _ k dflt = Inl AttributeError"

definition alias_record :: "string \<Rightarrow> jval \<Rightarrow> jval" where
  "alias_record name alb_dns =
     JObj [(''Action'', JStr ''UPSERT''),
           (''ResourceRecordSet'',
              JObj [(''Name'', JStr name), (''Type'', JStr ''A''),
                    (''AliasTarget'', JObj [(''HostedZoneId'', JStr ''Z368ELLRRE2KJ0''),
                                            (''DNSName'', alb_dns),
                                            (''EvaluateTargetHealth'', JBool True)])])]"

text \<open>The \<open>try\<close> block of \<open>configure_dns(domain_name, alb_dns)\<close>.\<close>

definition configure_dns_try :: "platform \<Rightarrow> string \<Rightarrow> jval \<Rightarrow> jval prog" where
  "configure_dns_try p domain_name alb_dns =
     bnd (call p (Api ''route53'' ''list_hosted_zones_by_name''
            [(''DNSName'', JStr domain_name)])) (\<lambda>response.
     bnd (lift (subscript response ''HostedZones'')) (\<lambda>zones.
     bnd (lift (iter zones)) (\<lambda>zone_list.
     bnd (lift (find_zone zone_list domain_name)) (\<lambda>found.
     bnd (case found of
            Some zone \<Rightarrow> ret zone
          | None \<Rightarrow>
              bnd (uuid4 p) (\<lambda>caller_reference.
              bnd (call p (Api ''route53'' ''create_hosted_zone''
                     [(''Name'', JStr domain_name),
                      (''CallerReference'', JStr (str_uuid caller_reference))])) (\<lambda>created.
              bnd (lift (subscript created ''HostedZone'')) (\<lambda>zone.
              bnd (print ''Created new hosted zone for {domain_name}'' [JStr domain_name]) (\<lambda>_.
              ret zone))))) (\<lambda>hosted_zone.
     bnd (lift (subscript hosted_zone ''Id'')) (\<lambda>zone_id.
     bnd (lift (last_segment zone_id)) (\<lambda>hosted_zone_id.
     bnd (call p (Api ''route53'' ''change_resource_record_sets''
            [(''HostedZoneId'', hosted_zone_id),
             (''ChangeBatch'',
                JObj [(''Changes'', JList [alias_record domain_name alb_dns,
                                          alias_record (''www.'' @ domain_name) alb_dns])])])) (\<lambda>_.
     bnd (print ''DNS records created/updated for {domain_name} and www.{domain_name}''
            [JStr domain_name]) (\<lambda>_.
     bnd (lift (dict_get hosted_zone ''DelegationSet'' (JObj []))) (\<lambda>delegation_set.
     bnd (lift (dict_get delegation_set ''NameServers'' (JList []))) (\<lambda>nameservers.
     ret (JObj [(''domain_name'', JStr domain_name), (''hosted_zone_id'', hosted_zone_id),
                (''nameservers'', nameservers)]))))))))))))"

text \<open>
  \<open>configure_dns(domain_name, alb_dns)\<close>: everything after the first print is inside
  \<open>try: ... except Exception as e\<close>, whose handler prints and returns
  \<open>{'error': str(e)}\<close>.
\<close>

definition configure_dns :: "platform \<Rightarrow> string \<Rightarrow> jval \<Rightarrow> jval prog" where
  "configure_dns p domain_name alb_dns =
     bnd (enter ''configure_dns'') (\<lambda>_.
     bnd (print ''Configuring DNS for {domain_name} pointing to {alb_dns}...''
            [JStr domain_name, alb_dns]) (\<lambda>_.
     try_except
       (configure_dns_try p domain_name alb_dns)
       is_Exception
       (\<lambda>e. bnd (print ''Error configuring DNS: {str(e)}'' [JStr (str_exn e)]) (\<lambda>_.
            ret (JObj [(''error'', JStr (str_exn e))])))))"

text \<open>\<open>s.replace(old, v)\<close> needs a string \<open>v\<close>.\<close>

fun require_str :: "jval \<Rightarrow> exn + jval" where
  "require_str (JStr s) = Inr (JStr s)"
| "require_str _ = Inl TypeError"

definition deploy_frontend :: "platform \<Rightarrow> jval prog" where
  "deploy_frontend p =
     bnd (enter ''deploy_frontend'') (\<lambda>_.
     bnd (print ''Deploying frontend service...'' []) (\<lambda>_.
     bnd (read_global g_vpc_id ''vpc_id'') (\<lambda>vpc_id.
     bnd (call p (Api ''ec2'' ''create_security_group''
            [(''GroupName'', JStr ''ProjectOrc-Frontend-SG''), (''VpcId'', vpc_id)])) (\<lambda>frontend_sg.
     bnd (lift (subscript frontend_sg ''GroupId'')) (\<lambda>frontend_sg_id.
     bnd (call p (Api ''ec2'' ''authorize_security_group_ingress''
            [(''GroupId'', frontend_sg_id),
             (''IpPermissions'', JList [tcp_from_anywhere 80, tcp_from_anywhere 443])])) (\<lambda>_.
     bnd (read_global g_infrastructure ''infrastructure'') (\<lambda>infrastructure.
     bnd (lift (sub2 infrastructure ''load_balancer'' ''alb_dns'')) (\<lambda>alb_dns.
     bnd (lift (require_str alb_dns)) (\<lambda>_.
     bnd (read_global g_infrastructure ''infrastructure'') (\<lambda>infrastructure.
     bnd (lift (sub2 infrastructure ''iam'' ''instance_profile_name'')) (\<lambda>instance_profile_name.
     bnd (call p (Api ''ec2'' ''create_launch_template''
            [(''LaunchTemplateName'', JStr ''ProjectOrc-FrontendLT''),
             (''LaunchTemplateData'',
                JObj [(''ImageId'', JStr ''ami-0c110e13b02dea71a''),
                      (''InstanceType'', JStr ''t2.micro''),
                      (''SecurityGroupIds'', JList [frontend_sg_id]),
                      (''IamInstanceProfile'', JObj [(''Name'', instance_profile_name)])])])) (\<lambda>frontend_lt.
     bnd (lift (sub2 frontend_lt ''LaunchTemplate'' ''LaunchTemplateId'')) (\<lambda>frontend_lt_id.
     bnd (read_global g_infrastructure ''infrastructure'') (\<lambda>infrastructure.
     bnd (lift (sub2 infrastructure ''vpc'' ''subnets'')) (\<lambda>subnets.
     bnd (lift (subscript subnets ''public'')) (\<lambda>public_subnets.
     bnd (lift (comma_join public_subnets)) (\<lambda>zone_identifier.
     bnd (call p (Api ''autoscaling'' ''create_auto_scaling_group''
            [(''AutoScalingGroupName'', JStr ''ProjectOrc-Frontend-ASG''),
             (''LaunchTemplate'', JObj [(''LaunchTemplateId'', frontend_lt_id),
                                        (''Version'', JStr ''$Latest'')]),
             (''MinSize'', JInt 2), (''MaxSize'', JInt 4), (''DesiredCapacity'', JInt 2),
             (''VPCZoneIdentifier'', zone_identifier)])) (\<lambda>_.
     bnd (call p (Api ''autoscaling'' ''put_scaling_policy''
            [(''AutoScalingGroupName'', JStr ''ProjectOrc-Frontend-ASG''),
             (''PolicyName'', JStr ''ProjectOrc-Frontend-ScaleUp'')])) (\<lambda>_.
     bnd (print ''Frontend service deployed with auto scaling'' []) (\<lambda>_.
     ret (JObj [(''frontend_sg_id'', frontend_sg_id), (''frontend_lt_id'', frontend_lt_id),
                (''frontend_asg_name'', JStr ''ProjectOrc-Frontend-ASG'')])))))))))))))))))))))"

text \<open>
  The first block of both backup functions: the bucket is created and given its
  lifecycle rule inside \<open>try\<close>; the handler prints and returns \<open>{'error': str(e)}\<close>
  from the function.  The result is \<open>Some record\<close> for that early return and \<open>None\<close>
  when the function goes on.
\<close>

definition create_backup_bucket :: "platform \<Rightarrow> string \<Rightarrow> jval option prog" where
  "create_backup_bucket p bucket_name =
     try_except
       (bnd (call p (Api ''s3'' ''create_bucket''
               [(''Bucket'', JStr bucket_name),
                (''CreateBucketConfiguration'',
                   JObj [(''LocationConstraint'', JStr ''us-west-1'')])])) (\<lambda>_.
        bnd (call p (Api ''s3'' ''put_bucket_lifecycle_configuration''
               [(''Bucket'', JStr bucket_name),
                (''LifecycleConfiguration'',
                   JObj [(''Rules'', JList [JObj [(''ID'', JStr ''ExpireOldBackups''),
                                                  (''Status'', JStr ''Enabled''),
                                                  (''Expiration'', JObj [(''Days'', JInt 30)])]])])])) (\<lambda>_.
        bnd (print ''Created S3 bucket: {bucket_name}'' [JStr bucket_name]) (\<lambda>_.
        ret None))))
       is_Exception
       (\<lambda>e. bnd (print ''Error creating S3 bucket: {str(e)}'' [JStr (str_exn e)]) (\<lambda>_.
            ret (Some (JObj [(''error'', JStr (str_exn e))]))))"

definition create_lambda_functions :: "platform \<Rightarrow> jval prog" where
  "create_lambda_functions p =
     bnd (enter ''create_lambda_functions'') (\<lambda>_.
     bnd (print ''Creating Lambda functions...'' []) (\<lambda>_.
     bnd (uuid4 p) (\<lambda>uuid.
     bnd (create_backup_bucket p (''project-orc-db-backups-'' @ take 8 uuid)) (\<lambda>early.
     case early of
       Some record \<Rightarrow> ret record
     | None \<Rightarrow>
     bnd (call p (Api ''iam'' ''create_role'' [(''RoleName'', JStr ''ProjectOrc-Lambda-Role'')])) (\<lambda>lambda_role.
     bnd (lift (sub2 lambda_role ''Role'' ''RoleName'')) (\<lambda>lambda_role_name.
     bnd (lift (sub2 lambda_role ''Role'' ''Arn'')) (\<lambda>lambda_role_arn.
     bnd (call p (Api ''iam'' ''attach_role_policy''
            [(''RoleName'', lambda_role_name),
             (''PolicyArn'', JStr ''arn:aws:iam::aws:policy/AmazonS3FullAccess'')])) (\<lambda>_.
     bnd (call p (Api ''iam'' ''attach_role_policy''
            [(''RoleName'', lambda_role_name),
             (''PolicyArn'', JStr ''arn:aws:iam::aws:policy/AmazonRDSFullAccess'')])) (\<lambda>_.
     bnd (call p (Api ''iam'' ''attach_role_policy''
            [(''RoleName'', lambda_role_name),
             (''PolicyArn'', JStr ''arn:aws:iam::aws:policy/service-role/AWSLambdaBasicExecutionRole'')])) (\<lambda>_.
     bnd (print ''Created IAM role for Lambda: {lambda_role_name}'' [lambda_role_name]) (\<lambda>_.
     bnd (print ''Waiting for IAM role to propagate...'' []) (\<lambda>_.
     bnd (sleep 15) (\<lambda>_.
     bnd (call p (Api ''lambda'' ''create_function''
            [(''FunctionName'', JStr ''ProjectOrc-DB-Backup''), (''Role'', lambda_role_arn),
             (''Environment'',
                JObj [(''Variables'',
                         JObj [(''DB_INSTANCE_ID'', JStr ''project-orc-db''),
                               (''S3_BUCKET'', JStr (''project-orc-db-backups-'' @ take 8 uuid))])])])) (\<lambda>lambda_response.
     bnd (lift (subscript lambda_response ''FunctionArn'')) (\<lambda>lambda_function_arn.
     bnd (print ''Created Lambda function: {lambda_function_arn}'' [lambda_function_arn]) (\<lambda>_.
     bnd (call p (Api ''events'' ''put_rule''
            [(''Name'', JStr ''ProjectOrc-Nightly-Backup''),
             (''ScheduleExpression'', JStr ''cron(0 3 * * ? *)'')])) (\<lambda>rule_response.
     bnd (lift (subscript rule_response ''RuleArn'')) (\<lambda>rule_arn.
     bnd (call p (Api ''lambda'' ''add_permission''
            [(''FunctionName'', JStr ''ProjectOrc-DB-Backup''),
             (''StatementId'', JStr ''AllowCloudWatchEvents''), (''SourceArn'', rule_arn)])) (\<lambda>_.
     bnd (call p (Api ''events'' ''put_targets''
            [(''Rule'', JStr ''ProjectOrc-Nightly-Backup''),
             (''Targets'', JList [JObj [(''Id'', JStr ''ProjectOrc-DB-Backup-Target''),
                                       (''Arn'', lambda_function_arn)]])])) (\<lambda>_.
     bnd (print ''Scheduled nightly DB backups via CloudWatch Events'' []) (\<lambda>_.
     ret (JObj [(''lambda_role_name'', lambda_role_name), (''lambda_role_arn'', lambda_role_arn),
                (''lambda_function_name'', JStr ''ProjectOrc-DB-Backup''),
                (''lambda_function_arn'', lambda_function_arn),
                (''s3_bucket'', JStr (''project-orc-db-backups-'' @ take 8 uuid)),
                (''cloudwatch_rule'', JStr ''ProjectOrc-Nightly-Backup'')]))))))))))))))))))))))"

text \<open>
  \<open>update_infrastructure_details(new_details)\<close>: \<open>infrastructure.update(new_details)\<close>
  on the module-level dictionary, then the whole dictionary is dumped to the file.
\<close>

definition update_infrastructure_details :: "platform \<Rightarrow> (string \<times> jval) list \<Rightarrow> unit prog" where
  "update_infrastructure_details p new_details =
     bnd (read_global g_infrastructure ''infrastructure'') (\<lambda>infrastructure.
     bnd (case infrastructure of
            JObj d \<Rightarrow> (\<lambda>w. (Inr (JObj (dict_update d new_details)),
                           w\<lparr>g_infrastructure := Some (JObj (dict_update d new_details))\<rparr>))
          | _ \<Rightarrow> raise AttributeError) (\<lambda>infrastructure'.
     bnd (dump_to_file p the_ledger_file infrastructure') (\<lambda>_.
     print ''Updated infrastructure details saved to infrastructure_details.json'' [])))"

definition domain_name :: string where
  "domain_name = ''project-orc.example.com''"

text \<open>The \<open>__main__\<close> block of complete-deployment-script.py.\<close>

definition main_deploy :: "platform \<Rightarrow> unit prog" where
  "main_deploy p =
     bnd (print ''Starting deployment of additional services...'' []) (\<lambda>_.
     bnd (deploy_backend_services p) (\<lambda>backend_info.
     bnd (set_up_load_balancer p) (\<lambda>lb_info.
     bnd (lift (subscript lb_info ''alb_dns'')) (\<lambda>alb_dns.
     bnd (configure_dns p domain_name alb_dns) (\<lambda>dns_info.
     bnd (deploy_frontend p) (\<lambda>frontend_info.
     bnd (create_lambda_functions p) (\<lambda>lambda_info.
     bnd (update_infrastructure_details p
            [(''backend_deployment'', backend_info), (''load_balancer_config'', lb_info),
             (''dns'', dns_info), (''frontend'', frontend_info), (''lambda'', lambda_info)]) (\<lambda>_.
     bnd (print ''Deployment completed successfully!'' []) (\<lambda>_.
     bnd (print ''Your application should be accessible at: http://{domain_name}''
            [JStr domain_name]) (\<lambda>_.
     bnd (print ''Note: DNS propagation may take up to 48 hours to complete.'' []) (\<lambda>_.
     bnd (lift (subscript lb_info ''alb_dns'')) (\<lambda>alb_dns'.
     print ''In the meantime, you can access the application via the ALB DNS: {alb_dns}''
       [alb_dns']))))))))))))"

text \<open>The whole script: the module-level load, then the \<open>__main__\<close> block.\<close>

definition script_deploy :: "platform \<Rightarrow> unit prog" where
  "script_deploy p = bnd (load_infrastructure p) (\<lambda>_. main_deploy p)"

section \<open>lambda-backup-script.py\<close>

definition backup_config_file :: string where
  "backup_config_file = ''backup_config.json''"

definition create_db_backup_lambda :: "platform \<Rightarrow> jval prog" where
  "create_db_backup_lambda p =
     bnd (enter ''create_db_backup_lambda'') (\<lambda>_.
     bnd (print ''Setting up database backup infrastructure...'' []) (\<lambda>_.
     bnd (uuid4 p) (\<lambda>uuid.
     bnd (create_backup_bucket p (''project-orc-db-backups-'' @ take 8 uuid)) (\<lambda>early.
     case early of
       Some record \<Rightarrow> ret record
     | None \<Rightarrow>
     bnd (call p (Api ''iam'' ''create_role''
            [(''RoleName'', JStr ''ProjectOrc-Lambda-Backup-Role'')])) (\<lambda>lambda_role.
     bnd (lift (sub2 lambda_role ''Role'' ''RoleName'')) (\<lambda>lambda_role_name.
     bnd (lift (sub2 lambda_role ''Role'' ''Arn'')) (\<lambda>lambda_role_arn.
     bnd (call p (Api ''iam'' ''attach_role_policy''
            [(''RoleName'', lambda_role_name),
             (''PolicyArn'', JStr ''arn:aws:iam::aws:policy/AmazonS3FullAccess'')])) (\<lambda>_.
     bnd (call p (Api ''iam'' ''attach_role_policy''
            [(''RoleName'', lambda_role_name),
             (''PolicyArn'', JStr ''arn:aws:iam::aws:policy/AmazonRDSFullAccess'')])) (\<lambda>_.
     bnd (call p (Api ''iam'' ''attach_role_policy''
            [(''RoleName'', lambda_role_name),
             (''PolicyArn'', JStr ''arn:aws:iam::aws:policy/service-role/AWSLambdaBasicExecutionRole'')])) (\<lambda>_.
     bnd (print ''Created IAM role for Lambda: {lambda_role_name}'' [lambda_role_name]) (\<lambda>_.
     bnd (print ''Waiting for IAM role to propagate...'' []) (\<lambda>_.
     bnd (sleep 15) (\<lambda>_.
     bnd (call p (Api ''lambda'' ''create_function''
            [(''FunctionName'', JStr ''ProjectOrc-DB-Backup''), (''Role'', lambda_role_arn),
             (''Environment'',
                JObj [(''Variables'',
                         JObj [(''DB_INSTANCE_ID'', JStr ''project-orc-db''),
                               (''S3_BUCKET'', JStr (''project-orc-db-backups-'' @ take 8 uuid)),
                               (''LAMBDA_ROLE_ARN'', lambda_role_arn)])])])) (\<lambda>lambda_response.
     bnd (lift (subscript lambda_response ''FunctionArn'')) (\<lambda>lambda_function_arn.
     bnd (print ''Created Lambda function: {lambda_function_arn}'' [lambda_function_arn]) (\<lambda>_.
     bnd (call p (Api ''events'' ''put_rule''
            [(''Name'', JStr ''ProjectOrc-Daily-DB-Backup''),
             (''ScheduleExpression'', JStr ''cron(0 3 * * ? *)'')])) (\<lambda>rule_response.
     bnd (lift (subscript rule_response ''RuleArn'')) (\<lambda>rule_arn.
     bnd (call p (Api ''lambda'' ''add_permission''
            [(''FunctionName'', JStr ''ProjectOrc-DB-Backup''),
             (''StatementId'', JStr ''AllowCloudWatchEvents''), (''SourceArn'', rule_arn)])) (\<lambda>_.
     bnd (call p (Api ''events'' ''put_targets''
            [(''Rule'', JStr ''ProjectOrc-Daily-DB-Backup''),
             (''Targets'', JList [JObj [(''Id'', JStr ''ProjectOrc-DB-Backup-Target''),
                                       (''Arn'', lambda_function_arn)]])])) (\<lambda>_.
     bnd (print ''Scheduled daily database backups at 3 AM UTC'' []) (\<lambda>_.
     bnd (call p (Api ''events'' ''put_rule''
            [(''Name'', JStr ''ProjectOrc-Weekly-Full-DB-Backup''),
             (''ScheduleExpression'', JStr ''cron(0 1 ? * SUN *)'')])) (\<lambda>weekly_rule_response.
     bnd (lift (subscript weekly_rule_response ''RuleArn'')) (\<lambda>weekly_rule_arn.
     bnd (call p (Api ''lambda'' ''add_permission''
            [(''FunctionName'', JStr ''ProjectOrc-DB-Backup''),
             (''StatementId'', JStr ''AllowWeeklyCloudWatchEvents''),
             (''SourceArn'', weekly_rule_arn)])) (\<lambda>_.
     bnd (call p (Api ''events'' ''put_targets''
            [(''Rule'', JStr ''ProjectOrc-Weekly-Full-DB-Backup''),
             (''Targets'', JList [JObj [(''Id'', JStr ''ProjectOrc-Weekly-DB-Backup-Target''),
                                       (''Arn'', lambda_function_arn)]])])) (\<lambda>_.
     bnd (print ''Scheduled weekly full database backups at 1 AM UTC on Sundays'' []) (\<lambda>_.
     bnd (dump_to_file p backup_config_file
            (JObj [(''lambda_role_name'', lambda_role_name), (''lambda_role_arn'', lambda_role_arn),
                   (''lambda_function_name'', JStr ''ProjectOrc-DB-Backup''),
                   (''lambda_function_arn'', lambda_function_arn),
                   (''s3_bucket'', JStr (''project-orc-db-backups-'' @ take 8 uuid)),
                   (''daily_cloudwatch_rule'', JStr ''ProjectOrc-Daily-DB-Backup''),
                   (''weekly_cloudwatch_rule'', JStr ''ProjectOrc-Weekly-Full-DB-Backup'')])) (\<lambda>_.
     bnd (print ''Backup configuration saved to backup_config.json'' []) (\<lambda>_.
     ret (JObj [(''lambda_role_name'', lambda_role_name), (''lambda_role_arn'', lambda_role_arn),
                (''lambda_function_name'', JStr ''ProjectOrc-DB-Backup''),
                (''lambda_function_arn'', lambda_function_arn),
                (''s3_bucket'', JStr (''project-orc-db-backups-'' @ take 8 uuid)),
                (''daily_cloudwatch_rule'', JStr ''ProjectOrc-Daily-DB-Backup''),
                (''weekly_cloudwatch_rule'', JStr ''ProjectOrc-Weekly-Full-DB-Backup'')])))))))))))))))))))))))))))))"

text \<open>The \<open>__main__\<close> block of lambda-backup-script.py.\<close>

definition main_backup :: "platform \<Rightarrow> unit prog" where
  "main_backup p =
     bnd (print ''Setting up AWS Lambda for database backups with timestamping...'' []) (\<lambda>_.
     bnd (create_db_backup_lambda p) (\<lambda>backup_config.
     bnd (print ''Lambda deployment completed successfully!'' []) (\<lambda>_.
     bnd (lift (subscript backup_config ''s3_bucket'')) (\<lambda>s3_bucket.
     bnd (print ''Database backups will be stored in S3 bucket: {s3_bucket}'' [s3_bucket]) (\<lambda>_.
     bnd (print ''Daily backups will run at 3 AM UTC'' []) (\<lambda>_.
     print ''Weekly full backups will run at 1 AM UTC on Sundays'' []))))))"

section \<open>The readiness waiter\<close>

datatype wait_outcome = Ready | TimedOut | RemoteError string

datatype wait_step = Probe nat | Pause nat

text \<open>
  Modelled from the spec: the readiness waiter.  The scripts only ask the SDK for one
  (\<open>get_waiter(...).wait(...)\<close>, once with \<open>Delay = 30\<close> and \<open>MaxAttempts = 60\<close>); the
  polling loop is the SDK's and is not in the repository.  The definition follows the
  contract \<open>wait_until(check_fn, target_predicate, interval, deadline)\<close> of the spec,
  with the deadline given as an attempt count: one probe per attempt, a constant sleep
  between two probes, \<open>Ready\<close> at the first probe that satisfies the target, \<open>RemoteError\<close>
  when a probe fails, \<open>TimedOut\<close> when the attempts are used up.  The probe is given the
  number of the attempt, counted from 0; the result comes with the log of what was done.
\<close>

fun wait_from ::
  "(nat \<Rightarrow> string + 's) \<Rightarrow> ('s \<Rightarrow> bool) \<Rightarrow> nat \<Rightarrow> nat \<Rightarrow> nat \<Rightarrow> wait_outcome \<times> wait_step list" where
  "wait_from check_fn target interval k 0 = (TimedOut, [])"
| "wait_from check_fn target interval k (Suc n) =
     (case check_fn k of
        Inl err \<Rightarrow> (RemoteError err, [Probe k])
      | Inr status \<Rightarrow>
          if target status then (Ready, [Probe k])
          else if n = 0 then (TimedOut, [Probe k])
          else (case wait_from check_fn target interval (Suc k) n of
                  (outcome, steps) \<Rightarrow> (outcome, Probe k # Pause interval # steps)))"

text \<open>
  Modelled from the spec: \<open>wait_until\<close>, the waiter started at its first attempt with
  the configured number of attempts.
\<close>

definition wait_until ::
  "(nat \<Rightarrow> string + 's) \<Rightarrow> ('s \<Rightarrow> bool) \<Rightarrow> nat \<Rightarrow> nat \<Rightarrow> wait_outcome \<times> wait_step list" where
  "wait_until check_fn target interval max_attempts =
     wait_from check_fn target interval 0 max_attempts"

fun is_probe :: "wait_step \<Rightarrow> bool" where
  "is_probe (Probe _) = True"
| "is_probe (Pause _) = False"

fun pause_seconds :: "wait_step \<Rightarrow> nat" where
  "pause_seconds (Probe _) = 0"
| "pause_seconds (Pause s) = s"

section \<open>Observing a run\<close>

text \<open>
  The marks of a trace are the stage entries and the opens for writing, in order: they
  say which stages ran and where the ledger file was rewritten.
\<close>

fun is_mark :: "event \<Rightarrow> bool" where
  "is_mark (Enter _) = True"
| "is_mark (FileOpenW _) = True"
| "is_mark _ = False"

definition marks :: "event list \<Rightarrow> event list" where
  "marks t = filter is_mark t"

fun is_open_w :: "event \<Rightarrow> bool" where
  "is_open_w (FileOpenW _) = True"
| "is_open_w _ = False"

text \<open>
  \<open>runs ms F m\<close>: every run of \<open>m\<close> only appends to the trace; it leaves the files and
  the loaded ledger alone unless it opens a file for writing; when it returns, its marks
  are exactly \<open>ms\<close>; when it raises, its marks are one of the lists in \<open>F\<close> and the
  exception is an \<open>Exception\<close>.
\<close>

definition runs :: "event list \<Rightarrow> event list set \<Rightarrow> 'a prog \<Rightarrow> bool" where
  "runs ms F m \<longleftrightarrow>
     (\<forall>w. case m w of
            (r, w') \<Rightarrow>
              (\<exists>t. trace w' = trace w @ t
                 \<and> ((\<forall>e \<in> set t. \<not> is_open_w e) \<longrightarrow>
                        files w' = files w \<and> g_infrastructure w' = g_infrastructure w)
                 \<and> (case r of Inr _ \<Rightarrow> marks t = ms
                             | Inl e \<Rightarrow> marks t \<in> F \<and> is_Exception e)))"

text \<open>The exit status of the process: an uncaught exception ends it with status 1.\<close>

fun exit_status :: "exn + 'a \<Rightarrow> int" where
  "exit_status (Inr _) = 0"
| "exit_status (Inl (SystemExit n)) = n"
| "exit_status (Inl _) = 1"

text \<open>
  The stage functions entered in a trace, in order, and the order in which each
  \<open>__main__\<close> block calls its stages.
\<close>

fun entered :: "event list \<Rightarrow> string list" where
  "entered [] = []"
| "entered (Enter f # t) = f # entered t"
| "entered (_ # t) = entered t"

definition stages_iac :: "string list" where
  "stages_iac = [''create_vpc'', ''create_security_groups'', ''create_iam_role'',
                 ''create_launch_template'', ''create_load_balancer'',
                 ''create_auto_scaling_group'']"

definition stages_deploy :: "string list" where
  "stages_deploy = [''deploy_backend_services'', ''set_up_load_balancer'', ''configure_dns'',
                    ''deploy_frontend'', ''create_lambda_functions'']"

text \<open>
  The mark lists with which a run of the deployment script can end in an exception:
  \<open>configure_dns\<close> is never the last stage entered.
\<close>

definition aborted_deploy :: "event list set" where
  "aborted_deploy =
     {[], [Enter ''deploy_backend_services''],
      [Enter ''deploy_backend_services'', Enter ''set_up_load_balancer''],
      [Enter ''deploy_backend_services'', Enter ''set_up_load_balancer'', Enter ''configure_dns'',
       Enter ''deploy_frontend''],
      [Enter ''deploy_backend_services'', Enter ''set_up_load_balancer'', Enter ''configure_dns'',
       Enter ''deploy_frontend'', Enter ''create_lambda_functions'']}"

text \<open>
  \<open>progress ns w w'\<close>: between the worlds \<open>w\<close> and \<open>w'\<close> of a run, the trace was only
  extended, the stages entered are \<open>ns\<close>, in that order, no file was opened for writing,
  and the files and the loaded ledger are untouched.
\<close>

definition progress :: "string list \<Rightarrow> world \<Rightarrow> world \<Rightarrow> bool" where
  "progress ns w w' \<longleftrightarrow>
     files w' = files w \<and> g_infrastructure w' = g_infrastructure w
     \<and> (\<exists>t. trace w' = trace w @ t \<and> entered t = ns \<and> list_all (\<lambda>ev. \<not> is_open_w ev) t)"

text \<open>
  Two ways of saying what holds at a point of a run.  \<open>after m w Raised Returned\<close>: when
  \<open>m\<close> is run in the world \<open>w\<close>, either it raises some \<open>e\<close> and leaves a world \<open>w'\<close> with
  \<open>Raised e w'\<close>, or it returns some \<open>x\<close> and leaves a world \<open>w'\<close> with \<open>Returned x w'\<close>.
  \<open>reads v k Then\<close>: the subscript \<open>v[k]\<close> succeeds, and \<open>Then\<close> holds of its value.
\<close>

definition after ::
  "'a prog \<Rightarrow> world \<Rightarrow> (exn \<Rightarrow> world \<Rightarrow> bool) \<Rightarrow> ('a \<Rightarrow> world \<Rightarrow> bool) \<Rightarrow> bool" where
  "after m w Raised Returned =
     (case m w of (Inl e, w') \<Rightarrow> Raised e w' | (Inr x, w') \<Rightarrow> Returned x w')"

definition reads :: "jval \<Rightarrow> string \<Rightarrow> (jval \<Rightarrow> bool) \<Rightarrow> bool" where
  "reads v k Then = (case subscript v k of Inl e \<Rightarrow> False | Inr x \<Rightarrow> Then x)"

text \<open>
  A run of the \<open>__main__\<close> block of boto3-iac-script.py from the world \<open>w\<close>, followed
  stage by stage: each stage starts in the world the one before left and gets the
  arguments the block reads from what the earlier stages returned.
  \<open>along_iac p w Raised Returned Done\<close> says that \<open>Raised k e w'\<close> holds when the \<open>k\<close>-th
  stage raises \<open>e\<close> and leaves the world \<open>w'\<close> (the stages before it having returned), that
  \<open>Returned k w'\<close> holds when the \<open>k\<close>-th stage returns and leaves \<open>w'\<close>, that the reads
  between the stages succeed, and that \<open>Done\<close> holds of the six returned records and the
  world the last stage left.
\<close>

definition along_iac ::
  "platform \<Rightarrow> world \<Rightarrow> (nat \<Rightarrow> exn \<Rightarrow> world \<Rightarrow> bool) \<Rightarrow> (nat \<Rightarrow> world \<Rightarrow> bool)
     \<Rightarrow> (jval \<Rightarrow> jval \<Rightarrow> jval \<Rightarrow> jval \<Rightarrow> jval \<Rightarrow> jval \<Rightarrow> world \<Rightarrow> bool) \<Rightarrow> bool" where
  "along_iac p w Raised Returned Done =
     after (create_vpc p)
       (w\<lparr>trace := trace w @ [Print ''Starting infrastructure deployment...'' []]\<rparr>)
       (Raised 1) (\<lambda>vpc_info w1. Returned 1 w1 \<and>
     reads vpc_info ''vpc_id'' (\<lambda>vpc_id.
     after (create_security_groups p vpc_id) (w1\<lparr>g_vpc_id := Some vpc_id\<rparr>)
       (Raised 2) (\<lambda>sg_info w2. Returned 2 w2 \<and>
     after (create_iam_role p) w2
       (Raised 3) (\<lambda>iam_info w3. Returned 3 w3 \<and>
     reads sg_info ''backend_sg_id'' (\<lambda>backend_sg_id.
     reads iam_info ''instance_profile_name'' (\<lambda>instance_profile_name.
     after (create_launch_template p backend_sg_id instance_profile_name) w3
       (Raised 4) (\<lambda>lt_info w4. Returned 4 w4 \<and>
     reads vpc_info ''subnets'' (\<lambda>subnets.
     reads sg_info ''alb_sg_id'' (\<lambda>alb_sg_id.
     after (create_load_balancer p subnets alb_sg_id) w4
       (Raised 5) (\<lambda>lb_info w5. Returned 5 w5 \<and>
     reads lt_info ''lt_id'' (\<lambda>lt_id.
     reads lb_info ''hello_tg_arn'' (\<lambda>hello_tg_arn.
     reads lb_info ''profile_tg_arn'' (\<lambda>profile_tg_arn.
     after (create_auto_scaling_group p lt_id subnets (JList [hello_tg_arn, profile_tg_arn])) w5
       (Raised 6) (\<lambda>asg_info w6. Returned 6 w6 \<and>
     Done vpc_info sg_info iam_info lt_info lb_info asg_info w6))))))))))))))"

text \<open>
  The same for the \<open>__main__\<close> block of complete-deployment-script.py.  The third stage,
  \<open>configure_dns\<close>, has no \<open>Raised\<close> case: it does not raise.
\<close>

definition along_deploy ::
  "platform \<Rightarrow> world \<Rightarrow> (nat \<Rightarrow> exn \<Rightarrow> world \<Rightarrow> bool) \<Rightarrow> (nat \<Rightarrow> world \<Rightarrow> bool)
     \<Rightarrow> (jval \<Rightarrow> jval \<Rightarrow> jval \<Rightarrow> jval \<Rightarrow> jval \<Rightarrow> world \<Rightarrow> bool) \<Rightarrow> bool" where
  "along_deploy p w Raised Returned Done =
     after (deploy_backend_services p)
       (w\<lparr>trace := trace w @ [Print ''Starting deployment of additional services...'' []]\<rparr>)
       (Raised 1) (\<lambda>backend_info w1. Returned 1 w1 \<and>
     after (set_up_load_balancer p) w1
       (Raised 2) (\<lambda>lb_info w2. Returned 2 w2 \<and>
     reads lb_info ''alb_dns'' (\<lambda>alb_dns.
     after (configure_dns p domain_name alb_dns) w2
       (\<lambda>e w3. False) (\<lambda>dns_info w3. Returned 3 w3 \<and>
     after (deploy_frontend p) w3
       (Raised 4) (\<lambda>frontend_info w4. Returned 4 w4 \<and>
     after (create_lambda_functions p) w4
       (Raised 5) (\<lambda>lambda_info w5. Returned 5 w5 \<and>
     Done backend_info lb_info dns_info frontend_info lambda_info w5))))))"

text \<open>
  The keyword arguments of the \<open>create_target_group\<close> requests of a trace, in order.
\<close>

fun target_group_requests :: "event list \<Rightarrow> (string \<times> jval) list list" where
  "target_group_requests [] = []"
| "target_group_requests (Call (Api client operation args) # t) =
     (if operation = ''create_target_group'' then args # target_group_requests t
      else target_group_requests t)"
| "target_group_requests (_ # t) = target_group_requests t"

text \<open>The SDK operations requested in a trace, as (client, operation).\<close>

fun called :: "event list \<Rightarrow> (string \<times> string) list" where
  "called [] = []"
| "called (Call (Api client operation args) # t) = (client, operation) # called t"
| "called (_ # t) = called t"

text \<open>
  \<open>assigned m\<close>: started with \<open>vpc_id\<close> assigned, \<open>m\<close> leaves it assigned and does not
  raise \<open>NameError\<close>.
\<close>

definition assigned :: "'a prog \<Rightarrow> bool" where
  "assigned m \<longleftrightarrow>
     (\<forall>w :: world. g_vpc_id w \<noteq> None \<longrightarrow>
        (case m w of (r, w') \<Rightarrow> g_vpc_id w' \<noteq> None \<and> (\<forall>n. r \<noteq> Inl (NameError n))))"

text \<open>
  The file events of one flush of the value \<open>v\<close> to \<open>path\<close>: the open that truncates,
  one write per chunk, the close.  A process killed after the first \<open>k\<close> of them leaves
  the files \<open>on_disk (take k (flush_events p path v))\<close> of the files before.
\<close>

definition flush_events :: "platform \<Rightarrow> string \<Rightarrow> jval \<Rightarrow> event list" where
  "flush_events p path v = FileOpenW path # map (FileWrite path) (json_dump p v) @ [FileClose path]"

section \<open>Example platforms and worlds\<close>

text \<open>
  A provider that accepts every call and answers with one payload holding every field
  the scripts read; \<open>deny op\<close> makes it reject the operation \<open>op\<close>.  The example
  \<open>json\<close> library writes the top-level keys in three chunks and reads back the one
  text of the example ledger.
\<close>

definition answer :: jval where
  "answer = JObj
     [(''Vpc'', JObj [(''VpcId'', JStr ''vpc-1'')]),
      (''InternetGateway'', JObj [(''InternetGatewayId'', JStr ''igw-1'')]),
      (''AvailabilityZones'', JList [JObj [(''ZoneName'', JStr ''us-west-1a'')],
                                     JObj [(''ZoneName'', JStr ''us-west-1b'')]]),
      (''Subnet'', JObj [(''SubnetId'', JStr ''subnet-1'')]),
      (''RouteTable'', JObj [(''RouteTableId'', JStr ''rtb-1'')]),
      (''AllocationId'', JStr ''eipalloc-1''),
      (''NatGateway'', JObj [(''NatGatewayId'', JStr ''nat-1'')]),
      (''GroupId'', JStr ''sg-1''),
      (''LoadBalancers'', JList [JObj [(''LoadBalancerArn'', JStr ''arn:alb''),
                                       (''DNSName'', JStr ''alb.example'')]]),
      (''TargetGroups'', JList [JObj [(''TargetGroupArn'', JStr ''arn:tg'')]]),
      (''Listeners'', JList [JObj [(''ListenerArn'', JStr ''arn:listener'')]]),
      (''Role'', JObj [(''RoleName'', JStr ''role''), (''Arn'', JStr ''arn:role'')]),
      (''InstanceProfile'', JObj [(''Arn'', JStr ''arn:profile'')]),
      (''LaunchTemplate'', JObj [(''LaunchTemplateId'', JStr ''lt-1''),
                                 (''LatestVersionNumber'', JInt 1)]),
      (''HostedZones'', JList []),
      (''HostedZone'', JObj [(''Id'', JStr ''/hostedzone/Z1'')]),
      (''FunctionArn'', JStr ''arn:function''),
      (''RuleArn'', JStr ''arn:rule'')]"

definition ledger_iac :: jval where
  "ledger_iac = JObj
     [(''vpc'', JObj [(''vpc_id'', JStr ''vpc-1''),
                      (''subnets'', JObj [(''public'', JList [JStr ''subnet-1'', JStr ''subnet-2'']),
                                          (''private'', JList [JStr ''subnet-3'', JStr ''subnet-4''])])]),
      (''security_groups'', JObj [(''alb_sg_id'', JStr ''sg-1''), (''backend_sg_id'', JStr ''sg-2'')]),
      (''iam'', JObj [(''instance_profile_name'', JStr ''ProjectOrc-EC2-ECR-Profile'')]),
      (''launch_template'', JObj [(''lt_id'', JStr ''lt-1'')]),
      (''load_balancer'', JObj [(''alb_arn'', JStr ''arn:alb''), (''alb_dns'', JStr ''alb.example'')]),
      (''auto_scaling_group'', JObj [(''asg_name'', JStr ''ProjectOrc-Backend-ASG'')])]"

fun top_keys :: "jval \<Rightarrow> string" where
  "top_keys (JObj d) = concat (map (\<lambda>kv. fst kv @ '';'') d)"
| "top_keys _ = []"

definition ledger_text :: string where
  "ledger_text = ''{vpc;security_groups;iam;launch_template;load_balancer;auto_scaling_group;}''"

definition p_ok :: platform where
  "p_ok = \<lparr>remote = (\<lambda>h c. Inr answer),
           json_dump = (\<lambda>v. [''{'', top_keys v, ''}'']),
           json_load = (\<lambda>text. if text = ledger_text then Some ledger_iac else None),
           uuid4_hex = (\<lambda>h. ''0a1b2c3d4e5f60718293a4b5c6d7e8f9'')\<rparr>"

fun deny_op ::
  "string \<Rightarrow> (event list \<Rightarrow> api_call \<Rightarrow> string + jval) \<Rightarrow> event list \<Rightarrow> api_call
     \<Rightarrow> string + jval" where
  "deny_op op r h (Api client operation args) =
     (if operation = op then Inl ''AccessDenied'' else r h (Api client operation args))"

definition deny :: "string \<Rightarrow> platform \<Rightarrow> platform" where
  "deny op p = p\<lparr>remote := deny_op op (remote p)\<rparr>"

text \<open>
  Worlds: a fresh process without any file; one whose disk holds the example ledger
  file; a ledger with a nested record under \<open>dns\<close>; a process whose loaded ledger was
  left by an earlier complete run of both scripts and already holds the five output keys
  of the deployment script; the process right after the module-level load of the example
  ledger file.
\<close>

definition w_fresh :: world where
  "w_fresh = \<lparr>trace = [], files = Map.empty, g_vpc_id = None, g_infrastructure = None\<rparr>"

definition w_ledger :: world where
  "w_ledger = \<lparr>trace = [], files = [the_ledger_file \<mapsto> ledger_text], g_vpc_id = None,
                g_infrastructure = None\<rparr>"

definition w_nested :: world where
  "w_nested = \<lparr>trace = [], files = Map.empty, g_vpc_id = Some (JStr ''vpc-1''),
     g_infrastructure = Some (JObj [(''vpc'', JObj [(''vpc_id'', JStr ''vpc-1'')]),
                                    (''dns'', JObj [(''domain_name'', JStr ''a.example''),
                                                    (''hosted_zone_id'', JStr ''Z1'')])])\<rparr>"

definition ledger_rerun :: jval where
  "ledger_rerun = JObj
     [(''vpc'', JObj [(''vpc_id'', JStr ''vpc-1''),
                      (''subnets'', JObj [(''public'', JList [JStr ''subnet-1'', JStr ''subnet-2'']),
                                          (''private'', JList [JStr ''subnet-3'', JStr ''subnet-4''])])]),
      (''iam'', JObj [(''instance_profile_name'', JStr ''ProjectOrc-EC2-ECR-Profile'')]),
      (''load_balancer'', JObj [(''alb_arn'', JStr ''arn:alb''), (''alb_dns'', JStr ''alb.example'')]),
      (''auto_scaling_group'', JObj [(''asg_name'', JStr ''ProjectOrc-Backend-ASG'')]),
      (''backend_deployment'', JObj [(''status'', JStr ''configured'')]),
      (''load_balancer_config'', JObj [(''alb_arn'', JStr ''arn:alb'')]),
      (''dns'', JObj [(''domain_name'', JStr ''project-orc.example.com'')]),
      (''frontend'', JObj [(''frontend_asg_name'', JStr ''ProjectOrc-Frontend-ASG'')]),
      (''lambda'', JObj [(''s3_bucket'', JStr ''project-orc-db-backups-0a1b2c3d'')])]"

definition w_rerun :: world where
  "w_rerun = \<lparr>trace = [], files = Map.empty, g_vpc_id = Some (JStr ''vpc-1''),
               g_infrastructure = Some ledger_rerun\<rparr>"

definition subnets_example :: jval where
  "subnets_example = JObj [(''public'', JList [JStr ''subnet-1'', JStr ''subnet-2'']),
                           (''private'', JList [JStr ''subnet-3'', JStr ''subnet-4''])]"

text \<open>A status probe that always answers \<open>pending\<close>.\<close>

definition never_ready :: "nat \<Rightarrow> string + string" where
  "never_ready k = Inr ''pending''"

definition w_loaded :: world where
  "w_loaded = \<lparr>trace = [FileOpenR the_ledger_file, Print ''Loaded existing infrastructure details'' []],
                files = [the_ledger_file \<mapsto> ledger_text], g_vpc_id = Some (JStr ''vpc-1''),
                g_infrastructure = Some ledger_iac\<rparr>"

section \<open>Facts about dictionaries\<close>

lemma map_of_dict_update:
  "map_of (dict_update d other) k =
     (case map_of (rev other) k of None \<Rightarrow> map_of d k | Some r \<Rightarrow> Some r)"
proof (induction other arbitrary: d)
  case Nil
  show ?case by (simp add: dict_update_def)
next
  case (Cons kv other)
  have step: "dict_update d (kv # other) = dict_update (AList.update (fst kv) (snd kv) d) other"
    by (simp add: dict_update_def)
  show ?case
    unfolding step Cons.IH
    by (cases kv) (auto simp: update_conv' map_add_def split: option.splits)
qed

lemma map_of_rev_distinct:
  "distinct (map fst xs) \<Longrightarrow> map_of (rev xs) k = map_of xs k"
proof (induction xs)
  case Nil
  show ?case by simp
next
  case (Cons x xs)
  have notin: "map_of (rev xs) (fst x) = None"
    using Cons.prems by (simp add: map_of_eq_None_iff)
  show ?case
    using Cons notin by (cases x) (auto simp: map_add_def split: option.splits)
qed

section \<open>Facts about writing the file\<close>

lemma write_chunks_result:
  "write_chunks path cs buffer w =
     (Inr (buffer @ concat cs), w\<lparr>trace := trace w @ map (FileWrite path) cs\<rparr>)"
proof (induction cs arbitrary: w buffer)
  case Nil
  show ?case by (simp add: ret_def)
next
  case (Cons c cs)
  show ?case by (simp add: bnd_def emit_def Cons.IH)
qed

lemma dump_to_file_result:
  "dump_to_file p path v w =
     (Inr (), w\<lparr>trace := trace w @ FileOpenW path # map (FileWrite path) (json_dump p v) @ [FileClose path],
                  files := (files w)(path \<mapsto> concat (json_dump p v))\<rparr>)"
  by (simp add: dump_to_file_def bnd_def open_w_def close_file_def write_chunks_result)

section \<open>The ledger merge is a shallow overwrite\<close>

text \<open>
  C7.  \<open>update_infrastructure_details\<close> merges with \<open>dict.update\<close>: every top-level key
  of the new details is bound to exactly the record given (whatever record, nested or
  not, was there before), and every other top-level key keeps its record.  Since the
  statement holds for any ledger, a second put under the same key wins over the first.
\<close>

theorem update_infrastructure_details_shallow_overwrite:
  assumes "g_infrastructure w = Some (JObj d)"
    and "distinct (map fst new_details)"
  shows "\<exists>d'. g_infrastructure (snd (update_infrastructure_details p new_details w)) = Some (JObj d')
           \<and> (\<forall>k. map_of d' k =
                  (case map_of new_details k of Some r \<Rightarrow> Some r | None \<Rightarrow> map_of d k))"
proof -
  have "g_infrastructure (snd (update_infrastructure_details p new_details w))
          = Some (JObj (dict_update d new_details))"
    using assms(1)
    by (simp add: update_infrastructure_details_def bnd_def read_global_def
        dump_to_file_result print_def emit_def)
  moreover have "\<forall>k. map_of (dict_update d new_details) k =
                  (case map_of new_details k of Some r \<Rightarrow> Some r | None \<Rightarrow> map_of d k)"
    by (simp add: map_of_dict_update map_of_rev_distinct [OF assms(2)])
  ultimately show ?thesis by blast
qed

theorem update_infrastructure_details_shallow_overwrite_witness:
  "\<exists>d'. g_infrastructure (snd (update_infrastructure_details p_ok
            [(''dns'', JObj [(''error'', JStr ''denied'')])] w_nested)) = Some (JObj d')
        \<and> map_of d' ''dns'' = Some (JObj [(''error'', JStr ''denied'')])
        \<and> map_of d' ''vpc'' = Some (JObj [(''vpc_id'', JStr ''vpc-1'')])"
proof -
  have a: "g_infrastructure w_nested =
      Some (JObj [(''vpc'', JObj [(''vpc_id'', JStr ''vpc-1'')]),
                  (''dns'', JObj [(''domain_name'', JStr ''a.example''),
                                  (''hosted_zone_id'', JStr ''Z1'')])])"
    by (simp add: w_nested_def)
  have b: "distinct (map fst [(''dns'', JObj [(''error'', JStr ''denied'')])])" by simp
  from update_infrastructure_details_shallow_overwrite [OF a b, of p_ok]
  obtain d' where d: "g_infrastructure (snd (update_infrastructure_details p_ok
            [(''dns'', JObj [(''error'', JStr ''denied'')])] w_nested)) = Some (JObj d')"
    and m: "\<forall>k. map_of d' k =
        (case map_of [(''dns'', JObj [(''error'', JStr ''denied'')])] k of Some r \<Rightarrow> Some r
         | None \<Rightarrow> map_of [(''vpc'', JObj [(''vpc_id'', JStr ''vpc-1'')]),
                  (''dns'', JObj [(''domain_name'', JStr ''a.example''),
                                  (''hosted_zone_id'', JStr ''Z1'')])] k)"
    by blast
  have "map_of d' ''dns'' = Some (JObj [(''error'', JStr ''denied'')])"
    using m [rule_format, of "''dns''"] by simp
  moreover have "map_of d' ''vpc'' = Some (JObj [(''vpc_id'', JStr ''vpc-1'')])"
    using m [rule_format, of "''vpc''"] by simp
  ultimately show ?thesis using d by blast
qed

section \<open>Rules for \<open>runs\<close>\<close>

lemma marks_append [simp]: "marks (t @ u) = marks t @ marks u"
  by (simp add: marks_def)

lemma marks_Nil [simp]: "marks [] = []"
  by (simp add: marks_def)

lemma runsI:
  assumes "\<And>w r w'. m w = (r, w') \<Longrightarrow>
             \<exists>t. trace w' = trace w @ t
               \<and> ((\<forall>e \<in> set t. \<not> is_open_w e) \<longrightarrow>
                     files w' = files w \<and> g_infrastructure w' = g_infrastructure w)
               \<and> (case r of Inr _ \<Rightarrow> marks t = ms | Inl e \<Rightarrow> marks t \<in> F \<and> is_Exception e)"
  shows "runs ms F m"
  unfolding runs_def using assms by (auto split: prod.splits)

lemma runsD:
  assumes "runs ms F m" and "m w = (r, w')"
  obtains t where "trace w' = trace w @ t"
    and "(\<forall>e \<in> set t. \<not> is_open_w e) \<Longrightarrow> files w' = files w \<and> g_infrastructure w' = g_infrastructure w"
    and "\<And>x. r = Inr x \<Longrightarrow> marks t = ms"
    and "\<And>e. r = Inl e \<Longrightarrow> marks t \<in> F \<and> is_Exception e"
proof -
  have "\<exists>t. trace w' = trace w @ t
               \<and> ((\<forall>e \<in> set t. \<not> is_open_w e) \<longrightarrow>
                     files w' = files w \<and> g_infrastructure w' = g_infrastructure w)
               \<and> (case r of Inr _ \<Rightarrow> marks t = ms | Inl e \<Rightarrow> marks t \<in> F \<and> is_Exception e)"
    using assms(1) [unfolded runs_def, rule_format, of w] assms(2) by simp
  then obtain t where "trace w' = trace w @ t"
    and "(\<forall>e \<in> set t. \<not> is_open_w e) \<longrightarrow>
            files w' = files w \<and> g_infrastructure w' = g_infrastructure w"
    and "case r of Inr _ \<Rightarrow> marks t = ms | Inl e \<Rightarrow> marks t \<in> F \<and> is_Exception e"
    by blast
  then show thesis by (intro that [of t]) auto
qed

lemma runs_weaken:
  assumes "runs ms F m" and "F \<subseteq> F'"
  shows "runs ms F' m"
proof (rule runsI)
  fix w r w'
  assume "m w = (r, w')"
  from runsD [OF assms(1) this] obtain t where "trace w' = trace w @ t"
    and "(\<forall>e \<in> set t. \<not> is_open_w e) \<Longrightarrow> files w' = files w \<and> g_infrastructure w' = g_infrastructure w"
    and "\<And>x. r = Inr x \<Longrightarrow> marks t = ms"
    and "\<And>e. r = Inl e \<Longrightarrow> marks t \<in> F \<and> is_Exception e"
    by blast
  then show "\<exists>t. trace w' = trace w @ t
          \<and> ((\<forall>e \<in> set t. \<not> is_open_w e) \<longrightarrow>
                files w' = files w \<and> g_infrastructure w' = g_infrastructure w)
          \<and> (case r of Inr _ \<Rightarrow> marks t = ms | Inl e \<Rightarrow> marks t \<in> F' \<and> is_Exception e)"
    using assms(2) by (intro exI [of _ t]) (auto split: sum.splits)
qed

lemma runs_bnd:
  assumes m: "runs ms1 F1 m" and f: "\<And>x. runs ms2 F2 (f x)"
  shows "runs (ms1 @ ms2) (F1 \<union> (@) ms1 ` F2) (bnd m f)"
proof (rule runsI)
  fix w r w'
  assume run: "bnd m f w = (r, w')"
  obtain r1 w1 where m1: "m w = (r1, w1)" by (cases "m w")
  from runsD [OF m m1] obtain t1 where t1: "trace w1 = trace w @ t1"
    and fr1: "(\<forall>e \<in> set t1. \<not> is_open_w e) \<Longrightarrow> files w1 = files w \<and> g_infrastructure w1 = g_infrastructure w"
    and ok1: "\<And>x. r1 = Inr x \<Longrightarrow> marks t1 = ms1"
    and er1: "\<And>e. r1 = Inl e \<Longrightarrow> marks t1 \<in> F1 \<and> is_Exception e"
    by blast
  show "\<exists>t. trace w' = trace w @ t
          \<and> ((\<forall>e \<in> set t. \<not> is_open_w e) \<longrightarrow>
                files w' = files w \<and> g_infrastructure w' = g_infrastructure w)
          \<and> (case r of Inr _ \<Rightarrow> marks t = ms1 @ ms2
                      | Inl e \<Rightarrow> marks t \<in> F1 \<union> (@) ms1 ` F2 \<and> is_Exception e)"
  proof (cases r1)
    case (Inl e)
    with run m1 have "r = Inl e" "w' = w1" by (simp_all add: bnd_def)
    with t1 fr1 er1 [OF Inl] show ?thesis
      by (intro exI [of _ t1]) auto
  next
    case (Inr x)
    with run m1 have fx: "f x w1 = (r, w')" by (simp add: bnd_def)
    from runsD [OF f fx] obtain t2 where t2: "trace w' = trace w1 @ t2"
      and fr2: "(\<forall>e \<in> set t2. \<not> is_open_w e) \<Longrightarrow> files w' = files w1 \<and> g_infrastructure w' = g_infrastructure w1"
      and ok2: "\<And>y. r = Inr y \<Longrightarrow> marks t2 = ms2"
      and er2: "\<And>e. r = Inl e \<Longrightarrow> marks t2 \<in> F2 \<and> is_Exception e"
      by blast
    have tr: "trace w' = trace w @ (t1 @ t2)" using t1 t2 by simp
    have fr: "(\<forall>e \<in> set (t1 @ t2). \<not> is_open_w e) \<longrightarrow>
                files w' = files w \<and> g_infrastructure w' = g_infrastructure w"
      using fr1 fr2 by auto
    have res: "case r of Inr _ \<Rightarrow> marks (t1 @ t2) = ms1 @ ms2
                      | Inl e \<Rightarrow> marks (t1 @ t2) \<in> F1 \<union> (@) ms1 ` F2 \<and> is_Exception e"
      using ok1 [OF Inr] ok2 er2 by (cases r) auto
    from tr fr res show ?thesis by blast
  qed
qed

lemma body_bnd:
  assumes "runs [] {[]} m" and "\<And>x. runs [] {[]} (f x)"
  shows "runs [] {[]} (bnd m f)"
  using runs_bnd [OF assms] by simp

lemma body_ret: "runs [] {[]} (ret x)"
  by (rule runsI) (auto simp: ret_def intro: exI [of _ "[]"])

lemma body_raise: "is_Exception e \<Longrightarrow> runs [] {[]} (raise e)"
  by (rule runsI) (auto simp: raise_def intro: exI [of _ "[]"])

lemma body_lift: "(\<And>n. r \<noteq> Inl (SystemExit n)) \<Longrightarrow> runs [] {[]} (lift r)"
proof (rule runsI)
  fix w r' w'
  assume ns: "\<And>n. r \<noteq> Inl (SystemExit n)" and run: "lift r w = (r', w')"
  then have eq: "r' = r" "w' = w" by (simp_all add: lift_def)
  have "case r of Inr _ \<Rightarrow> True | Inl e \<Rightarrow> is_Exception e"
  proof (cases r)
    case (Inl a)
    with ns have "\<And>n. a \<noteq> SystemExit n" by auto
    then have "is_Exception a" by (cases a) auto
    with Inl show ?thesis by simp
  qed simp
  then show "\<exists>t. trace w' = trace w @ t
          \<and> ((\<forall>e \<in> set t. \<not> is_open_w e) \<longrightarrow>
                files w' = files w \<and> g_infrastructure w' = g_infrastructure w)
          \<and> (case r' of Inr _ \<Rightarrow> marks t = [] | Inl e \<Rightarrow> marks t \<in> {[]} \<and> is_Exception e)"
    using eq by (intro exI [of _ "[]"]) (auto split: sum.splits)
qed

lemma body_emit: "\<not> is_mark e \<Longrightarrow> runs [] {[]} (emit e)"
  by (rule runsI) (cases e; auto simp: emit_def marks_def intro!: exI [of _ "[e]"])

lemma body_print: "runs [] {[]} (print s vs)"
  by (simp add: print_def body_emit)

lemma body_sleep: "runs [] {[]} (sleep n)"
  by (simp add: sleep_def body_emit)

lemma body_call: "runs [] {[]} (call p c)"
  by (rule runsI)
    (auto simp: call_def Let_def marks_def split: sum.splits intro!: exI [of _ "[Call c]"])

lemma body_waiter: "runs [] {[]} (waiter p client name args)"
  by (rule runsI)
    (auto simp: waiter_def Let_def marks_def split: sum.splits intro!: exI [of _ "[Wait client name]"])

lemma body_uuid4: "runs [] {[]} (uuid4 p)"
  by (rule runsI) (auto simp: uuid4_def intro: exI [of _ "[]"])

lemma body_read_global: "runs [] {[]} (read_global g name)"
  by (rule runsI) (auto simp: read_global_def split: option.splits intro: exI [of _ "[]"])

lemma body_if: "runs [] {[]} a \<Longrightarrow> runs [] {[]} b \<Longrightarrow> runs [] {[]} (if c then a else b)"
  by simp

lemma stage_enter: "runs [Enter n] {} (enter n)"
  by (rule runsI) (auto simp: enter_def emit_def marks_def intro!: exI [of _ "[Enter n]"])

lemma stageI:
  assumes "runs [] {[]} body"
  shows "runs [Enter n] {[Enter n]} (bnd (enter n) (\<lambda>_. body))"
  using runs_bnd [OF stage_enter, of "[]" "{[]}" "\<lambda>_. body" n] assms by simp

lemmas body_rules =
  body_bnd body_ret body_lift body_print body_sleep body_call body_waiter body_uuid4
  body_read_global body_if

lemma subscript_not_exit [simp]: "subscript v k \<noteq> Inl (SystemExit n)"
  by (cases v) (auto split: option.splits)

lemma first_not_exit [simp]: "first v \<noteq> Inl (SystemExit n)"
  by (cases v) (auto split: list.splits)

lemma sub2_not_exit [simp]: "sub2 v k1 k2 \<noteq> Inl (SystemExit n)"
  by (auto simp: sub2_def split: sum.splits)

lemma sub_first_sub_not_exit [simp]: "sub_first_sub v k1 k2 \<noteq> Inl (SystemExit n)"
  by (auto simp: sub_first_sub_def split: sum.splits)

lemma iter_not_exit [simp]: "iter v \<noteq> Inl (SystemExit n)"
  by (cases v) auto

lemma subscript_all_not_exit [simp]: "subscript_all xs k \<noteq> Inl (SystemExit n)"
  by (induction xs) (auto split: sum.splits)

lemma join_strs_not_exit [simp]: "join_strs xs \<noteq> Inl (SystemExit n)"
  by (induction xs rule: join_strs.induct) (auto split: sum.splits)

lemma comma_join_not_exit [simp]: "comma_join v \<noteq> Inl (SystemExit n)"
  by (auto simp: comma_join_def split: sum.splits)

section \<open>Every stage function is a stage\<close>

lemma body_create_subnets: "runs [] {[]} (create_subnets p vpc_id i azs subnets)"
  by (induction azs arbitrary: i subnets) (simp add: body_ret, simp, intro body_rules, simp_all)

lemma body_associate_subnets: "runs [] {[]} (associate_subnets p message rt_id xs)"
  by (induction xs) (simp add: body_ret, simp, intro body_rules, simp_all)

lemma stage_create_vpc: "runs [Enter ''create_vpc''] {[Enter ''create_vpc'']} (create_vpc p)"
  unfolding create_vpc_def
  by (rule stageI) (intro body_rules body_raise body_create_subnets body_associate_subnets; simp split: list.splits)

lemma runs_frameI:
  assumes "\<And>w. \<exists>r t. m w = (r, w\<lparr>trace := trace w @ t\<rparr>)
             \<and> (case r of Inr _ \<Rightarrow> marks t = ms | Inl e \<Rightarrow> marks t \<in> F \<and> is_Exception e)"
  shows "runs ms F m"
proof (rule runsI)
  fix w r w'
  assume run: "m w = (r, w')"
  from assms [of w] obtain r0 t where m: "m w = (r0, w\<lparr>trace := trace w @ t\<rparr>)"
    and res: "case r0 of Inr _ \<Rightarrow> marks t = ms | Inl e \<Rightarrow> marks t \<in> F \<and> is_Exception e"
    by blast
  from run m have eq: "r = r0" "w' = w\<lparr>trace := trace w @ t\<rparr>" by simp_all
  show "\<exists>t. trace w' = trace w @ t
          \<and> ((\<forall>e \<in> set t. \<not> is_open_w e) \<longrightarrow>
                files w' = files w \<and> g_infrastructure w' = g_infrastructure w)
          \<and> (case r of Inr _ \<Rightarrow> marks t = ms | Inl e \<Rightarrow> marks t \<in> F \<and> is_Exception e)"
    using eq res by (intro exI [of _ t]) simp
qed

lemma total_print: "runs [] {} (print s vs)"
  by (rule runs_frameI) (auto simp: print_def emit_def marks_def intro!: exI [of _ "[Print s vs]"])

lemma total_ret: "runs [] {} (ret x)"
  by (rule runs_frameI) (auto simp: ret_def intro!: exI [of _ "[]"])

lemma total_bnd:
  assumes "runs [] {} m" and "\<And>x. runs [] {} (f x)"
  shows "runs [] {} (bnd m f)"
  using runs_bnd [OF assms] by simp

lemma total_assign_vpc_id: "runs [] {} (assign_vpc_id v)"
  by (rule runsI) (auto simp: assign_vpc_id_def intro!: exI [of _ "[]"])

lemma body_of_total: "runs [] {} m \<Longrightarrow> runs [] {[]} m"
  by (erule runs_weaken) simp

lemma total_try:
  assumes m: "runs [] {[]} m" and h: "\<And>e. runs [] {} (h e)"
  shows "runs [] {} (try_except m is_Exception h)"
proof (rule runsI)
  fix w r w'
  assume run: "try_except m is_Exception h w = (r, w')"
  obtain r1 w1 where m1: "m w = (r1, w1)" by (cases "m w")
  from runsD [OF m m1] obtain t1 where t1: "trace w1 = trace w @ t1"
    and fr1: "(\<forall>e \<in> set t1. \<not> is_open_w e) \<Longrightarrow> files w1 = files w \<and> g_infrastructure w1 = g_infrastructure w"
    and ok1: "\<And>x. r1 = Inr x \<Longrightarrow> marks t1 = []"
    and er1: "\<And>e. r1 = Inl e \<Longrightarrow> marks t1 \<in> {[]} \<and> is_Exception e"
    by blast
  show "\<exists>t. trace w' = trace w @ t
          \<and> ((\<forall>e \<in> set t. \<not> is_open_w e) \<longrightarrow>
                files w' = files w \<and> g_infrastructure w' = g_infrastructure w)
          \<and> (case r of Inr _ \<Rightarrow> marks t = [] | Inl e \<Rightarrow> marks t \<in> {} \<and> is_Exception e)"
  proof (cases r1)
    case (Inr x)
    with run m1 have "r = Inr x" "w' = w1" by (simp_all add: try_except_def)
    with t1 fr1 ok1 [OF Inr] show ?thesis by (intro exI [of _ t1]) auto
  next
    case (Inl e)
    with er1 have e: "is_Exception e" "marks t1 = []" by auto
    with run m1 Inl have he: "h e w1 = (r, w')" by (simp add: try_except_def)
    from runsD [OF h he] obtain t2 where t2: "trace w' = trace w1 @ t2"
      and fr2: "(\<forall>e \<in> set t2. \<not> is_open_w e) \<Longrightarrow> files w' = files w1 \<and> g_infrastructure w' = g_infrastructure w1"
      and ok2: "\<And>y. r = Inr y \<Longrightarrow> marks t2 = []"
      and er2: "\<And>e'. r = Inl e' \<Longrightarrow> marks t2 \<in> {} \<and> is_Exception e'"
      by blast
    have tr: "trace w' = trace w @ (t1 @ t2)" using t1 t2 by simp
    have fr: "(\<forall>e \<in> set (t1 @ t2). \<not> is_open_w e) \<longrightarrow>
                files w' = files w \<and> g_infrastructure w' = g_infrastructure w"
      using fr1 fr2 by auto
    have res: "case r of Inr _ \<Rightarrow> marks (t1 @ t2) = [] | Inl e' \<Rightarrow> marks (t1 @ t2) \<in> {} \<and> is_Exception e'"
      using e ok2 er2 by (cases r) auto
    from tr fr res show ?thesis by blast
  qed
qed

lemma total_stageI:
  assumes "runs [] {} body"
  shows "runs [Enter n] {} (bnd (enter n) (\<lambda>_. body))"
  using runs_bnd [OF stage_enter, of "[]" "{}" "\<lambda>_. body" n] assms by simp

lemma body_case_option:
  "runs [] {[]} a \<Longrightarrow> (\<And>x. runs [] {[]} (b x)) \<Longrightarrow>
     runs [] {[]} (case v of None \<Rightarrow> a | Some x \<Rightarrow> b x)"
  by (cases v) simp_all

lemma marks_writes [simp]: "marks (map (FileWrite path) cs) = []"
  by (induction cs) (simp_all add: marks_def)

lemma total_dump_to_file: "runs [FileOpenW path] {} (dump_to_file p path v)"
  by (rule runsI)
    (auto simp: dump_to_file_result marks_def
          intro!: exI [of _ "FileOpenW path # map (FileWrite path) (json_dump p v) @ [FileClose path]"])

lemma total_save: "runs [FileOpenW the_ledger_file] {} (save_infrastructure_details p v)"
  unfolding save_infrastructure_details_def
  using runs_bnd [OF total_dump_to_file, of "[]" "{}"
      "\<lambda>_. print ''Infrastructure details saved to infrastructure_details.json'' []"
      the_ledger_file p v] total_print
  by simp

lemma find_zone_not_exit [simp]: "find_zone zs d \<noteq> Inl (SystemExit n)"
  by (induction zs) (auto split: sum.splits)

lemma last_segment_not_exit [simp]: "last_segment v \<noteq> Inl (SystemExit n)"
  by (cases v) auto

lemma dict_get_not_exit [simp]: "dict_get v k d \<noteq> Inl (SystemExit n)"
  by (cases v) auto

lemma require_str_not_exit [simp]: "require_str v \<noteq> Inl (SystemExit n)"
  by (cases v) auto

lemma stage_create_security_groups:
  "runs [Enter ''create_security_groups''] {[Enter ''create_security_groups'']}
     (create_security_groups p vpc_id)"
  unfolding create_security_groups_def
  by (rule stageI) (intro body_rules; simp)

lemma stage_create_load_balancer:
  "runs [Enter ''create_load_balancer''] {[Enter ''create_load_balancer'']}
     (create_load_balancer p subnets alb_sg_id)"
  unfolding create_load_balancer_def
  by (rule stageI) (intro body_rules; simp)

lemma stage_create_iam_role:
  "runs [Enter ''create_iam_role''] {[Enter ''create_iam_role'']} (create_iam_role p)"
  unfolding create_iam_role_def
  by (rule stageI) (intro body_rules; simp)

lemma stage_create_launch_template:
  "runs [Enter ''create_launch_template''] {[Enter ''create_launch_template'']}
     (create_launch_template p a b)"
  unfolding create_launch_template_def
  by (rule stageI) (intro body_rules; simp)

lemma stage_create_auto_scaling_group:
  "runs [Enter ''create_auto_scaling_group''] {[Enter ''create_auto_scaling_group'']}
     (create_auto_scaling_group p a b c)"
  unfolding create_auto_scaling_group_def
  by (rule stageI) (intro body_rules; simp)

lemma stage_deploy_backend_services:
  "runs [Enter ''deploy_backend_services''] {[Enter ''deploy_backend_services'']}
     (deploy_backend_services p)"
  unfolding deploy_backend_services_def
  by (rule stageI) (intro body_rules; simp)

lemma stage_set_up_load_balancer:
  "runs [Enter ''set_up_load_balancer''] {[Enter ''set_up_load_balancer'']}
     (set_up_load_balancer p)"
  unfolding set_up_load_balancer_def
  by (rule stageI) (intro body_rules; simp)

lemma stage_deploy_frontend:
  "runs [Enter ''deploy_frontend''] {[Enter ''deploy_frontend'']} (deploy_frontend p)"
  unfolding deploy_frontend_def
  by (rule stageI) (intro body_rules; simp)

lemma stage_configure_dns:
  "runs [Enter ''configure_dns''] {} (configure_dns p d alb)"
  unfolding configure_dns_def configure_dns_try_def
  apply (rule total_stageI)
  apply (rule total_bnd, rule total_print)
  apply (rule total_try)
   apply (intro body_rules body_case_option; simp)
  apply (intro total_bnd total_print total_ret)
  done

lemma total_create_backup_bucket: "runs [] {} (create_backup_bucket p b)"
  unfolding create_backup_bucket_def
  apply (rule total_try)
   apply (intro body_rules; simp)
  apply (intro total_bnd total_print total_ret)
  done

lemma stage_create_lambda_functions:
  "runs [Enter ''create_lambda_functions''] {[Enter ''create_lambda_functions'']}
     (create_lambda_functions p)"
  unfolding create_lambda_functions_def
  by (rule stageI)
    (intro body_rules body_case_option body_of_total [OF total_create_backup_bucket]; simp)

lemma runs_bnd_lift:
  assumes "\<And>n. r \<noteq> Inl (SystemExit n)" and f: "\<And>x. r = Inr x \<Longrightarrow> runs ms F (f x)"
  shows "runs ms ({[]} \<union> F) (bnd (lift r) f)"
proof (cases r)
  case (Inl e)
  then have eq: "bnd (lift r) f = raise e" by (auto simp: bnd_def lift_def raise_def)
  have "is_Exception e" using assms(1) Inl by (cases e) auto
  then have "runs [] {[]} (raise e :: 'b prog)" by (rule body_raise)
  then have "runs ms ({[]} \<union> F) (raise e :: 'b prog)"
    by (auto simp: runs_def raise_def)
  with eq show ?thesis by simp
next
  case (Inr x)
  then have "bnd (lift r) f = f x" by (auto simp: bnd_def lift_def)
  with f [OF Inr] show ?thesis by (auto elim: runs_weaken)
qed

lemma runs_bnd_lift_known: "r = Inr x \<Longrightarrow> runs ms F (f x) \<Longrightarrow> runs ms F (bnd (lift r) f)"
  by (simp add: bnd_def lift_def)

lemma runs_update:
  "runs [FileOpenW the_ledger_file] {[]} (update_infrastructure_details p new_details)"
proof (rule runsI)
  fix w r w'
  assume run: "update_infrastructure_details p new_details w = (r, w')"
  let ?goal = "\<exists>t. trace w' = trace w @ t
          \<and> ((\<forall>e \<in> set t. \<not> is_open_w e) \<longrightarrow>
                files w' = files w \<and> g_infrastructure w' = g_infrastructure w)
          \<and> (case r of Inr _ \<Rightarrow> marks t = [FileOpenW the_ledger_file]
                      | Inl e \<Rightarrow> marks t \<in> {[]} \<and> is_Exception e)"
  show ?goal
  proof (cases "\<exists>d. g_infrastructure w = Some (JObj d)")
    case True
    then obtain d where d: "g_infrastructure w = Some (JObj d)" by blast
    let ?t = "FileOpenW the_ledger_file #
              map (FileWrite the_ledger_file) (json_dump p (JObj (dict_update d new_details)))
              @ [FileClose the_ledger_file]
              @ [Print ''Updated infrastructure details saved to infrastructure_details.json'' []]"
    from run d have "r = Inr ()" and "trace w' = trace w @ ?t"
      by (auto simp: update_infrastructure_details_def bnd_def read_global_def
          dump_to_file_result print_def emit_def)
    then show ?thesis by (intro exI [of _ ?t]) (simp add: marks_def)
  next
    case False
    with run have "w' = w" and "\<exists>e. r = Inl e \<and> is_Exception e"
      by (auto simp: update_infrastructure_details_def bnd_def read_global_def raise_def
          split: option.splits jval.splits)
    then show ?thesis by (intro exI [of _ "[]"]) auto
  qed
qed

lemma main_iac_runs:
  "runs (map Enter stages_iac @ [FileOpenW the_ledger_file])
     {ms. prefix ms (map Enter stages_iac)} (main_iac p)"
proof -
  have "\<exists>ms F. runs ms F (main_iac p)
      \<and> ms = map Enter stages_iac @ [FileOpenW the_ledger_file]
      \<and> F \<subseteq> {ms. prefix ms (map Enter stages_iac)}"
    unfolding main_iac_def
    apply (intro exI conjI)
      apply ((rule runs_bnd total_print total_assign_vpc_id body_lift stage_create_vpc
        stage_create_security_groups stage_create_iam_role stage_create_launch_template
        stage_create_load_balancer stage_create_auto_scaling_group total_save) | simp)+
     apply (simp add: stages_iac_def)
    apply (simp add: stages_iac_def)
    done
  then show ?thesis by (blast intro: runs_weaken)
qed

lemma main_deploy_runs:
  "runs (map Enter stages_deploy @ [FileOpenW the_ledger_file]) aborted_deploy (main_deploy p)"
proof -
  have "\<exists>ms F. runs ms F (main_deploy p)
      \<and> ms = map Enter stages_deploy @ [FileOpenW the_ledger_file]
      \<and> F \<subseteq> aborted_deploy"
    unfolding main_deploy_def
    apply (intro exI conjI)
      apply ((rule runs_bnd_lift_known, assumption) | (rule runs_bnd_lift)
        | (rule runs_bnd total_print stage_deploy_backend_services stage_set_up_load_balancer
             stage_configure_dns stage_deploy_frontend stage_create_lambda_functions runs_update)
        | simp)+
     apply (simp add: stages_deploy_def)
    apply (simp add: aborted_deploy_def)
    done
  then show ?thesis by (blast intro: runs_weaken)
qed

lemma entered_append [simp]: "entered (t @ u) = entered t @ entered u"
  by (induction t rule: entered.induct) simp_all

lemma entered_map_Enter [simp]: "entered (map Enter ns) = ns"
  by (induction ns) simp_all

lemma entered_marks [simp]: "entered (marks t) = entered t"
  by (induction t rule: entered.induct) (simp_all add: marks_def)

lemma open_w_is_mark: "is_open_w e \<Longrightarrow> is_mark e"
  by (cases e) simp_all

lemma no_open_w_by_marks:
  assumes "\<forall>e \<in> set (marks t). \<not> is_open_w e"
  shows "\<forall>e \<in> set t. \<not> is_open_w e"
  using assms open_w_is_mark by (auto simp: marks_def)

lemma not_open_w_Enter: "\<forall>e \<in> set (map Enter ns). \<not> is_open_w e"
  by simp

lemma prefix_of_entries:
  assumes "prefix ms (map Enter ns)"
  shows "prefix (entered ms) ns" and "\<forall>e \<in> set ms. \<not> is_open_w e"
proof -
  from assms obtain rest where eq: "map Enter ns = ms @ rest" by (auto simp: prefix_def)
  then have "ns = entered ms @ entered rest"
    by (metis entered_append entered_map_Enter)
  then show "prefix (entered ms) ns" by (simp add: prefix_def)
  from eq have "set ms \<subseteq> set (map Enter ns)" by (metis set_append Un_upper1)
  then show "\<forall>e \<in> set ms. \<not> is_open_w e" by auto
qed

lemma aborted_deploy_prefixes: "aborted_deploy \<subseteq> {ms. prefix ms (map Enter stages_deploy)}"
  by (simp add: aborted_deploy_def stages_deploy_def)

text \<open>What \<open>runs\<close> says about a pipeline whose stages are entered in order and followed by one flush.\<close>

lemma pipeline_summary:
  assumes m: "runs (map Enter ns @ [FileOpenW f]) F m"
    and F: "F \<subseteq> {ms. prefix ms (map Enter ns)}"
    and run: "m w = (r, w')"
  shows "\<exists>t. trace w' = trace w @ t
           \<and> prefix (marks t) (map Enter ns @ [FileOpenW f])
           \<and> prefix (entered t) ns
           \<and> (\<forall>u. r = Inr u \<longrightarrow> marks t = map Enter ns @ [FileOpenW f] \<and> entered t = ns)
           \<and> (\<forall>e. r = Inl e \<longrightarrow> is_Exception e \<and> marks t \<in> F \<and> (\<forall>ev \<in> set t. \<not> is_open_w ev)
                     \<and> files w' = files w \<and> g_infrastructure w' = g_infrastructure w)"
proof -
  from runsD [OF m run] obtain t where t: "trace w' = trace w @ t"
    and fr: "(\<forall>e \<in> set t. \<not> is_open_w e) \<Longrightarrow> files w' = files w \<and> g_infrastructure w' = g_infrastructure w"
    and ok: "\<And>x. r = Inr x \<Longrightarrow> marks t = map Enter ns @ [FileOpenW f]"
    and er: "\<And>e. r = Inl e \<Longrightarrow> marks t \<in> F \<and> is_Exception e"
    by blast
  show ?thesis
  proof (cases r)
    case (Inr u)
    from ok [OF Inr] have mk: "marks t = map Enter ns @ [FileOpenW f]" .
    have "entered t = entered (marks t)" by simp
    also have "\<dots> = ns" unfolding mk by simp
    finally have "entered t = ns" .
    with t mk Inr show ?thesis by (intro exI [of _ t]) simp
  next
    case (Inl e)
    from er [OF Inl] have mF: "marks t \<in> F" and e: "is_Exception e" by simp_all
    from mF F have pre: "prefix (marks t) (map Enter ns)" by auto
    from prefix_of_entries [OF pre] have en: "prefix (entered t) ns"
      and no: "\<forall>ev \<in> set (marks t). \<not> is_open_w ev" by simp_all
    from no_open_w_by_marks [OF no] have no': "\<forall>ev \<in> set t. \<not> is_open_w ev" .
    from pre have "prefix (marks t) (map Enter ns @ [FileOpenW f])" by (rule prefix_prefix)
    with t en e mF no' fr [OF no'] Inl show ?thesis by (intro exI [of _ t]) simp
  qed
qed

section \<open>Following a run stage by stage\<close>

lemma bnd_InrE:
  assumes "bnd m f w = (Inr y, w')"
  obtains x w1 where "m w = (Inr x, w1)" and "f x w1 = (Inr y, w')"
  using assms by (auto simp: bnd_def split: prod.splits sum.splits)

lemma after_mono:
  assumes "after m w R K" and "\<And>e w'. R e w' \<Longrightarrow> R' e w'" and "\<And>x w'. K x w' \<Longrightarrow> K' x w'"
  shows "after m w R' K'"
  using assms by (auto simp: after_def split: prod.splits sum.splits)

lemma reads_mono:
  assumes "reads v k K" and "\<And>x. K x \<Longrightarrow> K' x"
  shows "reads v k K'"
  using assms by (auto simp: reads_def split: sum.splits)

lemma afterI:
  assumes "\<And>e w'. m w = (Inl e, w') \<Longrightarrow> R e w'" and "\<And>x w'. m w = (Inr x, w') \<Longrightarrow> K x w'"
  shows "after m w R K"
  using assms by (auto simp: after_def split: prod.splits sum.splits)

lemma readsI: "subscript v k = Inr x \<Longrightarrow> K x \<Longrightarrow> reads v k K"
  by (simp add: reads_def)

lemma create_vpc_shape:
  assumes "create_vpc p w = (Inr v, w')"
  shows "\<exists>a b. subscript v ''vpc_id'' = Inr a \<and> subscript v ''subnets'' = Inr b"
  using assms unfolding create_vpc_def
  by (elim bnd_InrE) (auto simp: ret_def)

lemma create_security_groups_shape:
  assumes "create_security_groups p vpc_id w = (Inr v, w')"
  shows "\<exists>a b. subscript v ''backend_sg_id'' = Inr a \<and> subscript v ''alb_sg_id'' = Inr b"
  using assms unfolding create_security_groups_def
  by (elim bnd_InrE) (auto simp: ret_def)

lemma create_iam_role_shape:
  assumes "create_iam_role p w = (Inr v, w')"
  shows "\<exists>a. subscript v ''instance_profile_name'' = Inr a"
  using assms unfolding create_iam_role_def
  by (elim bnd_InrE) (auto simp: ret_def)

lemma create_launch_template_shape:
  assumes "create_launch_template p sg ip w = (Inr v, w')"
  shows "\<exists>a. subscript v ''lt_id'' = Inr a"
  using assms unfolding create_launch_template_def
  by (elim bnd_InrE) (auto simp: ret_def)

lemma create_load_balancer_shape:
  assumes "create_load_balancer p subnets sg w = (Inr v, w')"
  shows "\<exists>a b. subscript v ''hello_tg_arn'' = Inr a \<and> subscript v ''profile_tg_arn'' = Inr b"
  using assms unfolding create_load_balancer_def
  by (elim bnd_InrE) (auto simp: ret_def)

lemma set_up_load_balancer_shape:
  assumes "set_up_load_balancer p w = (Inr v, w')"
  shows "\<exists>a. subscript v ''alb_dns'' = Inr a"
  using assms unfolding set_up_load_balancer_def
  by (elim bnd_InrE) (auto simp: ret_def)

lemma deploy_backend_services_ledger:
  assumes "deploy_backend_services p w = (Inr v, w')"
  shows "\<exists>d. g_infrastructure w = Some (JObj d)"
  using assms unfolding deploy_backend_services_def
  apply (elim bnd_InrE)
  apply (auto simp: read_global_def enter_def print_def emit_def lift_def sub2_def
      split: option.splits sum.splits elim!: subscript.elims)
  done


lemma progress_start: "progress [] w (w\<lparr>trace := trace w @ [Print s vs]\<rparr>)"
  by (simp add: progress_def)

lemma progress_stage:
  assumes pr: "progress ns w w1" and m: "runs [Enter n] F m" and F: "F \<subseteq> {[Enter n]}"
    and run: "m w1' = (r, w2)"
    and same: "trace w1' = trace w1" "files w1' = files w1"
      "g_infrastructure w1' = g_infrastructure w1"
  shows "progress (ns @ [n]) w w2 \<and> (\<forall>e. r = Inl e \<longrightarrow> is_Exception e)"
proof -
  from runsD [OF m run] obtain t where t: "trace w2 = trace w1' @ t"
    and fr: "(\<forall>e \<in> set t. \<not> is_open_w e) \<Longrightarrow> files w2 = files w1' \<and> g_infrastructure w2 = g_infrastructure w1'"
    and ok: "\<And>x. r = Inr x \<Longrightarrow> marks t = [Enter n]"
    and er: "\<And>e. r = Inl e \<Longrightarrow> marks t \<in> F \<and> is_Exception e"
    by blast
  have mk: "marks t = [Enter n]" using ok er F by (cases r) auto
  have "\<forall>e \<in> set (marks t). \<not> is_open_w e" unfolding mk by simp
  from no_open_w_by_marks [OF this] have no: "\<forall>e \<in> set t. \<not> is_open_w e" .
  have "entered t = entered (marks t)" by simp
  also have "\<dots> = [n]" unfolding mk by simp
  finally have en: "entered t = [n]" .
  from pr obtain t0 where t0: "trace w1 = trace w @ t0" "entered t0 = ns"
    "list_all (\<lambda>ev. \<not> is_open_w ev) t0" "files w1 = files w" "g_infrastructure w1 = g_infrastructure w"
    by (auto simp: progress_def)
  have "progress (ns @ [n]) w w2"
    unfolding progress_def using t t0 fr [OF no] no en same
    by (intro conjI exI [of _ "t0 @ t"]) (auto simp: list_all_iff)
  with er show ?thesis by blast
qed

lemma never_raises:
  assumes "runs ms {} m" and "m w = (Inl e, w')"
  shows False
  using runsD [OF assms] by blast

lemmas glue_defs = bnd_def lift_def print_def emit_def assign_vpc_id_def

lemma main_iac_along:
  "along_iac p w
     (\<lambda>k e w'. main_iac p w = (Inl e, w') \<and> is_Exception e \<and> progress (take k stages_iac) w w')
     (\<lambda>k w'. progress (take k stages_iac) w w')
     (\<lambda>vpc_info sg_info iam_info lt_info lb_info asg_info w'.
        progress stages_iac w w' \<and>
        main_iac p w =
          (Inr (),
           w'\<lparr>trace := trace w' @
                  flush_events p the_ledger_file
                    (JObj [(''vpc'', vpc_info), (''security_groups'', sg_info), (''iam'', iam_info),
                           (''launch_template'', lt_info), (''load_balancer'', lb_info),
                           (''auto_scaling_group'', asg_info)])
                  @ [Print ''Infrastructure details saved to infrastructure_details.json'' [],
                     Print ''Infrastructure deployment completed successfully!'' []],
               files := (files w')(the_ledger_file \<mapsto>
                  concat (json_dump p
                    (JObj [(''vpc'', vpc_info), (''security_groups'', sg_info), (''iam'', iam_info),
                           (''launch_template'', lt_info), (''load_balancer'', lb_info),
                           (''auto_scaling_group'', asg_info)])))\<rparr>))"
  unfolding along_iac_def
proof (rule afterI, goal_cases)
  let ?w0 = "w\<lparr>trace := trace w @ [Print ''Starting infrastructure deployment...'' []]\<rparr>"
  have p0: "progress (take 0 stages_iac) w ?w0" by (simp add: progress_start)

  {
    case (1 e w1)
    note s1 = this
    from progress_stage [OF p0 stage_create_vpc order_refl s1 refl refl refl]
    have "progress (take 1 stages_iac) w w1" and "is_Exception e"
      by (simp_all add: stages_iac_def)
    moreover have "main_iac p w = (Inl e, w1)"
      by (simp add: main_iac_def glue_defs s1)
    ultimately show ?case by simp
  next
    case (2 vpc_info w1)
    note s1 = this
    from progress_stage [OF p0 stage_create_vpc order_refl s1 refl refl refl]
    have p1: "progress (take 1 stages_iac) w w1"
      by (simp_all add: stages_iac_def)
    from create_vpc_shape [OF s1] obtain vpc_id subnets where
      g_vpc_id: "subscript vpc_info ''vpc_id'' = Inr vpc_id"
      and g_subnets: "subscript vpc_info ''subnets'' = Inr subnets"
      by blast
    show ?case
      apply (rule conjI [OF p1])
      apply (rule readsI [OF g_vpc_id])
    proof (rule afterI, goal_cases)
    have sm2: "trace (w1\<lparr>g_vpc_id := Some vpc_id\<rparr>) = trace w1" "files (w1\<lparr>g_vpc_id := Some vpc_id\<rparr>) = files w1"
      "g_infrastructure (w1\<lparr>g_vpc_id := Some vpc_id\<rparr>) = g_infrastructure w1" by simp_all
    {
      case (1 e w2)
      note s2 = this
      from progress_stage [OF p1 stage_create_security_groups order_refl s2 sm2]
      have "progress (take 2 stages_iac) w w2" and "is_Exception e"
        by (simp_all add: stages_iac_def)
      moreover have "main_iac p w = (Inl e, w2)"
        by (simp add: main_iac_def glue_defs s1 g_vpc_id g_subnets s2)
      ultimately show ?case by simp
    next
      case (2 sg_info w2)
      note s2 = this
      from progress_stage [OF p1 stage_create_security_groups order_refl s2 sm2]
      have p2: "progress (take 2 stages_iac) w w2"
        by (simp_all add: stages_iac_def)
      from create_security_groups_shape [OF s2] obtain backend_sg_id alb_sg_id where
        g_backend_sg_id: "subscript sg_info ''backend_sg_id'' = Inr backend_sg_id"
        and g_alb_sg_id: "subscript sg_info ''alb_sg_id'' = Inr alb_sg_id"
        by blast
      show ?case
        apply (rule conjI [OF p2])
      proof (rule afterI, goal_cases)
      {
        case (1 e w3)
        note s3 = this
        from progress_stage [OF p2 stage_create_iam_role order_refl s3 refl refl refl]
        have "progress (take 3 stages_iac) w w3" and "is_Exception e"
          by (simp_all add: stages_iac_def)
        moreover have "main_iac p w = (Inl e, w3)"
          by (simp add: main_iac_def glue_defs s1 g_vpc_id g_subnets s2 g_backend_sg_id g_alb_sg_id s3)
        ultimately show ?case by simp
      next
        case (2 iam_info w3)
        note s3 = this
        from progress_stage [OF p2 stage_create_iam_role order_refl s3 refl refl refl]
        have p3: "progress (take 3 stages_iac) w w3"
          by (simp_all add: stages_iac_def)
        from create_iam_role_shape [OF s3] obtain instance_profile_name where
          g_instance_profile_name: "subscript iam_info ''instance_profile_name'' = Inr instance_profile_name"
          by blast
        show ?case
          apply (rule conjI [OF p3])
          apply (rule readsI [OF g_backend_sg_id])
          apply (rule readsI [OF g_instance_profile_name])
        proof (rule afterI, goal_cases)
        {
          case (1 e w4)
          note s4 = this
          from progress_stage [OF p3 stage_create_launch_template order_refl s4 refl refl refl]
          have "progress (take 4 stages_iac) w w4" and "is_Exception e"
            by (simp_all add: stages_iac_def)
          moreover have "main_iac p w = (Inl e, w4)"
            by (simp add: main_iac_def glue_defs s1 g_vpc_id g_subnets s2 g_backend_sg_id g_alb_sg_id s3 g_instance_profile_name s4)
          ultimately show ?case by simp
        next
          case (2 lt_info w4)
          note s4 = this
          from progress_stage [OF p3 stage_create_launch_template order_refl s4 refl refl refl]
          have p4: "progress (take 4 stages_iac) w w4"
            by (simp_all add: stages_iac_def)
          from create_launch_template_shape [OF s4] obtain lt_id where
            g_lt_id: "subscript lt_info ''lt_id'' = Inr lt_id"
            by blast
          show ?case
            apply (rule conjI [OF p4])
            apply (rule readsI [OF g_subnets])
            apply (rule readsI [OF g_alb_sg_id])
          proof (rule afterI, goal_cases)
          {
            case (1 e w5)
            note s5 = this
            from progress_stage [OF p4 stage_create_load_balancer order_refl s5 refl refl refl]
            have "progress (take 5 stages_iac) w w5" and "is_Exception e"
              by (simp_all add: stages_iac_def)
            moreover have "main_iac p w = (Inl e, w5)"
              by (simp add: main_iac_def glue_defs s1 g_vpc_id g_subnets s2 g_backend_sg_id g_alb_sg_id s3 g_instance_profile_name s4 g_lt_id s5)
            ultimately show ?case by simp
          next
            case (2 lb_info w5)
            note s5 = this
            from progress_stage [OF p4 stage_create_load_balancer order_refl s5 refl refl refl]
            have p5: "progress (take 5 stages_iac) w w5"
              by (simp_all add: stages_iac_def)
            from create_load_balancer_shape [OF s5] obtain hello_tg_arn profile_tg_arn where
              g_hello_tg_arn: "subscript lb_info ''hello_tg_arn'' = Inr hello_tg_arn"
              and g_profile_tg_arn: "subscript lb_info ''profile_tg_arn'' = Inr profile_tg_arn"
              by blast
            show ?case
              apply (rule conjI [OF p5])
              apply (rule readsI [OF g_lt_id])
              apply (rule readsI [OF g_hello_tg_arn])
              apply (rule readsI [OF g_profile_tg_arn])
            proof (rule afterI, goal_cases)
            {
              case (1 e w6)
              note s6 = this
              from progress_stage [OF p5 stage_create_auto_scaling_group order_refl s6 refl refl refl]
              have "progress (take 6 stages_iac) w w6" and "is_Exception e"
                by (simp_all add: stages_iac_def)
              moreover have "main_iac p w = (Inl e, w6)"
                by (simp add: main_iac_def glue_defs s1 g_vpc_id g_subnets s2 g_backend_sg_id g_alb_sg_id s3 g_instance_profile_name s4 g_lt_id s5 g_hello_tg_arn g_profile_tg_arn s6)
              ultimately show ?case by simp
            next
              case (2 asg_info w6)
              note s6 = this
              from progress_stage [OF p5 stage_create_auto_scaling_group order_refl s6 refl refl refl]
              have p6: "progress (take 6 stages_iac) w w6"
                by (simp_all add: stages_iac_def)
              have "main_iac p w =
                      (Inr (),
           w6\<lparr>trace := trace w6 @
                  flush_events p the_ledger_file
                    (JObj [(''vpc'', vpc_info), (''security_groups'', sg_info), (''iam'', iam_info),
                           (''launch_template'', lt_info), (''load_balancer'', lb_info),
                           (''auto_scaling_group'', asg_info)])
                  @ [Print ''Infrastructure details saved to infrastructure_details.json'' [],
                     Print ''Infrastructure deployment completed successfully!'' []],
               files := (files w6)(the_ledger_file \<mapsto>
                  concat (json_dump p
                    (JObj [(''vpc'', vpc_info), (''security_groups'', sg_info), (''iam'', iam_info),
                           (''launch_template'', lt_info), (''load_balancer'', lb_info),
                           (''auto_scaling_group'', asg_info)])))\<rparr>)"
                by (simp add: main_iac_def glue_defs save_infrastructure_details_def dump_to_file_result
                    flush_events_def s1 g_vpc_id g_subnets s2 g_backend_sg_id g_alb_sg_id s3 g_instance_profile_name s4 g_lt_id s5 g_hello_tg_arn g_profile_tg_arn s6)
              with p6 show ?case by (simp add: stages_iac_def)
            }
            qed
          }
          qed
        }
        qed
      }
      qed
    }
    qed
  }
qed

lemma main_deploy_along:
  "along_deploy p w
     (\<lambda>k e w'. main_deploy p w = (Inl e, w') \<and> is_Exception e \<and> progress (take k stages_deploy) w w')
     (\<lambda>k w'. progress (take k stages_deploy) w w')
     (\<lambda>backend_info lb_info dns_info frontend_info lambda_info w'.
        progress stages_deploy w w' \<and>
        (\<exists>d alb_dns. g_infrastructure w = Some (JObj d) \<and> subscript lb_info ''alb_dns'' = Inr alb_dns \<and>
        main_deploy p w =
          (Inr (),
           w'\<lparr>trace := trace w' @
                  flush_events p the_ledger_file (JObj (dict_update d
                      [(''backend_deployment'', backend_info), (''load_balancer_config'', lb_info),
                       (''dns'', dns_info), (''frontend'', frontend_info), (''lambda'', lambda_info)]))
                  @ [Print ''Updated infrastructure details saved to infrastructure_details.json'' [],
                     Print ''Deployment completed successfully!'' [],
                     Print ''Your application should be accessible at: http://{domain_name}''
                       [JStr domain_name],
                     Print ''Note: DNS propagation may take up to 48 hours to complete.'' [],
                     Print ''In the meantime, you can access the application via the ALB DNS: {alb_dns}''
                       [alb_dns]],
               files := (files w')(the_ledger_file \<mapsto>
                  concat (json_dump p (JObj (dict_update d
                      [(''backend_deployment'', backend_info), (''load_balancer_config'', lb_info),
                       (''dns'', dns_info), (''frontend'', frontend_info), (''lambda'', lambda_info)])))),
               g_infrastructure := Some (JObj (dict_update d
                      [(''backend_deployment'', backend_info), (''load_balancer_config'', lb_info),
                       (''dns'', dns_info), (''frontend'', frontend_info), (''lambda'', lambda_info)]))\<rparr>)))"
  unfolding along_deploy_def
proof (rule afterI, goal_cases)
  let ?w0 = "w\<lparr>trace := trace w @ [Print ''Starting deployment of additional services...'' []]\<rparr>"
  have p0: "progress (take 0 stages_deploy) w ?w0" by (simp add: progress_start)

  {
    case (1 e w1)
    note s1 = this
    from progress_stage [OF p0 stage_deploy_backend_services order_refl s1 refl refl refl]
    have "progress (take 1 stages_deploy) w w1" and "is_Exception e"
      by (simp_all add: stages_deploy_def)
    moreover have "main_deploy p w = (Inl e, w1)"
      by (simp add: main_deploy_def glue_defs s1)
    ultimately show ?case by simp
  next
    case (2 backend_info w1)
    note s1 = this
    from progress_stage [OF p0 stage_deploy_backend_services order_refl s1 refl refl refl]
    have p1: "progress (take 1 stages_deploy) w w1"
      by (simp_all add: stages_deploy_def)
    from deploy_backend_services_ledger [OF s1] obtain d where d: "g_infrastructure w = Some (JObj d)"
      by auto
    show ?case
      apply (rule conjI [OF p1])
    proof (rule afterI, goal_cases)
    {
      case (1 e w2)
      note s2 = this
      from progress_stage [OF p1 stage_set_up_load_balancer order_refl s2 refl refl refl]
      have "progress (take 2 stages_deploy) w w2" and "is_Exception e"
        by (simp_all add: stages_deploy_def)
      moreover have "main_deploy p w = (Inl e, w2)"
        by (simp add: main_deploy_def glue_defs s1 s2)
      ultimately show ?case by simp
    next
      case (2 lb_info w2)
      note s2 = this
      from progress_stage [OF p1 stage_set_up_load_balancer order_refl s2 refl refl refl]
      have p2: "progress (take 2 stages_deploy) w w2"
        by (simp_all add: stages_deploy_def)
      from set_up_load_balancer_shape [OF s2] obtain alb_dns where
        g_alb_dns: "subscript lb_info ''alb_dns'' = Inr alb_dns"
        by blast
      show ?case
        apply (rule conjI [OF p2])
        apply (rule readsI [OF g_alb_dns])
      proof (rule afterI, goal_cases)
      {
        case (1 e w3)
        note s3 = this
        from never_raises [OF stage_configure_dns s3] show ?case .
      next
        case (2 dns_info w3)
        note s3 = this
        from progress_stage [OF p2 stage_configure_dns empty_subsetI s3 refl refl refl]
        have p3: "progress (take 3 stages_deploy) w w3"
          by (simp_all add: stages_deploy_def)
        show ?case
          apply (rule conjI [OF p3])
        proof (rule afterI, goal_cases)
        {
          case (1 e w4)
          note s4 = this
          from progress_stage [OF p3 stage_deploy_frontend order_refl s4 refl refl refl]
          have "progress (take 4 stages_deploy) w w4" and "is_Exception e"
            by (simp_all add: stages_deploy_def)
          moreover have "main_deploy p w = (Inl e, w4)"
            by (simp add: main_deploy_def glue_defs s1 s2 g_alb_dns s3 s4)
          ultimately show ?case by simp
        next
          case (2 frontend_info w4)
          note s4 = this
          from progress_stage [OF p3 stage_deploy_frontend order_refl s4 refl refl refl]
          have p4: "progress (take 4 stages_deploy) w w4"
            by (simp_all add: stages_deploy_def)
          show ?case
            apply (rule conjI [OF p4])
          proof (rule afterI, goal_cases)
          {
            case (1 e w5)
            note s5 = this
            from progress_stage [OF p4 stage_create_lambda_functions order_refl s5 refl refl refl]
            have "progress (take 5 stages_deploy) w w5" and "is_Exception e"
              by (simp_all add: stages_deploy_def)
            moreover have "main_deploy p w = (Inl e, w5)"
              by (simp add: main_deploy_def glue_defs s1 s2 g_alb_dns s3 s4 s5)
            ultimately show ?case by simp
          next
            case (2 lambda_info w5)
            note s5 = this
            from progress_stage [OF p4 stage_create_lambda_functions order_refl s5 refl refl refl]
            have p5: "progress (take 5 stages_deploy) w w5"
              by (simp_all add: stages_deploy_def)
            from p5 d have d5: "g_infrastructure w5 = Some (JObj d)" by (simp add: progress_def)
            have "main_deploy p w =
                    (Inr (),
           w5\<lparr>trace := trace w5 @
                  flush_events p the_ledger_file (JObj (dict_update d
                      [(''backend_deployment'', backend_info), (''load_balancer_config'', lb_info),
                       (''dns'', dns_info), (''frontend'', frontend_info), (''lambda'', lambda_info)]))
                  @ [Print ''Updated infrastructure details saved to infrastructure_details.json'' [],
                     Print ''Deployment completed successfully!'' [],
                     Print ''Your application should be accessible at: http://{domain_name}''
                       [JStr domain_name],
                     Print ''Note: DNS propagation may take up to 48 hours to complete.'' [],
                     Print ''In the meantime, you can access the application via the ALB DNS: {alb_dns}''
                       [alb_dns]],
               files := (files w5)(the_ledger_file \<mapsto>
                  concat (json_dump p (JObj (dict_update d
                      [(''backend_deployment'', backend_info), (''load_balancer_config'', lb_info),
                       (''dns'', dns_info), (''frontend'', frontend_info), (''lambda'', lambda_info)])))),
               g_infrastructure := Some (JObj (dict_update d
                      [(''backend_deployment'', backend_info), (''load_balancer_config'', lb_info),
                       (''dns'', dns_info), (''frontend'', frontend_info), (''lambda'', lambda_info)]))\<rparr>)"
              by (simp add: main_deploy_def glue_defs update_infrastructure_details_def read_global_def
                  dump_to_file_result flush_events_def d5 s1 s2 g_alb_dns s3 s4 s5)
            moreover from p5 have "progress stages_deploy w w5" by (simp add: stages_deploy_def)
            ultimately show ?case using p5 d g_alb_dns by blast
          }
          qed
        }
        qed
      }
      qed
    }
    qed
  }
qed

lemma along_iac_mono:
  assumes "along_iac p w R B D"
    and "\<And>k e w'. R k e w' \<Longrightarrow> R' k e w'"
    and "\<And>k w'. B k w' \<Longrightarrow> B' k w'"
    and "\<And>v1 v2 v3 v4 v5 v6 w'. D v1 v2 v3 v4 v5 v6 w' \<Longrightarrow> D' v1 v2 v3 v4 v5 v6 w'"
  shows "along_iac p w R' B' D'"
  using assms(1) unfolding along_iac_def
  apply -
  apply ((erule after_mono reads_mono | erule conjE | rule conjI | erule assms(2-4))+)
  done

lemma along_deploy_mono:
  assumes "along_deploy p w R B D"
    and "\<And>k e w'. R k e w' \<Longrightarrow> R' k e w'"
    and "\<And>k w'. B k w' \<Longrightarrow> B' k w'"
    and "\<And>v1 v2 v3 v4 v5 w'. D v1 v2 v3 v4 v5 w' \<Longrightarrow> D' v1 v2 v3 v4 v5 w'"
  shows "along_deploy p w R' B' D'"
  using assms(1) unfolding along_deploy_def
  apply -
  apply ((erule after_mono reads_mono | erule conjE | rule conjI | erule assms(2-4) | assumption)+)
  done

section \<open>Example runs\<close>

lemmas prog_defs = bnd_def ret_def raise_def lift_def emit_def enter_def print_def sleep_def call_def
  waiter_def uuid4_def try_except_def read_global_def open_w_def close_file_def dump_to_file_def
  load_from_file_def assign_vpc_id_def assign_infrastructure_def sub2_def sub_first_sub_def
  comma_join_def

lemmas stage_defs = create_vpc_def create_security_groups_def create_iam_role_def
  create_launch_template_def create_load_balancer_def create_auto_scaling_group_def
  save_infrastructure_details_def deploy_backend_services_def set_up_load_balancer_def
  configure_dns_try_def configure_dns_def deploy_frontend_def create_backup_bucket_def create_lambda_functions_def
  update_infrastructure_details_def tcp_from_anywhere_def tcp_from_group_def alias_record_def

lemmas example_defs = p_ok_def answer_def deny_def w_fresh_def w_ledger_def ledger_iac_def
  ledger_text_def the_ledger_file_def domain_name_def w_rerun_def ledger_rerun_def

lemma run_iac_ok:
  "case main_iac p_ok w_fresh of
     (r, w') \<Rightarrow> r = Inr () \<and> files w' the_ledger_file = Some ledger_text"
  by (simp add: main_iac_def stage_defs prog_defs example_defs)

lemma run_deploy_rerun:
  "case main_deploy p_ok w_rerun of (r, w') \<Rightarrow> r = Inr ()"
  by (simp add: main_deploy_def stage_defs prog_defs example_defs)

lemma run_iac_vpc_denied:
  "case main_iac (deny ''create_vpc'' p_ok) w_fresh of
     (r, w') \<Rightarrow> r = Inl (ClientError ''AccessDenied'') \<and> entered (trace w') = [''create_vpc'']"
  by (simp add: main_iac_def stage_defs prog_defs example_defs)

lemma run_iac_sg_denied:
  "case main_iac (deny ''create_security_group'' p_ok) w_fresh of
     (r, w') \<Rightarrow> r = Inl (ClientError ''AccessDenied'')
        \<and> entered (trace w') = [''create_vpc'', ''create_security_groups'']
        \<and> files w' the_ledger_file = None"
  by (simp add: main_iac_def stage_defs prog_defs example_defs)

lemma run_iac_role_denied:
  "case main_iac (deny ''create_role'' p_ok) w_fresh of
     (r, w') \<Rightarrow> r = Inl (ClientError ''AccessDenied'')
        \<and> entered (trace w') = [''create_vpc'', ''create_security_groups'', ''create_iam_role'']
        \<and> files w' the_ledger_file = None"
  by (simp add: main_iac_def stage_defs prog_defs example_defs)

lemma exit_status_Exception: "is_Exception e \<Longrightarrow> exit_status (Inl e) = 1"
  by (cases e) simp_all

section \<open>The order of the stages\<close>

lemma entered_writes [simp]: "entered (map (FileWrite path) cs) = []"
  by (induction cs) simp_all

lemma entered_flush_events [simp]: "entered (flush_events p path v) = []"
  by (simp add: flush_events_def)

text \<open>
  C6 (as amended).  Both scripts enter their stage functions in the fixed order of the
  source and never twice.  In every run the stages entered are an initial segment of that
  order.  Followed stage by stage: when the \<open>k\<close>-th stage raises, the script raises that
  exception in the world the stage left, so the stages entered are exactly the first
  \<open>k\<close>; when no stage raises, the script returns and the stages entered are all of them,
  each once.  Nothing depends on the ledger that was loaded: the statement holds for
  every world, so also for one whose ledger already holds the output keys.
\<close>

theorem stages_entered_in_fixed_order:
  "(\<forall>r w'. main_iac p w = (r, w') \<longrightarrow>
      (\<exists>t. trace w' = trace w @ t \<and> prefix (entered t) stages_iac \<and> distinct (entered t)
          \<and> ((\<exists>u. r = Inr u) \<longrightarrow> entered t = stages_iac)))
   \<and> (\<forall>r w'. main_deploy p w = (r, w') \<longrightarrow>
      (\<exists>t. trace w' = trace w @ t \<and> prefix (entered t) stages_deploy \<and> distinct (entered t)
          \<and> ((\<exists>u. r = Inr u) \<longrightarrow> entered t = stages_deploy)))
   \<and> along_iac p w
        (\<lambda>k e w'. main_iac p w = (Inl e, w')
                   \<and> (\<exists>t. trace w' = trace w @ t \<and> entered t = take k stages_iac))
        (\<lambda>k w'. \<exists>t. trace w' = trace w @ t \<and> entered t = take k stages_iac)
        (\<lambda>vpc_info sg_info iam_info lt_info lb_info asg_info w'.
           \<exists>w'' t. main_iac p w = (Inr (), w'') \<and> trace w'' = trace w @ t
                  \<and> entered t = stages_iac)
   \<and> along_deploy p w
        (\<lambda>k e w'. main_deploy p w = (Inl e, w')
                   \<and> (\<exists>t. trace w' = trace w @ t \<and> entered t = take k stages_deploy))
        (\<lambda>k w'. \<exists>t. trace w' = trace w @ t \<and> entered t = take k stages_deploy)
        (\<lambda>backend_info lb_info dns_info frontend_info lambda_info w'.
           \<exists>w'' t. main_deploy p w = (Inr (), w'') \<and> trace w'' = trace w @ t
                  \<and> entered t = stages_deploy)"
proof (intro conjI allI impI)
  fix r w'
  assume run: "main_iac p w = (r, w')"
  from pipeline_summary [OF main_iac_runs _ run] obtain t where
    t: "trace w' = trace w @ t" and pre: "prefix (entered t) stages_iac"
    and ok: "\<forall>u. r = Inr u \<longrightarrow> marks t = map Enter stages_iac @ [FileOpenW the_ledger_file]
                \<and> entered t = stages_iac"
    by blast
  have "distinct stages_iac" by (simp add: stages_iac_def)
  with pre have "distinct (entered t)" by (metis prefixE distinct_append)
  with t pre ok
  show "\<exists>t. trace w' = trace w @ t \<and> prefix (entered t) stages_iac \<and> distinct (entered t)
          \<and> ((\<exists>u. r = Inr u) \<longrightarrow> entered t = stages_iac)"
    by (intro exI [of _ t]) auto
next
  fix r w'
  assume run: "main_deploy p w = (r, w')"
  from pipeline_summary [OF main_deploy_runs aborted_deploy_prefixes run] obtain t where
    t: "trace w' = trace w @ t" and pre: "prefix (entered t) stages_deploy"
    and ok: "\<forall>u. r = Inr u \<longrightarrow> marks t = map Enter stages_deploy @ [FileOpenW the_ledger_file]
                \<and> entered t = stages_deploy"
    by blast
  have "distinct stages_deploy" by (simp add: stages_deploy_def)
  with pre have "distinct (entered t)" by (metis prefixE distinct_append)
  with t pre ok
  show "\<exists>t. trace w' = trace w @ t \<and> prefix (entered t) stages_deploy \<and> distinct (entered t)
          \<and> ((\<exists>u. r = Inr u) \<longrightarrow> entered t = stages_deploy)"
    by (intro exI [of _ t]) auto
next
  show "along_iac p w
        (\<lambda>k e w'. main_iac p w = (Inl e, w')
                   \<and> (\<exists>t. trace w' = trace w @ t \<and> entered t = take k stages_iac))
        (\<lambda>k w'. \<exists>t. trace w' = trace w @ t \<and> entered t = take k stages_iac)
        (\<lambda>vpc_info sg_info iam_info lt_info lb_info asg_info w'.
           \<exists>w'' t. main_iac p w = (Inr (), w'') \<and> trace w'' = trace w @ t
                  \<and> entered t = stages_iac)"
  proof (rule along_iac_mono [OF main_iac_along], goal_cases)
    case (1 k e w')
    then show ?case by (auto simp: progress_def)
  next
    case (2 k w')
    then show ?case by (auto simp: progress_def)
  next
    case (3 v1 v2 v3 v4 v5 v6 w')
    then show ?case by (clarsimp simp: progress_def)
  qed
next
  show "along_deploy p w
        (\<lambda>k e w'. main_deploy p w = (Inl e, w')
                   \<and> (\<exists>t. trace w' = trace w @ t \<and> entered t = take k stages_deploy))
        (\<lambda>k w'. \<exists>t. trace w' = trace w @ t \<and> entered t = take k stages_deploy)
        (\<lambda>backend_info lb_info dns_info frontend_info lambda_info w'.
           \<exists>w'' t. main_deploy p w = (Inr (), w'') \<and> trace w'' = trace w @ t
                  \<and> entered t = stages_deploy)"
  proof (rule along_deploy_mono [OF main_deploy_along], goal_cases)
    case (1 k e w')
    then show ?case by (auto simp: progress_def)
  next
    case (2 k w')
    then show ?case by (auto simp: progress_def)
  next
    case (3 v1 v2 v3 v4 v5 w')
    then show ?case by (clarsimp simp: progress_def)
  qed
qed


theorem stages_entered_in_fixed_order_witness:
  "entered (trace (snd (main_iac p_ok w_fresh))) = stages_iac
   \<and> entered (trace (snd (main_deploy p_ok w_rerun))) = stages_deploy
   \<and> subscript ledger_rerun ''dns'' = Inr (JObj [(''domain_name'', JStr ''project-orc.example.com'')])
   \<and> fst (main_iac (deny ''create_launch_template'' p_ok) w_fresh) = Inl (ClientError ''AccessDenied'')
   \<and> entered (trace (snd (main_iac (deny ''create_launch_template'' p_ok) w_fresh)))
       = [''create_vpc'', ''create_security_groups'', ''create_iam_role'', ''create_launch_template'']"
proof -
  have a: "entered (trace (snd (main_iac p_ok w_fresh))) = stages_iac"
    using stages_entered_in_fixed_order [of p_ok w_fresh, THEN conjunct2, THEN conjunct2,
        THEN conjunct1]
    by (clarsimp simp: along_iac_def after_def reads_def stage_defs prog_defs example_defs)
  have b: "entered (trace (snd (main_deploy p_ok w_rerun))) = stages_deploy"
    using stages_entered_in_fixed_order [of p_ok w_rerun, THEN conjunct2, THEN conjunct2,
        THEN conjunct2]
    by (clarsimp simp: along_deploy_def after_def reads_def stage_defs prog_defs example_defs)
  have c: "subscript ledger_rerun ''dns'' =
             Inr (JObj [(''domain_name'', JStr ''project-orc.example.com'')])"
    by (simp add: ledger_rerun_def)
  have d: "fst (main_iac (deny ''create_launch_template'' p_ok) w_fresh) = Inl (ClientError ''AccessDenied'')
   \<and> entered (trace (snd (main_iac (deny ''create_launch_template'' p_ok) w_fresh)))
       = [''create_vpc'', ''create_security_groups'', ''create_iam_role'', ''create_launch_template'']"
    using stages_entered_in_fixed_order [of "deny ''create_launch_template'' p_ok" w_fresh,
        THEN conjunct2, THEN conjunct2, THEN conjunct1]
    by (clarsimp simp: along_iac_def after_def reads_def stage_defs prog_defs example_defs
        stages_iac_def)
  from a b c d show ?thesis by simp
qed

theorem stages_not_all_executed_counterexample:
  "fst (main_iac (deny ''create_vpc'' p_ok) w_fresh) = Inl (ClientError ''AccessDenied'')
   \<and> entered (trace (snd (main_iac (deny ''create_vpc'' p_ok) w_fresh))) = [''create_vpc'']"
  using run_iac_vpc_denied by (simp add: case_prod_beta)

section \<open>When the ledger is flushed\<close>

text \<open>
  C1 (as amended).  Neither script flushes between stages.  The marks of a run (stage
  entries and opens for writing, in order) are always an initial segment of: every
  stage in order, then one open of the ledger file; so the file is opened for writing at
  most once, only after the last stage.  Followed stage by stage: after each stage that
  returns, and after the stage that raises, the files are exactly those of the start of
  the run; and when the last stage has returned the script returns, leaving the files
  of the start with the ledger file holding the serialisation of the whole ledger
  (in the first script the six records the stages returned, in the second the loaded
  ledger updated with the five records).
\<close>

theorem ledger_flushed_once_after_last_stage:
  "(\<forall>r w'. main_iac p w = (r, w') \<longrightarrow>
      (\<exists>t. trace w' = trace w @ t
          \<and> prefix (marks t) (map Enter stages_iac @ [FileOpenW the_ledger_file])
          \<and> ((\<exists>u. r = Inr u) \<longrightarrow> marks t = map Enter stages_iac @ [FileOpenW the_ledger_file])))
   \<and> (\<forall>r w'. main_deploy p w = (r, w') \<longrightarrow>
      (\<exists>t. trace w' = trace w @ t
          \<and> prefix (marks t) (map Enter stages_deploy @ [FileOpenW the_ledger_file])
          \<and> ((\<exists>u. r = Inr u) \<longrightarrow> marks t = map Enter stages_deploy @ [FileOpenW the_ledger_file])))
   \<and> along_iac p w
        (\<lambda>k e w'. main_iac p w = (Inl e, w') \<and> files w' = files w)
        (\<lambda>k w'. files w' = files w)
        (\<lambda>vpc_info sg_info iam_info lt_info lb_info asg_info w'.
           \<exists>w''. main_iac p w = (Inr (), w'')
                \<and> files w'' = (files w)(the_ledger_file \<mapsto> concat (json_dump p
                     (JObj [(''vpc'', vpc_info), (''security_groups'', sg_info), (''iam'', iam_info),
                            (''launch_template'', lt_info), (''load_balancer'', lb_info),
                            (''auto_scaling_group'', asg_info)]))))
   \<and> along_deploy p w
        (\<lambda>k e w'. main_deploy p w = (Inl e, w') \<and> files w' = files w)
        (\<lambda>k w'. files w' = files w)
        (\<lambda>backend_info lb_info dns_info frontend_info lambda_info w'.
           \<exists>d w''. g_infrastructure w = Some (JObj d) \<and> main_deploy p w = (Inr (), w'')
                \<and> files w'' = (files w)(the_ledger_file \<mapsto> concat (json_dump p
                     (JObj (dict_update d
                        [(''backend_deployment'', backend_info), (''load_balancer_config'', lb_info),
                         (''dns'', dns_info), (''frontend'', frontend_info),
                         (''lambda'', lambda_info)])))))"
proof (intro conjI allI impI)
  fix r w'
  assume run: "main_iac p w = (r, w')"
  from pipeline_summary [OF main_iac_runs _ run] obtain t where
    "trace w' = trace w @ t"
    and "prefix (marks t) (map Enter stages_iac @ [FileOpenW the_ledger_file])"
    and "\<forall>u. r = Inr u \<longrightarrow> marks t = map Enter stages_iac @ [FileOpenW the_ledger_file]
                \<and> entered t = stages_iac"
    by blast
  then show "\<exists>t. trace w' = trace w @ t
          \<and> prefix (marks t) (map Enter stages_iac @ [FileOpenW the_ledger_file])
          \<and> ((\<exists>u. r = Inr u) \<longrightarrow> marks t = map Enter stages_iac @ [FileOpenW the_ledger_file])"
    by (intro exI [of _ t]) auto
next
  fix r w'
  assume run: "main_deploy p w = (r, w')"
  from pipeline_summary [OF main_deploy_runs aborted_deploy_prefixes run] obtain t where
    "trace w' = trace w @ t"
    and "prefix (marks t) (map Enter stages_deploy @ [FileOpenW the_ledger_file])"
    and "\<forall>u. r = Inr u \<longrightarrow> marks t = map Enter stages_deploy @ [FileOpenW the_ledger_file]
                \<and> entered t = stages_deploy"
    by blast
  then show "\<exists>t. trace w' = trace w @ t
          \<and> prefix (marks t) (map Enter stages_deploy @ [FileOpenW the_ledger_file])
          \<and> ((\<exists>u. r = Inr u) \<longrightarrow> marks t = map Enter stages_deploy @ [FileOpenW the_ledger_file])"
    by (intro exI [of _ t]) auto
next
  show "along_iac p w
        (\<lambda>k e w'. main_iac p w = (Inl e, w') \<and> files w' = files w)
        (\<lambda>k w'. files w' = files w)
        (\<lambda>vpc_info sg_info iam_info lt_info lb_info asg_info w'.
           \<exists>w''. main_iac p w = (Inr (), w'')
                \<and> files w'' = (files w)(the_ledger_file \<mapsto> concat (json_dump p
                     (JObj [(''vpc'', vpc_info), (''security_groups'', sg_info), (''iam'', iam_info),
                            (''launch_template'', lt_info), (''load_balancer'', lb_info),
                            (''auto_scaling_group'', asg_info)]))))"
    by (rule along_iac_mono [OF main_iac_along]) (clarsimp simp: progress_def)+
next
  show "along_deploy p w
        (\<lambda>k e w'. main_deploy p w = (Inl e, w') \<and> files w' = files w)
        (\<lambda>k w'. files w' = files w)
        (\<lambda>backend_info lb_info dns_info frontend_info lambda_info w'.
           \<exists>d w''. g_infrastructure w = Some (JObj d) \<and> main_deploy p w = (Inr (), w'')
                \<and> files w'' = (files w)(the_ledger_file \<mapsto> concat (json_dump p
                     (JObj (dict_update d
                        [(''backend_deployment'', backend_info), (''load_balancer_config'', lb_info),
                         (''dns'', dns_info), (''frontend'', frontend_info),
                         (''lambda'', lambda_info)])))))"
    by (rule along_deploy_mono [OF main_deploy_along]) (clarsimp simp: progress_def)+
qed

theorem ledger_flushed_once_after_last_stage_witness:
  "files (snd (main_iac p_ok w_fresh)) = [the_ledger_file \<mapsto> ledger_text]
   \<and> marks (trace (snd (main_iac p_ok w_fresh))) = map Enter stages_iac @ [FileOpenW the_ledger_file]
   \<and> files (snd (main_deploy p_ok w_loaded)) the_ledger_file
       = Some ''{vpc;security_groups;iam;launch_template;load_balancer;auto_scaling_group;backend_deployment;load_balancer_config;dns;frontend;lambda;}''
   \<and> files (snd (main_deploy (deny ''create_function'' p_ok) w_loaded)) the_ledger_file
       = Some ledger_text"
proof -
  have a: "files (snd (main_iac p_ok w_fresh)) = [the_ledger_file \<mapsto> ledger_text]"
    using ledger_flushed_once_after_last_stage [of p_ok w_fresh, THEN conjunct2, THEN conjunct2,
        THEN conjunct1]
    by (clarsimp simp: along_iac_def after_def reads_def stage_defs prog_defs example_defs)
  obtain r1 w1 where run1: "main_iac p_ok w_fresh = (r1, w1)" by (cases "main_iac p_ok w_fresh")
  with run_iac_ok have r1: "r1 = Inr ()" by simp
  from ledger_flushed_once_after_last_stage [of p_ok w_fresh, THEN conjunct1] run1 r1
  obtain t1 where "trace w1 = trace w_fresh @ t1"
    and "marks t1 = map Enter stages_iac @ [FileOpenW the_ledger_file]" by blast
  then have "marks (trace w1) = map Enter stages_iac @ [FileOpenW the_ledger_file]"
    by (simp add: w_fresh_def)
  with run1 have b: "marks (trace (snd (main_iac p_ok w_fresh)))
      = map Enter stages_iac @ [FileOpenW the_ledger_file]" by simp
  have c: "files (snd (main_deploy p_ok w_loaded)) the_ledger_file
       = Some ''{vpc;security_groups;iam;launch_template;load_balancer;auto_scaling_group;backend_deployment;load_balancer_config;dns;frontend;lambda;}''"
    using ledger_flushed_once_after_last_stage [of p_ok w_loaded, THEN conjunct2, THEN conjunct2,
        THEN conjunct2]
    by (clarsimp simp: along_deploy_def after_def reads_def stage_defs prog_defs example_defs
        w_loaded_def dict_update_def)
  have d: "files (snd (main_deploy (deny ''create_function'' p_ok) w_loaded)) the_ledger_file
       = Some ledger_text"
    using ledger_flushed_once_after_last_stage [of "deny ''create_function'' p_ok" w_loaded,
        THEN conjunct2, THEN conjunct2, THEN conjunct2]
    by (clarsimp simp: along_deploy_def after_def reads_def stage_defs prog_defs example_defs
        w_loaded_def)
  from a b c d show ?thesis by simp
qed

theorem no_flush_between_stages_counterexample:
  "fst (main_iac (deny ''create_security_group'' p_ok) w_fresh) = Inl (ClientError ''AccessDenied'')
   \<and> entered (trace (snd (main_iac (deny ''create_security_group'' p_ok) w_fresh)))
       = [''create_vpc'', ''create_security_groups'']
   \<and> files (snd (main_iac (deny ''create_security_group'' p_ok) w_fresh)) the_ledger_file = None"
  using run_iac_sg_denied by (simp add: case_prod_beta)

section \<open>A stage that fails\<close>

text \<open>
  C2 (as amended).  No stage call is guarded in either \<open>__main__\<close> block.  Followed stage
  by stage: when a stage raises, the script raises that same exception in the world the
  stage left, so nothing runs after the failing stage; the process ends with status 1;
  the stages entered are exactly those up to the failing one; and nothing is flushed: no
  file was opened for writing, and the files and the loaded ledger are what they were
  when the run started.  There is no status recorded for the failed stage.
\<close>

theorem failed_stage_aborts_without_flush:
  "(\<forall>e w'. main_iac p w = (Inl e, w') \<longrightarrow>
      exit_status (Inl e :: exn + unit) = 1 \<and> files w' = files w
      \<and> (\<exists>t. trace w' = trace w @ t \<and> prefix (entered t) stages_iac
             \<and> list_all (\<lambda>ev. \<not> is_open_w ev) t))
   \<and> (\<forall>e w'. main_deploy p w = (Inl e, w') \<longrightarrow>
      exit_status (Inl e :: exn + unit) = 1 \<and> files w' = files w
      \<and> (\<exists>t. trace w' = trace w @ t \<and> prefix (entered t) stages_deploy
             \<and> list_all (\<lambda>ev. \<not> is_open_w ev) t))
   \<and> along_iac p w
        (\<lambda>k e w'. main_iac p w = (Inl e, w') \<and> exit_status (Inl e :: exn + unit) = 1
                   \<and> progress (take k stages_iac) w w')
        (\<lambda>k w'. True) (\<lambda>vpc_info sg_info iam_info lt_info lb_info asg_info w'. True)
   \<and> along_deploy p w
        (\<lambda>k e w'. main_deploy p w = (Inl e, w') \<and> exit_status (Inl e :: exn + unit) = 1
                   \<and> progress (take k stages_deploy) w w')
        (\<lambda>k w'. True) (\<lambda>backend_info lb_info dns_info frontend_info lambda_info w'. True)"
proof (intro conjI allI impI)
  fix e w'
  assume run: "main_iac p w = (Inl e, w')"
  from pipeline_summary [OF main_iac_runs _ run] obtain t where
    t: "trace w' = trace w @ t" and pre: "prefix (entered t) stages_iac"
    and er: "is_Exception e \<and> (\<forall>ev \<in> set t. \<not> is_open_w ev) \<and> files w' = files w"
    by blast
  from er show "exit_status (Inl e :: exn + unit) = 1" by (simp add: exit_status_Exception)
  from er show "files w' = files w" by simp
  from t pre er show "\<exists>t. trace w' = trace w @ t \<and> prefix (entered t) stages_iac
             \<and> list_all (\<lambda>ev. \<not> is_open_w ev) t"
    by (intro exI [of _ t]) (simp add: list_all_iff)
next
  fix e w'
  assume run: "main_deploy p w = (Inl e, w')"
  from pipeline_summary [OF main_deploy_runs aborted_deploy_prefixes run] obtain t where
    t: "trace w' = trace w @ t" and pre: "prefix (entered t) stages_deploy"
    and er: "is_Exception e \<and> (\<forall>ev \<in> set t. \<not> is_open_w ev) \<and> files w' = files w"
    by blast
  from er show "exit_status (Inl e :: exn + unit) = 1" by (simp add: exit_status_Exception)
  from er show "files w' = files w" by simp
  from t pre er show "\<exists>t. trace w' = trace w @ t \<and> prefix (entered t) stages_deploy
             \<and> list_all (\<lambda>ev. \<not> is_open_w ev) t"
    by (intro exI [of _ t]) (simp add: list_all_iff)
next
  show "along_iac p w
        (\<lambda>k e w'. main_iac p w = (Inl e, w') \<and> exit_status (Inl e :: exn + unit) = 1
                   \<and> progress (take k stages_iac) w w')
        (\<lambda>k w'. True) (\<lambda>vpc_info sg_info iam_info lt_info lb_info asg_info w'. True)"
    by (rule along_iac_mono [OF main_iac_along]) (simp_all add: exit_status_Exception)
next
  show "along_deploy p w
        (\<lambda>k e w'. main_deploy p w = (Inl e, w') \<and> exit_status (Inl e :: exn + unit) = 1
                   \<and> progress (take k stages_deploy) w w')
        (\<lambda>k w'. True) (\<lambda>backend_info lb_info dns_info frontend_info lambda_info w'. True)"
    by (rule along_deploy_mono [OF main_deploy_along]) (simp_all add: exit_status_Exception)
qed

theorem failed_stage_aborts_without_flush_witness:
  "fst (main_iac (deny ''create_role'' p_ok) w_fresh) = Inl (ClientError ''AccessDenied'')
   \<and> exit_status (fst (main_iac (deny ''create_role'' p_ok) w_fresh)) = 1
   \<and> files (snd (main_iac (deny ''create_role'' p_ok) w_fresh)) = files w_fresh
   \<and> entered (trace (snd (main_iac (deny ''create_role'' p_ok) w_fresh)))
       = [''create_vpc'', ''create_security_groups'', ''create_iam_role'']
   \<and> fst (main_deploy (deny ''create_security_group'' p_ok) w_loaded)
       = Inl (ClientError ''AccessDenied'')
   \<and> files (snd (main_deploy (deny ''create_security_group'' p_ok) w_loaded)) = files w_loaded
   \<and> g_infrastructure (snd (main_deploy (deny ''create_security_group'' p_ok) w_loaded))
       = Some ledger_iac
   \<and> entered (trace (snd (main_deploy (deny ''create_security_group'' p_ok) w_loaded)))
       = [''deploy_backend_services'', ''set_up_load_balancer'', ''configure_dns'',
          ''deploy_frontend'']"
proof -
  have a: "fst (main_iac (deny ''create_role'' p_ok) w_fresh) = Inl (ClientError ''AccessDenied'')
   \<and> exit_status (fst (main_iac (deny ''create_role'' p_ok) w_fresh)) = 1
   \<and> files (snd (main_iac (deny ''create_role'' p_ok) w_fresh)) = files w_fresh
   \<and> entered (trace (snd (main_iac (deny ''create_role'' p_ok) w_fresh)))
       = [''create_vpc'', ''create_security_groups'', ''create_iam_role'']"
    using failed_stage_aborts_without_flush [of "deny ''create_role'' p_ok" w_fresh,
        THEN conjunct2, THEN conjunct2, THEN conjunct1]
    by (clarsimp simp: along_iac_def after_def reads_def progress_def stages_iac_def
        stage_defs prog_defs example_defs)
  have b: "fst (main_deploy (deny ''create_security_group'' p_ok) w_loaded)
       = Inl (ClientError ''AccessDenied'')
   \<and> files (snd (main_deploy (deny ''create_security_group'' p_ok) w_loaded)) = files w_loaded
   \<and> g_infrastructure (snd (main_deploy (deny ''create_security_group'' p_ok) w_loaded))
       = Some ledger_iac
   \<and> entered (trace (snd (main_deploy (deny ''create_security_group'' p_ok) w_loaded)))
       = [''deploy_backend_services'', ''set_up_load_balancer'', ''configure_dns'',
          ''deploy_frontend'']"
    using failed_stage_aborts_without_flush [of "deny ''create_security_group'' p_ok" w_loaded,
        THEN conjunct2, THEN conjunct2, THEN conjunct2]
    by (clarsimp simp: along_deploy_def after_def reads_def progress_def stages_deploy_def
        stage_defs prog_defs example_defs w_loaded_def)
  from a b show ?thesis by simp
qed

theorem no_flush_on_abort_counterexample:
  "fst (main_iac (deny ''create_role'' p_ok) w_fresh) = Inl (ClientError ''AccessDenied'')
   \<and> entered (trace (snd (main_iac (deny ''create_role'' p_ok) w_fresh)))
       = [''create_vpc'', ''create_security_groups'', ''create_iam_role'']
   \<and> files (snd (main_iac (deny ''create_role'' p_ok) w_fresh)) the_ledger_file = None"
  using run_iac_role_denied by (simp add: case_prod_beta)

section \<open>The load balancer stage and the module-level \<open>vpc_id\<close>\<close>

lemma assigned_bnd:
  assumes "assigned m" and "\<And>x. assigned (f x)"
  shows "assigned (bnd m f)"
  unfolding assigned_def
proof (intro allI impI)
  fix w :: world
  assume w: "g_vpc_id w \<noteq> None"
  obtain r1 w1 where m1: "m w = (r1, w1)" by (cases "m w")
  with assms(1) w have 1: "g_vpc_id w1 \<noteq> None" "\<forall>n. r1 \<noteq> Inl (NameError n)"
    by (auto simp: assigned_def)
  show "case bnd m f w of (r, w') \<Rightarrow> g_vpc_id w' \<noteq> None \<and> (\<forall>n. r \<noteq> Inl (NameError n))"
  proof (cases r1)
    case (Inl e)
    with m1 1 show ?thesis by (simp add: bnd_def)
  next
    case (Inr x)
    with m1 have "bnd m f w = f x w1" by (simp add: bnd_def)
    moreover from assms(2) [of x] 1(1)
    have "case f x w1 of (r, w') \<Rightarrow> g_vpc_id w' \<noteq> None \<and> (\<forall>n. r \<noteq> Inl (NameError n))"
      by (simp add: assigned_def)
    ultimately show ?thesis by simp
  qed
qed

lemma assigned_ret: "assigned (ret x)"
  by (simp add: assigned_def ret_def)

lemma assigned_lift: "(\<And>n. r \<noteq> Inl (NameError n)) \<Longrightarrow> assigned (lift r)"
  by (simp add: assigned_def lift_def)

lemma assigned_enter: "assigned (enter f)"
  by (simp add: assigned_def enter_def emit_def)

lemma assigned_print: "assigned (print s vs)"
  by (simp add: assigned_def print_def emit_def)

lemma assigned_call: "assigned (call p c)"
  by (simp add: assigned_def call_def Let_def split: sum.splits)

lemma assigned_read_vpc_id: "assigned (read_global g_vpc_id name)"
  by (auto simp: assigned_def read_global_def split: option.splits)

lemma subscript_not_NameError [simp]: "subscript v k \<noteq> Inl (NameError n)"
  by (cases v) (auto split: option.splits)

lemma first_not_NameError [simp]: "first v \<noteq> Inl (NameError n)"
  by (cases v) (auto split: list.splits)

lemma sub_first_sub_not_NameError [simp]: "sub_first_sub v k1 k2 \<noteq> Inl (NameError n)"
  by (auto simp: sub_first_sub_def split: sum.splits)

lemma assigned_create_load_balancer: "assigned (create_load_balancer p subnets alb_sg_id)"
  unfolding create_load_balancer_def
  by (intro assigned_bnd assigned_ret assigned_lift assigned_enter assigned_print assigned_call
      assigned_read_vpc_id; simp)

lemma create_load_balancer_never_returns_unassigned:
  assumes "g_vpc_id w = None"
  shows "fst (create_load_balancer p subnets alb_sg_id w) \<noteq> Inr v"
  using assms
  by (simp add: create_load_balancer_def bnd_def enter_def emit_def lift_def call_def print_def
      read_global_def Let_def split: sum.splits)

lemma enter_InrD: "enter n w = (Inr x, w') \<Longrightarrow> w' = w\<lparr>trace := trace w @ [Enter n]\<rparr>"
  by (auto simp: enter_def emit_def)

lemma print_InrD: "print s vs w = (Inr x, w') \<Longrightarrow> w' = w\<lparr>trace := trace w @ [Print s vs]\<rparr>"
  by (auto simp: print_def emit_def)

lemma lift_InrD: "lift r w = (Inr x, w') \<Longrightarrow> w' = w"
  by (simp add: lift_def)

lemma call_InrD: "call p c w = (Inr v, w') \<Longrightarrow> w' = w\<lparr>trace := trace w @ [Call c]\<rparr>"
  by (auto simp: call_def Let_def split: sum.splits)

lemma read_global_InrD: "read_global g n w = (Inr v, w') \<Longrightarrow> w' = w \<and> g w = Some v"
  by (auto simp: read_global_def split: option.splits)

lemma ret_InrD: "ret x w = (Inr v, w') \<Longrightarrow> w' = w"
  by (simp add: ret_def)

lemma create_load_balancer_target_groups:
  assumes "g_vpc_id w = Some vpc_id"
    and "create_load_balancer p subnets alb_sg_id w = (Inr lb_info, w')"
  shows "\<exists>t. trace w' = trace w @ t
           \<and> target_group_requests t =
                [[(''Name'', JStr ''ProjectOrc-Hello-TG''), (''Port'', JInt 3001),
                  (''VpcId'', vpc_id)],
                 [(''Name'', JStr ''ProjectOrc-Profile-TG''), (''Port'', JInt 3002),
                  (''VpcId'', vpc_id)]]"
  using assms(2) unfolding create_load_balancer_def
  apply (elim bnd_InrE)
  apply (drule enter_InrD print_InrD lift_InrD call_InrD read_global_InrD ret_InrD)+
  using assms(1)
  apply clarsimp
  done


lemma create_load_balancer_name_error_only_after_creation:
  assumes "g_vpc_id w = None"
    and "fst (create_load_balancer p subnets alb_sg_id w) = Inl (NameError n)"
  shows "\<exists>public_subnets load_balancer alb_arn alb_dns.
           subscript subnets ''public'' = Inr public_subnets
         \<and> remote p (trace w @ [Enter ''create_load_balancer''])
            (Api ''elbv2'' ''create_load_balancer''
               [(''Name'', JStr ''ProjectOrc-ALB''), (''Subnets'', public_subnets),
                (''SecurityGroups'', JList [alb_sg_id])]) = Inr load_balancer
         \<and> sub_first_sub load_balancer ''LoadBalancers'' ''LoadBalancerArn'' = Inr alb_arn
         \<and> sub_first_sub load_balancer ''LoadBalancers'' ''DNSName'' = Inr alb_dns"
  using assms
  by (auto simp: create_load_balancer_def bnd_def enter_def emit_def lift_def call_def print_def
      read_global_def Let_def split: sum.splits)

text \<open>
  C9 (as amended).  \<open>create_load_balancer\<close> takes \<open>VpcId\<close> for its target groups from the
  module-level \<open>vpc_id\<close>, not from its parameters: a call that returns has requested
  exactly two target groups, both with \<open>VpcId\<close> equal to the value of the global,
  whatever the parameters.  Called while \<open>vpc_id\<close> is unassigned it never returns.  It
  then raises \<open>NameError\<close> exactly when the provider has created the load balancer (the
  creation call answered with a payload holding the ARN and the DNS name), and at that
  point the load balancer has been requested and no target group; when the subnets have
  no \<open>public\<close> entry or the creation fails, that earlier exception is raised instead.
  Called with \<open>vpc_id\<close> assigned it cannot raise \<open>NameError\<close>.
\<close>

theorem create_load_balancer_reads_global_vpc_id:
  "(g_vpc_id w = Some vpc_id \<and> create_load_balancer p subnets alb_sg_id w = (Inr lb_info, w') \<longrightarrow>
      (\<exists>t. trace w' = trace w @ t
          \<and> target_group_requests t =
               [[(''Name'', JStr ''ProjectOrc-Hello-TG''), (''Port'', JInt 3001),
                 (''VpcId'', vpc_id)],
                [(''Name'', JStr ''ProjectOrc-Profile-TG''), (''Port'', JInt 3002),
                 (''VpcId'', vpc_id)]]))
   \<and> (g_vpc_id w = None \<longrightarrow> (\<forall>v. fst (create_load_balancer p subnets alb_sg_id w) \<noteq> Inr v))
   \<and> (g_vpc_id w = None
        \<and> subscript subnets ''public'' = Inr public_subnets
        \<and> remote p (trace w @ [Enter ''create_load_balancer''])
            (Api ''elbv2'' ''create_load_balancer''
               [(''Name'', JStr ''ProjectOrc-ALB''), (''Subnets'', public_subnets),
                (''SecurityGroups'', JList [alb_sg_id])]) = Inr load_balancer
        \<and> sub_first_sub load_balancer ''LoadBalancers'' ''LoadBalancerArn'' = Inr alb_arn
        \<and> sub_first_sub load_balancer ''LoadBalancers'' ''DNSName'' = Inr alb_dns
      \<longrightarrow> create_load_balancer p subnets alb_sg_id w =
            (Inl (NameError ''vpc_id''),
             w\<lparr>trace := trace w @
                  [Enter ''create_load_balancer'',
                   Call (Api ''elbv2'' ''create_load_balancer''
                          [(''Name'', JStr ''ProjectOrc-ALB''), (''Subnets'', public_subnets),
                           (''SecurityGroups'', JList [alb_sg_id])]),
                   Print ''Application Load Balancer created: {alb_arn}'' [alb_arn],
                   Print ''ALB DNS Name: {alb_dns}'' [alb_dns]]\<rparr>))
   \<and> (g_vpc_id w = None \<and> fst (create_load_balancer p subnets alb_sg_id w) = Inl (NameError n) \<longrightarrow>
        (\<exists>public_subnets load_balancer alb_arn alb_dns.
           subscript subnets ''public'' = Inr public_subnets
         \<and> remote p (trace w @ [Enter ''create_load_balancer''])
            (Api ''elbv2'' ''create_load_balancer''
               [(''Name'', JStr ''ProjectOrc-ALB''), (''Subnets'', public_subnets),
                (''SecurityGroups'', JList [alb_sg_id])]) = Inr load_balancer
         \<and> sub_first_sub load_balancer ''LoadBalancers'' ''LoadBalancerArn'' = Inr alb_arn
         \<and> sub_first_sub load_balancer ''LoadBalancers'' ''DNSName'' = Inr alb_dns))
   \<and> (g_vpc_id w \<noteq> None \<longrightarrow>
        (\<forall>n. fst (create_load_balancer p subnets alb_sg_id w) \<noteq> Inl (NameError n)))"
proof (intro conjI impI allI)
  assume "g_vpc_id w = Some vpc_id \<and> create_load_balancer p subnets alb_sg_id w = (Inr lb_info, w')"
  then show "\<exists>t. trace w' = trace w @ t
          \<and> target_group_requests t =
               [[(''Name'', JStr ''ProjectOrc-Hello-TG''), (''Port'', JInt 3001),
                 (''VpcId'', vpc_id)],
                [(''Name'', JStr ''ProjectOrc-Profile-TG''), (''Port'', JInt 3002),
                 (''VpcId'', vpc_id)]]"
    by (blast intro: create_load_balancer_target_groups)
next
  fix v
  assume "g_vpc_id w = None"
  then show "fst (create_load_balancer p subnets alb_sg_id w) \<noteq> Inr v"
    by (rule create_load_balancer_never_returns_unassigned)
next
  assume "g_vpc_id w = None
        \<and> subscript subnets ''public'' = Inr public_subnets
        \<and> remote p (trace w @ [Enter ''create_load_balancer''])
            (Api ''elbv2'' ''create_load_balancer''
               [(''Name'', JStr ''ProjectOrc-ALB''), (''Subnets'', public_subnets),
                (''SecurityGroups'', JList [alb_sg_id])]) = Inr load_balancer
        \<and> sub_first_sub load_balancer ''LoadBalancers'' ''LoadBalancerArn'' = Inr alb_arn
        \<and> sub_first_sub load_balancer ''LoadBalancers'' ''DNSName'' = Inr alb_dns"
  then show "create_load_balancer p subnets alb_sg_id w =
            (Inl (NameError ''vpc_id''),
             w\<lparr>trace := trace w @
                  [Enter ''create_load_balancer'',
                   Call (Api ''elbv2'' ''create_load_balancer''
                          [(''Name'', JStr ''ProjectOrc-ALB''), (''Subnets'', public_subnets),
                           (''SecurityGroups'', JList [alb_sg_id])]),
                   Print ''Application Load Balancer created: {alb_arn}'' [alb_arn],
                   Print ''ALB DNS Name: {alb_dns}'' [alb_dns]]\<rparr>)"
    by (simp add: create_load_balancer_def bnd_def enter_def emit_def lift_def call_def print_def
        read_global_def Let_def)
next
  assume "g_vpc_id w = None \<and> fst (create_load_balancer p subnets alb_sg_id w) = Inl (NameError n)"
  then show "\<exists>public_subnets load_balancer alb_arn alb_dns.
           subscript subnets ''public'' = Inr public_subnets
         \<and> remote p (trace w @ [Enter ''create_load_balancer''])
            (Api ''elbv2'' ''create_load_balancer''
               [(''Name'', JStr ''ProjectOrc-ALB''), (''Subnets'', public_subnets),
                (''SecurityGroups'', JList [alb_sg_id])]) = Inr load_balancer
         \<and> sub_first_sub load_balancer ''LoadBalancers'' ''LoadBalancerArn'' = Inr alb_arn
         \<and> sub_first_sub load_balancer ''LoadBalancers'' ''DNSName'' = Inr alb_dns"
    by (blast intro: create_load_balancer_name_error_only_after_creation)
next
  fix n
  assume "g_vpc_id w \<noteq> None"
  with assigned_create_load_balancer [of p subnets alb_sg_id]
  have "case create_load_balancer p subnets alb_sg_id w of
          (r, w') \<Rightarrow> g_vpc_id w' \<noteq> None \<and> (\<forall>n. r \<noteq> Inl (NameError n))"
    by (simp add: assigned_def)
  then show "fst (create_load_balancer p subnets alb_sg_id w) \<noteq> Inl (NameError n)"
    by (cases "create_load_balancer p subnets alb_sg_id w") simp
qed

lemma run_create_load_balancer_assigned:
  "case create_load_balancer p_ok (JObj [(''public'', JList [JStr ''subnet-9''])]) (JStr ''sg-9'')
          w_rerun of
     (r, w') \<Rightarrow> r = Inr (JObj [(''alb_arn'', JStr ''arn:alb''), (''alb_dns'', JStr ''alb.example''),
                               (''hello_tg_arn'', JStr ''arn:tg''),
                               (''profile_tg_arn'', JStr ''arn:tg'')])"
  by (simp add: create_load_balancer_def prog_defs example_defs)

theorem create_load_balancer_reads_global_vpc_id_witness:
  "create_load_balancer p_ok subnets_example (JStr ''sg-1'') w_fresh =
     (Inl (NameError ''vpc_id''),
      w_fresh\<lparr>trace :=
         [Enter ''create_load_balancer'',
          Call (Api ''elbv2'' ''create_load_balancer''
                 [(''Name'', JStr ''ProjectOrc-ALB''),
                  (''Subnets'', JList [JStr ''subnet-1'', JStr ''subnet-2'']),
                  (''SecurityGroups'', JList [JStr ''sg-1''])]),
          Print ''Application Load Balancer created: {alb_arn}'' [JStr ''arn:alb''],
          Print ''ALB DNS Name: {alb_dns}'' [JStr ''alb.example'']]\<rparr>)
   \<and> fst (create_load_balancer p_ok subnets_example (JStr ''sg-1'') w_rerun)
       \<noteq> Inl (NameError ''vpc_id'')
   \<and> g_vpc_id w_rerun = Some (JStr ''vpc-1'')
   \<and> target_group_requests (trace (snd (create_load_balancer p_ok
          (JObj [(''public'', JList [JStr ''subnet-9''])]) (JStr ''sg-9'') w_rerun)))
       = [[(''Name'', JStr ''ProjectOrc-Hello-TG''), (''Port'', JInt 3001),
           (''VpcId'', JStr ''vpc-1'')],
          [(''Name'', JStr ''ProjectOrc-Profile-TG''), (''Port'', JInt 3002),
           (''VpcId'', JStr ''vpc-1'')]]"
proof -
  have a: "g_vpc_id w_fresh = None
        \<and> subscript subnets_example ''public'' = Inr (JList [JStr ''subnet-1'', JStr ''subnet-2''])
        \<and> remote p_ok (trace w_fresh @ [Enter ''create_load_balancer''])
            (Api ''elbv2'' ''create_load_balancer''
               [(''Name'', JStr ''ProjectOrc-ALB''),
                (''Subnets'', JList [JStr ''subnet-1'', JStr ''subnet-2'']),
                (''SecurityGroups'', JList [JStr ''sg-1''])]) = Inr answer
        \<and> sub_first_sub answer ''LoadBalancers'' ''LoadBalancerArn'' = Inr (JStr ''arn:alb'')
        \<and> sub_first_sub answer ''LoadBalancers'' ''DNSName'' = Inr (JStr ''alb.example'')"
    by (simp add: w_fresh_def subnets_example_def p_ok_def answer_def sub_first_sub_def)
  have b: "g_vpc_id w_rerun \<noteq> None" by (simp add: w_rerun_def)
  have c: "g_vpc_id w_rerun = Some (JStr ''vpc-1'')" by (simp add: w_rerun_def)
  from create_load_balancer_reads_global_vpc_id
    [of w_fresh _ p_ok subnets_example "JStr ''sg-1''" _ _ "JList [JStr ''subnet-1'', JStr ''subnet-2'']"
      answer "JStr ''arn:alb''" "JStr ''alb.example''"] a
  have 1: "create_load_balancer p_ok subnets_example (JStr ''sg-1'') w_fresh =
     (Inl (NameError ''vpc_id''),
      w_fresh\<lparr>trace := trace w_fresh @
         [Enter ''create_load_balancer'',
          Call (Api ''elbv2'' ''create_load_balancer''
                 [(''Name'', JStr ''ProjectOrc-ALB''),
                  (''Subnets'', JList [JStr ''subnet-1'', JStr ''subnet-2'']),
                  (''SecurityGroups'', JList [JStr ''sg-1''])]),
          Print ''Application Load Balancer created: {alb_arn}'' [JStr ''arn:alb''],
          Print ''ALB DNS Name: {alb_dns}'' [JStr ''alb.example'']]\<rparr>)"
    by blast
  from create_load_balancer_reads_global_vpc_id
    [of w_rerun _ p_ok subnets_example "JStr ''sg-1''"] b
  have 2: "fst (create_load_balancer p_ok subnets_example (JStr ''sg-1'') w_rerun)
       \<noteq> Inl (NameError ''vpc_id'')"
    by blast
  let ?run = "create_load_balancer p_ok (JObj [(''public'', JList [JStr ''subnet-9''])])
                (JStr ''sg-9'') w_rerun"
  from run_create_load_balancer_assigned
  have d: "?run = (Inr (JObj [(''alb_arn'', JStr ''arn:alb''), (''alb_dns'', JStr ''alb.example''),
                               (''hello_tg_arn'', JStr ''arn:tg''),
                               (''profile_tg_arn'', JStr ''arn:tg'')]), snd ?run)"
    by (simp add: case_prod_beta prod_eq_iff)
  from create_load_balancer_reads_global_vpc_id
    [of w_rerun "JStr ''vpc-1''" p_ok "JObj [(''public'', JList [JStr ''subnet-9''])]" "JStr ''sg-9''"
      _ "snd ?run", THEN conjunct1] c d
  obtain t where "trace (snd ?run) = trace w_rerun @ t"
    and "target_group_requests t =
       [[(''Name'', JStr ''ProjectOrc-Hello-TG''), (''Port'', JInt 3001),
           (''VpcId'', JStr ''vpc-1'')],
          [(''Name'', JStr ''ProjectOrc-Profile-TG''), (''Port'', JInt 3002),
           (''VpcId'', JStr ''vpc-1'')]]"
    by blast
  then have 3: "target_group_requests (trace (snd ?run)) =
       [[(''Name'', JStr ''ProjectOrc-Hello-TG''), (''Port'', JInt 3001),
           (''VpcId'', JStr ''vpc-1'')],
          [(''Name'', JStr ''ProjectOrc-Profile-TG''), (''Port'', JInt 3002),
           (''VpcId'', JStr ''vpc-1'')]]"
    by (simp add: w_rerun_def)
  from 1 2 3 c show ?thesis by (simp add: w_fresh_def)
qed

theorem name_error_not_for_every_call_counterexample:
  "g_vpc_id w_fresh = None
   \<and> fst (create_load_balancer (deny ''create_load_balancer'' p_ok) subnets_example (JStr ''sg-1'')
            w_fresh) = Inl (ClientError ''AccessDenied'')
   \<and> fst (create_load_balancer p_ok (JObj []) (JStr ''sg-1'') w_fresh) = Inl (KeyError ''public'')"
  by (simp add: create_load_balancer_def prog_defs example_defs subnets_example_def)

section \<open>The backup bucket\<close>

lemma create_backup_bucket_denied:
  assumes "\<forall>h args. remote p h (Api ''s3'' ''create_bucket'' args) = Inl msg"
  shows "create_backup_bucket p bucket_name w =
     (Inr (Some (JObj [(''error'', JStr msg)])),
      w\<lparr>trace := trace w @
         [Call (Api ''s3'' ''create_bucket''
                 [(''Bucket'', JStr bucket_name),
                  (''CreateBucketConfiguration'',
                     JObj [(''LocationConstraint'', JStr ''us-west-1'')])]),
          Print ''Error creating S3 bucket: {str(e)}'' [JStr msg]]\<rparr>)"
  using assms
  by (simp add: create_backup_bucket_def try_except_def bnd_def call_def print_def emit_def
      ret_def Let_def)

text \<open>
  C10.  When the provider rejects \<open>create_bucket\<close>, both backup functions return the
  record \<open>{'error': message}\<close> and nothing else happens: the only SDK call of the run is
  that \<open>create_bucket\<close> (no role, no function, no rule is requested), and the world is
  unchanged but for the trace (no configuration file is written).
\<close>

theorem bucket_failure_returns_error_only:
  assumes "\<forall>h args. remote p h (Api ''s3'' ''create_bucket'' args) = Inl msg"
  shows "(\<exists>t. create_db_backup_lambda p w =
             (Inr (JObj [(''error'', JStr msg)]), w\<lparr>trace := trace w @ t\<rparr>)
           \<and> called t = [(''s3'', ''create_bucket'')])
       \<and> (\<exists>t. create_lambda_functions p w =
             (Inr (JObj [(''error'', JStr msg)]), w\<lparr>trace := trace w @ t\<rparr>)
           \<and> called t = [(''s3'', ''create_bucket'')])"
proof
  have a: "create_db_backup_lambda p w =
     (Inr (JObj [(''error'', JStr msg)]),
      w\<lparr>trace := trace w @
         [Enter ''create_db_backup_lambda'',
          Print ''Setting up database backup infrastructure...'' [],
          Call (Api ''s3'' ''create_bucket''
                 [(''Bucket'', JStr (''project-orc-db-backups-'' @
                     take 8 (uuid4_hex p (trace w @ [Enter ''create_db_backup_lambda'',
                        Print ''Setting up database backup infrastructure...'' []])))),
                  (''CreateBucketConfiguration'',
                     JObj [(''LocationConstraint'', JStr ''us-west-1'')])]),
          Print ''Error creating S3 bucket: {str(e)}'' [JStr msg]]\<rparr>)"
    by (simp add: create_db_backup_lambda_def bnd_def enter_def print_def emit_def uuid4_def
        ret_def create_backup_bucket_denied [OF assms])
  show "\<exists>t. create_db_backup_lambda p w =
             (Inr (JObj [(''error'', JStr msg)]), w\<lparr>trace := trace w @ t\<rparr>)
           \<and> called t = [(''s3'', ''create_bucket'')]"
    by (intro exI conjI, rule a) simp
  have b: "create_lambda_functions p w =
     (Inr (JObj [(''error'', JStr msg)]),
      w\<lparr>trace := trace w @
         [Enter ''create_lambda_functions'',
          Print ''Creating Lambda functions...'' [],
          Call (Api ''s3'' ''create_bucket''
                 [(''Bucket'', JStr (''project-orc-db-backups-'' @
                     take 8 (uuid4_hex p (trace w @ [Enter ''create_lambda_functions'',
                        Print ''Creating Lambda functions...'' []])))),
                  (''CreateBucketConfiguration'',
                     JObj [(''LocationConstraint'', JStr ''us-west-1'')])]),
          Print ''Error creating S3 bucket: {str(e)}'' [JStr msg]]\<rparr>)"
    by (simp add: create_lambda_functions_def bnd_def enter_def print_def emit_def uuid4_def
        ret_def create_backup_bucket_denied [OF assms])
  show "\<exists>t. create_lambda_functions p w =
             (Inr (JObj [(''error'', JStr msg)]), w\<lparr>trace := trace w @ t\<rparr>)
           \<and> called t = [(''s3'', ''create_bucket'')]"
    by (intro exI conjI, rule b) simp
qed

lemma deny_create_bucket:
  "\<forall>h args. remote (deny ''create_bucket'' p_ok) h (Api ''s3'' ''create_bucket'' args)
      = Inl ''AccessDenied''"
  by (simp add: deny_def)

theorem bucket_failure_returns_error_only_witness:
  "fst (create_db_backup_lambda (deny ''create_bucket'' p_ok) w_fresh)
     = Inr (JObj [(''error'', JStr ''AccessDenied'')])
   \<and> called (trace (snd (create_db_backup_lambda (deny ''create_bucket'' p_ok) w_fresh)))
     = [(''s3'', ''create_bucket'')]
   \<and> files (snd (create_db_backup_lambda (deny ''create_bucket'' p_ok) w_fresh)) = Map.empty
   \<and> fst (create_lambda_functions (deny ''create_bucket'' p_ok) w_fresh)
     = Inr (JObj [(''error'', JStr ''AccessDenied'')])
   \<and> called (trace (snd (create_lambda_functions (deny ''create_bucket'' p_ok) w_fresh)))
     = [(''s3'', ''create_bucket'')]"
proof -
  from bucket_failure_returns_error_only [OF deny_create_bucket, of w_fresh]
  obtain t1 t2 where
    1: "create_db_backup_lambda (deny ''create_bucket'' p_ok) w_fresh =
          (Inr (JObj [(''error'', JStr ''AccessDenied'')]), w_fresh\<lparr>trace := trace w_fresh @ t1\<rparr>)"
    and c1: "called t1 = [(''s3'', ''create_bucket'')]"
    and 2: "create_lambda_functions (deny ''create_bucket'' p_ok) w_fresh =
          (Inr (JObj [(''error'', JStr ''AccessDenied'')]), w_fresh\<lparr>trace := trace w_fresh @ t2\<rparr>)"
    and c2: "called t2 = [(''s3'', ''create_bucket'')]"
    by blast
  show ?thesis unfolding 1 2 using c1 c2 by (simp add: w_fresh_def)
qed

section \<open>The readiness waiter times out\<close>

lemma wait_from_times_out:
  assumes "\<forall>k. \<exists>s. check_fn k = Inr s \<and> \<not> target s"
  shows "fst (wait_from check_fn target interval k n) = TimedOut
       \<and> length (filter is_probe (snd (wait_from check_fn target interval k n))) = n
       \<and> sum_list (map pause_seconds (snd (wait_from check_fn target interval k n)))
           = (n - 1) * interval"
proof (induction n arbitrary: k)
  case 0
  show ?case by simp
next
  case (Suc n)
  from assms obtain s where s: "check_fn k = Inr s" "\<not> target s" by blast
  show ?case
  proof (cases n)
    case 0
    with s show ?thesis by simp
  next
    case (Suc m)
    with s Suc.IH [of "Suc k"] show ?thesis
      by (simp add: case_prod_beta)
  qed
qed

lemma wait_from_times_out_log:
  assumes "\<forall>k. \<exists>s. check_fn k = Inr s \<and> \<not> target s"
  shows "wait_from check_fn target interval k n =
     (TimedOut,
      concat (map (\<lambda>j. [Probe j, Pause interval]) [k..<k + n - 1])
      @ (if n = 0 then [] else [Probe (k + n - 1)]))"
proof (induction n arbitrary: k)
  case 0
  show ?case by simp
next
  case (Suc n)
  from assms obtain s where s: "check_fn k = Inr s" "\<not> target s" by blast
  show ?case
  proof (cases n)
    case 0
    with s show ?thesis by simp
  next
    case (Suc m)
    have "[k..<k + Suc n - 1] = k # [Suc k..<Suc k + n - 1]"
      using Suc by (simp add: upt_conv_Cons)
    with s Suc Suc.IH [of "Suc k"] show ?thesis by simp
  qed
qed

text \<open>
  C8.  A waiter whose probe never reports the target state returns \<open>TimedOut\<close> after
  exactly the configured number of probes.  Its log is: probe, pause of the interval,
  probe, pause of the interval, and so on, ending with the last probe: the same interval
  is slept between any two consecutive probes and nowhere else.  The waiter is a total
  function of the attempt count: it cannot block.
\<close>

theorem wait_until_times_out_after_max_attempts:
  assumes "\<forall>k. \<exists>s. check_fn k = Inr s \<and> \<not> target s"
  shows "wait_until check_fn target interval max_attempts =
           (TimedOut,
            concat (map (\<lambda>k. [Probe k, Pause interval]) [0..<max_attempts - 1])
            @ (if max_attempts = 0 then [] else [Probe (max_attempts - 1)]))
       \<and> length (filter is_probe (snd (wait_until check_fn target interval max_attempts)))
           = max_attempts
       \<and> sum_list (map pause_seconds (snd (wait_until check_fn target interval max_attempts)))
           = (max_attempts - 1) * interval"
proof -
  have "wait_until check_fn target interval max_attempts =
           (TimedOut,
            concat (map (\<lambda>k. [Probe k, Pause interval]) [0..<max_attempts - 1])
            @ (if max_attempts = 0 then [] else [Probe (max_attempts - 1)]))"
    unfolding wait_until_def using wait_from_times_out_log [OF assms, of interval 0 max_attempts]
    by simp
  moreover have "length (filter is_probe (snd (wait_until check_fn target interval max_attempts)))
           = max_attempts
       \<and> sum_list (map pause_seconds (snd (wait_until check_fn target interval max_attempts)))
           = (max_attempts - 1) * interval"
    unfolding wait_until_def using wait_from_times_out [OF assms, of interval 0 max_attempts]
    by simp
  ultimately show ?thesis by simp
qed

theorem wait_until_times_out_after_max_attempts_witness:
  "wait_until never_ready (\<lambda>s. s = ''available'') 30 60
     = (TimedOut, concat (map (\<lambda>k. [Probe k, Pause 30]) [0..<59]) @ [Probe 59])
   \<and> wait_until never_ready (\<lambda>s. s = ''available'') 30 3
     = (TimedOut, [Probe 0, Pause 30, Probe 1, Pause 30, Probe 2])
   \<and> length (filter is_probe (snd (wait_until never_ready (\<lambda>s. s = ''available'') 30 60))) = 60
   \<and> sum_list (map pause_seconds (snd (wait_until never_ready (\<lambda>s. s = ''available'') 30 60)))
       = 1770"
proof -
  have h: "\<forall>k. \<exists>s. never_ready k = Inr s \<and> \<not> s = ''available''"
    by (simp add: never_ready_def)
  note inst = wait_until_times_out_after_max_attempts [OF h, of 30 60]
  from inst [THEN conjunct1]
  have a1: "wait_until never_ready (\<lambda>s. s = ''available'') 30 60
     = (TimedOut, concat (map (\<lambda>k. [Probe k, Pause 30]) [0..<59]) @ [Probe 59])"
    by simp
  from inst [THEN conjunct2, THEN conjunct1]
  have a2: "length (filter is_probe (snd (wait_until never_ready (\<lambda>s. s = ''available'') 30 60))) = 60"
    by simp
  from inst [THEN conjunct2, THEN conjunct2]
  have a3: "sum_list (map pause_seconds (snd (wait_until never_ready (\<lambda>s. s = ''available'') 30 60)))
       = 1770"
    by simp
  from wait_until_times_out_after_max_attempts [OF h, of 30 3, THEN conjunct1]
  have b: "wait_until never_ready (\<lambda>s. s = ''available'') 30 3
     = (TimedOut, [Probe 0, Pause 30, Probe 1, Pause 30, Probe 2])"
    by (simp add: upt_rec)
  from a1 a2 a3 b show ?thesis by blast
qed

section \<open>What a flush does to the file\<close>






section \<open>The module-level load\<close>

lemma load_infrastructure_absent:
  assumes "files w the_ledger_file = None"
  shows "load_infrastructure p w =
     (Inl (SystemExit 1),
      w\<lparr>trace := trace w @
        [Print ''No existing infrastructure details found, please run the VPC setup script first'' []]\<rparr>)"
  using assms
  by (simp add: load_infrastructure_def try_except_def bnd_def load_from_file_def print_def
      emit_def raise_def)

lemma load_infrastructure_present:
  assumes "files w the_ledger_file = Some text" and "json_load p text = Some infrastructure"
    and "sub2 infrastructure ''vpc'' ''vpc_id'' = Inr vpc_id"
  shows "load_infrastructure p w =
     (Inr (), w\<lparr>trace := trace w @ [FileOpenR the_ledger_file,
                                      Print ''Loaded existing infrastructure details'' []],
                 g_infrastructure := Some infrastructure, g_vpc_id := Some vpc_id\<rparr>)"
  using assms
  by (simp add: load_infrastructure_def try_except_def bnd_def load_from_file_def print_def
      emit_def lift_def assign_infrastructure_def assign_vpc_id_def)

lemma sub2_raises:
  assumes "sub2 v k1 k2 = Inl e"
  shows "is_Exception e \<and> \<not> is_FileNotFoundError e"
  using assms
  by (auto simp: sub2_def split: sum.splits option.splits elim!: subscript.elims)

lemma load_infrastructure_unparsable:
  assumes "files w the_ledger_file = Some text" and "json_load p text = None"
  shows "load_infrastructure p w =
     (Inl JSONDecodeError, w\<lparr>trace := trace w @ [FileOpenR the_ledger_file]\<rparr>)"
  using assms
  by (simp add: load_infrastructure_def try_except_def bnd_def load_from_file_def)

lemma load_infrastructure_no_vpc_id:
  assumes "files w the_ledger_file = Some text" and "json_load p text = Some infrastructure"
    and "sub2 infrastructure ''vpc'' ''vpc_id'' = Inl e"
  shows "load_infrastructure p w =
     (Inl e, w\<lparr>trace := trace w @ [FileOpenR the_ledger_file,
                                      Print ''Loaded existing infrastructure details'' []],
                g_infrastructure := Some infrastructure\<rparr>)"
  using assms sub2_raises [OF assms(3)]
  by (simp add: load_infrastructure_def try_except_def bnd_def load_from_file_def print_def
      emit_def lift_def assign_infrastructure_def)

text \<open>
  C3 (as amended).  If the ledger file is absent, the script prints the diagnostic and
  exits with status 1 before any stage.  If it is present, the \<open>exit(1)\<close> branch is not
  taken, and the status still depends on what follows.  A text that does not parse
  raises out of the script before any stage, and so does a ledger without
  \<open>vpc.vpc_id\<close>: status 1.  A text that parses to a ledger holding \<open>vpc.vpc_id\<close> makes
  the \<open>__main__\<close> block run from the loaded ledger: followed stage by stage, the
  process ends with status 1 when a stage raises, and with status 0, the last line of
  its progress trace printed, when all five have returned.
\<close>

theorem ledger_file_decides_startup:
  "(files w the_ledger_file = None \<longrightarrow>
      script_deploy p w =
        (Inl (SystemExit 1),
         w\<lparr>trace := trace w @
           [Print ''No existing infrastructure details found, please run the VPC setup script first'' []]\<rparr>)
      \<and> exit_status (fst (script_deploy p w)) = 1)
   \<and> (files w the_ledger_file = Some text \<and> json_load p text = None \<longrightarrow>
      script_deploy p w =
        (Inl JSONDecodeError, w\<lparr>trace := trace w @ [FileOpenR the_ledger_file]\<rparr>)
      \<and> exit_status (fst (script_deploy p w)) = 1)
   \<and> (files w the_ledger_file = Some text \<and> json_load p text = Some infrastructure
        \<and> sub2 infrastructure ''vpc'' ''vpc_id'' = Inl e \<longrightarrow>
      script_deploy p w =
        (Inl e, w\<lparr>trace := trace w @ [FileOpenR the_ledger_file,
                                         Print ''Loaded existing infrastructure details'' []],
                   g_infrastructure := Some infrastructure\<rparr>)
      \<and> exit_status (fst (script_deploy p w)) = 1)
   \<and> (files w the_ledger_file = Some text \<and> json_load p text = Some infrastructure
        \<and> sub2 infrastructure ''vpc'' ''vpc_id'' = Inr vpc_id \<longrightarrow>
      script_deploy p w =
        main_deploy p
          (w\<lparr>trace := trace w @ [FileOpenR the_ledger_file,
                                   Print ''Loaded existing infrastructure details'' []],
             g_infrastructure := Some infrastructure, g_vpc_id := Some vpc_id\<rparr>)
      \<and> along_deploy p
          (w\<lparr>trace := trace w @ [FileOpenR the_ledger_file,
                                   Print ''Loaded existing infrastructure details'' []],
             g_infrastructure := Some infrastructure, g_vpc_id := Some vpc_id\<rparr>)
          (\<lambda>k e w'. script_deploy p w = (Inl e, w') \<and> exit_status (fst (script_deploy p w)) = 1)
          (\<lambda>k w'. True)
          (\<lambda>backend_info lb_info dns_info frontend_info lambda_info w'.
             (\<exists>w'' alb_dns. script_deploy p w = (Inr (), w'')
                \<and> last (trace w'') =
                      Print ''In the meantime, you can access the application via the ALB DNS: {alb_dns}''
                        [alb_dns])
             \<and> exit_status (fst (script_deploy p w)) = 0))"
proof (intro conjI impI)
  assume absent: "files w the_ledger_file = None"
  show "script_deploy p w =
        (Inl (SystemExit 1),
         w\<lparr>trace := trace w @
           [Print ''No existing infrastructure details found, please run the VPC setup script first'' []]\<rparr>)"
    by (simp add: script_deploy_def bnd_def load_infrastructure_absent [OF absent])
  then show "exit_status (fst (script_deploy p w)) = 1" by simp
next
  assume a: "files w the_ledger_file = Some text \<and> json_load p text = None"
  then show "script_deploy p w =
        (Inl JSONDecodeError, w\<lparr>trace := trace w @ [FileOpenR the_ledger_file]\<rparr>)"
    by (simp add: script_deploy_def bnd_def load_infrastructure_unparsable)
  then show "exit_status (fst (script_deploy p w)) = 1" by simp
next
  assume a: "files w the_ledger_file = Some text \<and> json_load p text = Some infrastructure
        \<and> sub2 infrastructure ''vpc'' ''vpc_id'' = Inl e"
  then show run: "script_deploy p w =
        (Inl e, w\<lparr>trace := trace w @ [FileOpenR the_ledger_file,
                                         Print ''Loaded existing infrastructure details'' []],
                   g_infrastructure := Some infrastructure\<rparr>)"
    by (simp add: script_deploy_def bnd_def load_infrastructure_no_vpc_id)
  from a sub2_raises have "is_Exception e" by blast
  with run show "exit_status (fst (script_deploy p w)) = 1"
    by (simp add: exit_status_Exception)
next
  assume a: "files w the_ledger_file = Some text \<and> json_load p text = Some infrastructure
        \<and> sub2 infrastructure ''vpc'' ''vpc_id'' = Inr vpc_id"
  let ?wl = "w\<lparr>trace := trace w @ [FileOpenR the_ledger_file,
                                   Print ''Loaded existing infrastructure details'' []],
             g_infrastructure := Some infrastructure, g_vpc_id := Some vpc_id\<rparr>"
  from a show run: "script_deploy p w = main_deploy p ?wl"
    by (simp add: script_deploy_def bnd_def load_infrastructure_present)
  show "along_deploy p ?wl
          (\<lambda>k e w'. script_deploy p w = (Inl e, w') \<and> exit_status (fst (script_deploy p w)) = 1)
          (\<lambda>k w'. True)
          (\<lambda>backend_info lb_info dns_info frontend_info lambda_info w'.
             (\<exists>w'' alb_dns. script_deploy p w = (Inr (), w'')
                \<and> last (trace w'') =
                      Print ''In the meantime, you can access the application via the ALB DNS: {alb_dns}''
                        [alb_dns])
             \<and> exit_status (fst (script_deploy p w)) = 0)"
    unfolding run
    by (rule along_deploy_mono [OF main_deploy_along]) (auto simp: exit_status_Exception)
qed

lemma run_script_hook_denied:
  "fst (script_deploy (deny ''put_lifecycle_hook'' p_ok) w_ledger) = Inl (ClientError ''AccessDenied'')"
  by (simp add: script_deploy_def load_infrastructure_def main_deploy_def stage_defs prog_defs
      example_defs)

theorem ledger_file_decides_startup_witness:
  "script_deploy p_ok w_fresh =
     (Inl (SystemExit 1),
      w_fresh\<lparr>trace :=
        [Print ''No existing infrastructure details found, please run the VPC setup script first'' []]\<rparr>)
   \<and> exit_status (fst (script_deploy p_ok
        (w_fresh\<lparr>files := [the_ledger_file \<mapsto> ''{'']\<rparr>))) = 1
   \<and> script_deploy p_ok w_ledger = main_deploy p_ok w_loaded
   \<and> exit_status (fst (script_deploy p_ok w_ledger)) = 0
   \<and> exit_status (fst (script_deploy (deny ''put_lifecycle_hook'' p_ok) w_ledger)) = 1"
proof -
  have absent: "files w_fresh the_ledger_file = None" by (simp add: w_fresh_def)
  have present: "files w_ledger the_ledger_file = Some ledger_text \<and> json_load p_ok ledger_text = Some ledger_iac
        \<and> sub2 ledger_iac ''vpc'' ''vpc_id'' = Inr (JStr ''vpc-1'')"
    by (simp add: w_ledger_def p_ok_def ledger_iac_def sub2_def)
  have present': "files w_ledger the_ledger_file = Some ledger_text
        \<and> json_load (deny ''put_lifecycle_hook'' p_ok) ledger_text = Some ledger_iac
        \<and> sub2 ledger_iac ''vpc'' ''vpc_id'' = Inr (JStr ''vpc-1'')"
    by (simp add: w_ledger_def p_ok_def deny_def ledger_iac_def sub2_def)
  have broken: "files (w_fresh\<lparr>files := [the_ledger_file \<mapsto> ''{'']\<rparr>) the_ledger_file = Some ''{''
        \<and> json_load p_ok ''{'' = None"
    by (simp add: p_ok_def ledger_text_def)
  from ledger_file_decides_startup [of w_fresh p_ok] absent
  have 1: "script_deploy p_ok w_fresh =
     (Inl (SystemExit 1),
      w_fresh\<lparr>trace := trace w_fresh @
        [Print ''No existing infrastructure details found, please run the VPC setup script first'' []]\<rparr>)"
    by blast
  from ledger_file_decides_startup [of "w_fresh\<lparr>files := [the_ledger_file \<mapsto> ''{'']\<rparr>" p_ok "''{''"]
    broken
  have 2: "exit_status (fst (script_deploy p_ok
        (w_fresh\<lparr>files := [the_ledger_file \<mapsto> ''{'']\<rparr>))) = 1"
    by blast
  have 3: "w_ledger\<lparr>trace := trace w_ledger @ [FileOpenR the_ledger_file,
                                   Print ''Loaded existing infrastructure details'' []],
             g_infrastructure := Some ledger_iac, g_vpc_id := Some (JStr ''vpc-1'')\<rparr> = w_loaded"
    by (simp add: w_ledger_def w_loaded_def)
  note inst = ledger_file_decides_startup [of w_ledger p_ok ledger_text ledger_iac _ "JStr ''vpc-1''",
      THEN conjunct2, THEN conjunct2, THEN conjunct2, rule_format, OF present, unfolded 3]
  from inst have 4: "script_deploy p_ok w_ledger = main_deploy p_ok w_loaded" by blast
  from inst have 5: "exit_status (fst (script_deploy p_ok w_ledger)) = 0"
    by (clarsimp simp: along_deploy_def after_def reads_def stage_defs prog_defs example_defs
        w_loaded_def)
  note inst' = ledger_file_decides_startup [of w_ledger "deny ''put_lifecycle_hook'' p_ok"
      ledger_text ledger_iac _ "JStr ''vpc-1''",
      THEN conjunct2, THEN conjunct2, THEN conjunct2, rule_format, OF present', unfolded 3]
  from inst' have 6: "exit_status (fst (script_deploy (deny ''put_lifecycle_hook'' p_ok) w_ledger)) = 1"
    by (clarsimp simp: along_deploy_def after_def reads_def stage_defs prog_defs example_defs
        w_loaded_def)
  from 1 2 4 5 6 show ?thesis by (simp add: w_fresh_def)
qed

theorem ledger_present_exit_nonzero_counterexample:
  "files w_ledger the_ledger_file = Some ledger_text
   \<and> fst (script_deploy (deny ''put_lifecycle_hook'' p_ok) w_ledger) = Inl (ClientError ''AccessDenied'')
   \<and> exit_status (fst (script_deploy (deny ''put_lifecycle_hook'' p_ok) w_ledger)) = 1"
  using run_script_hook_denied by (simp add: w_ledger_def)

section \<open>A best-effort stage\<close>

lemma body_configure_dns_try: "runs [] {[]} (configure_dns_try p d alb)"
  unfolding configure_dns_try_def
  by (intro body_rules body_case_option; simp)

lemma configure_dns_handler:
  "after (configure_dns_try p dn alb_dns)
     (w\<lparr>trace := trace w @
          [Enter ''configure_dns'',
           Print ''Configuring DNS for {domain_name} pointing to {alb_dns}...'' [JStr dn, alb_dns]]\<rparr>)
     (\<lambda>e w'. configure_dns p dn alb_dns w =
        (Inr (JObj [(''error'', JStr (str_exn e))]),
         w'\<lparr>trace := trace w' @ [Print ''Error configuring DNS: {str(e)}'' [JStr (str_exn e)]]\<rparr>))
     (\<lambda>v w'. configure_dns p dn alb_dns w = (Inr v, w'))"
proof (rule afterI, goal_cases)
  case (1 e w')
  from runsD [OF body_configure_dns_try 1] have "is_Exception e" by blast
  with 1 show ?case
    by (simp add: configure_dns_def try_except_def bnd_def enter_def print_def emit_def ret_def)
next
  case (2 v w')
  then show ?case
    by (simp add: configure_dns_def try_except_def bnd_def enter_def print_def emit_def ret_def)
qed

lemma frontend_follows_dns:
  assumes "ms \<in> aborted_deploy \<or> ms = map Enter stages_deploy @ [FileOpenW the_ledger_file]"
    and "''configure_dns'' \<in> set (entered ms)"
  shows "''deploy_frontend'' \<in> set (entered ms)"
  using assms by (auto simp: aborted_deploy_def stages_deploy_def)

text \<open>
  C4 (as amended).  \<open>configure_dns\<close> does not raise: whatever exception its \<open>try\<close> block
  raises, the handler prints it and the stage returns the record \<open>{'error': str(e)}\<close>;
  when the block returns, the stage returns the value of the block.  Nothing is stored
  at that point.  The \<open>__main__\<close> block goes on with the next stage, \<open>deploy_frontend\<close>:
  followed stage by stage, when a later stage raises, the script raises with the loaded
  ledger and the files untouched, so the record is stored nowhere; when the later stages
  return, the script returns and the ledger, in memory and on disk, holds under \<open>dns\<close>
  the record that \<open>configure_dns\<close> returned.
\<close>

theorem best_effort_dns_failure:
  "after (configure_dns_try p dn alb_dns)
     (w0\<lparr>trace := trace w0 @
          [Enter ''configure_dns'',
           Print ''Configuring DNS for {domain_name} pointing to {alb_dns}...'' [JStr dn, alb_dns]]\<rparr>)
     (\<lambda>e w'. configure_dns p dn alb_dns w0 =
        (Inr (JObj [(''error'', JStr (str_exn e))]),
         w'\<lparr>trace := trace w' @ [Print ''Error configuring DNS: {str(e)}'' [JStr (str_exn e)]]\<rparr>))
     (\<lambda>v w'. configure_dns p dn alb_dns w0 = (Inr v, w'))
   \<and> (\<forall>r w'. main_deploy p w = (r, w') \<longrightarrow>
        (\<exists>t. trace w' = trace w @ t
            \<and> (''configure_dns'' \<in> set (entered t) \<longrightarrow> ''deploy_frontend'' \<in> set (entered t))))
   \<and> along_deploy p w
        (\<lambda>k e w'. main_deploy p w = (Inl e, w') \<and> progress (take k stages_deploy) w w')
        (\<lambda>k w'. progress (take k stages_deploy) w w')
        (\<lambda>backend_info lb_info dns_info frontend_info lambda_info w'.
           \<exists>d w''. main_deploy p w = (Inr (), w'')
                \<and> g_infrastructure w'' = Some (JObj d) \<and> map_of d ''dns'' = Some dns_info
                \<and> files w'' = (files w)(the_ledger_file \<mapsto> concat (json_dump p (JObj d))))"
proof (intro conjI allI impI)
  show "after (configure_dns_try p dn alb_dns)
     (w0\<lparr>trace := trace w0 @
          [Enter ''configure_dns'',
           Print ''Configuring DNS for {domain_name} pointing to {alb_dns}...'' [JStr dn, alb_dns]]\<rparr>)
     (\<lambda>e w'. configure_dns p dn alb_dns w0 =
        (Inr (JObj [(''error'', JStr (str_exn e))]),
         w'\<lparr>trace := trace w' @ [Print ''Error configuring DNS: {str(e)}'' [JStr (str_exn e)]]\<rparr>))
     (\<lambda>v w'. configure_dns p dn alb_dns w0 = (Inr v, w'))"
    by (rule configure_dns_handler)
next
  fix r w'
  assume run: "main_deploy p w = (r, w')"
  from runsD [OF main_deploy_runs run] obtain t where t: "trace w' = trace w @ t"
    and ok: "\<And>x. r = Inr x \<Longrightarrow> marks t = map Enter stages_deploy @ [FileOpenW the_ledger_file]"
    and er: "\<And>e. r = Inl e \<Longrightarrow> marks t \<in> aborted_deploy \<and> is_Exception e"
    by blast
  have "marks t \<in> aborted_deploy \<or> marks t = map Enter stages_deploy @ [FileOpenW the_ledger_file]"
    using ok er by (cases r) auto
  from frontend_follows_dns [OF this]
  have "''configure_dns'' \<in> set (entered t) \<longrightarrow> ''deploy_frontend'' \<in> set (entered t)"
    by simp
  with t show "\<exists>t. trace w' = trace w @ t
            \<and> (''configure_dns'' \<in> set (entered t) \<longrightarrow> ''deploy_frontend'' \<in> set (entered t))"
    by blast
next
  show "along_deploy p w
        (\<lambda>k e w'. main_deploy p w = (Inl e, w') \<and> progress (take k stages_deploy) w w')
        (\<lambda>k w'. progress (take k stages_deploy) w w')
        (\<lambda>backend_info lb_info dns_info frontend_info lambda_info w'.
           \<exists>d w''. main_deploy p w = (Inr (), w'')
                \<and> g_infrastructure w'' = Some (JObj d) \<and> map_of d ''dns'' = Some dns_info
                \<and> files w'' = (files w)(the_ledger_file \<mapsto> concat (json_dump p (JObj d))))"
    by (rule along_deploy_mono [OF main_deploy_along])
      (clarsimp simp: progress_def map_of_dict_update)+
qed

lemma deny_list_hosted_zones:
  "\<forall>h args. remote (deny ''list_hosted_zones_by_name'' p_ok) h
       (Api ''route53'' ''list_hosted_zones_by_name'' args) = Inl ''AccessDenied''"
  by (simp add: deny_def)

theorem best_effort_dns_failure_witness:
  "fst (configure_dns (deny ''list_hosted_zones_by_name'' p_ok) domain_name (JStr ''alb.example'')
          w_loaded) = Inr (JObj [(''error'', JStr ''AccessDenied'')])
   \<and> fst (configure_dns (p_ok\<lparr>remote := (\<lambda>h c. Inr (JObj []))\<rparr>) domain_name
          (JStr ''alb.example'') w_loaded) = Inr (JObj [(''error'', JStr (str_exn (KeyError ''HostedZones'')))])
   \<and> fst (main_deploy (deny ''list_hosted_zones_by_name'' p_ok) w_loaded) = Inr ()
   \<and> (\<exists>d. g_infrastructure (snd (main_deploy (deny ''list_hosted_zones_by_name'' p_ok) w_loaded))
             = Some (JObj d)
          \<and> map_of d ''dns'' = Some (JObj [(''error'', JStr ''AccessDenied'')]))
   \<and> fst (main_deploy (deny ''create_security_group'' (deny ''list_hosted_zones_by_name'' p_ok))
          w_loaded) = Inl (ClientError ''AccessDenied'')
   \<and> entered (trace (snd (main_deploy
          (deny ''create_security_group'' (deny ''list_hosted_zones_by_name'' p_ok)) w_loaded)))
       = [''deploy_backend_services'', ''set_up_load_balancer'', ''configure_dns'',
          ''deploy_frontend'']
   \<and> g_infrastructure (snd (main_deploy
          (deny ''create_security_group'' (deny ''list_hosted_zones_by_name'' p_ok)) w_loaded))
       = Some ledger_iac"
proof -
  have a: "fst (configure_dns (deny ''list_hosted_zones_by_name'' p_ok) domain_name
          (JStr ''alb.example'') w_loaded) = Inr (JObj [(''error'', JStr ''AccessDenied'')])"
    using best_effort_dns_failure [of "deny ''list_hosted_zones_by_name'' p_ok" domain_name
        "JStr ''alb.example''" w_loaded, THEN conjunct1]
    by (simp add: after_def configure_dns_try_def prog_defs example_defs)
  have b: "fst (configure_dns (p_ok\<lparr>remote := (\<lambda>h c. Inr (JObj []))\<rparr>)
          domain_name (JStr ''alb.example'') w_loaded)
        = Inr (JObj [(''error'', JStr (str_exn (KeyError ''HostedZones'')))])"
    using best_effort_dns_failure [of "p_ok\<lparr>remote := (\<lambda>h c. Inr (JObj []))\<rparr>"
        domain_name "JStr ''alb.example''" w_loaded, THEN conjunct1]
    by (simp add: after_def configure_dns_try_def prog_defs example_defs)
  have c: "fst (main_deploy (deny ''list_hosted_zones_by_name'' p_ok) w_loaded) = Inr ()
     \<and> (\<exists>d. g_infrastructure (snd (main_deploy (deny ''list_hosted_zones_by_name'' p_ok) w_loaded))
             = Some (JObj d)
          \<and> map_of d ''dns'' = Some (JObj [(''error'', JStr ''AccessDenied'')]))"
    using best_effort_dns_failure [of "deny ''list_hosted_zones_by_name'' p_ok" _ _ _ w_loaded,
        THEN conjunct2, THEN conjunct2]
    by (clarsimp simp: along_deploy_def after_def reads_def stage_defs prog_defs example_defs
        w_loaded_def)
  have d: "fst (main_deploy (deny ''create_security_group'' (deny ''list_hosted_zones_by_name'' p_ok))
          w_loaded) = Inl (ClientError ''AccessDenied'')
   \<and> entered (trace (snd (main_deploy
          (deny ''create_security_group'' (deny ''list_hosted_zones_by_name'' p_ok)) w_loaded)))
       = [''deploy_backend_services'', ''set_up_load_balancer'', ''configure_dns'',
          ''deploy_frontend'']
   \<and> g_infrastructure (snd (main_deploy
          (deny ''create_security_group'' (deny ''list_hosted_zones_by_name'' p_ok)) w_loaded))
       = Some ledger_iac"
    using best_effort_dns_failure
      [of "deny ''create_security_group'' (deny ''list_hosted_zones_by_name'' p_ok)" _ _ _ w_loaded,
        THEN conjunct2, THEN conjunct2]
    by (clarsimp simp: along_deploy_def after_def reads_def stage_defs prog_defs example_defs
        w_loaded_def progress_def stages_deploy_def)
  from a b c d show ?thesis by simp
qed

lemma run_script_dns_and_frontend_denied:
  "case script_deploy (deny ''create_security_group'' (deny ''list_hosted_zones_by_name'' p_ok))
          w_ledger of
     (r, w') \<Rightarrow> r = Inl (ClientError ''AccessDenied'')
        \<and> entered (trace w') = [''deploy_backend_services'', ''set_up_load_balancer'',
                                 ''configure_dns'', ''deploy_frontend'']
        \<and> Print ''Error configuring DNS: {str(e)}'' [JStr ''AccessDenied''] \<in> set (trace w')
        \<and> g_infrastructure w' = Some ledger_iac
        \<and> files w' the_ledger_file = Some ledger_text"
  by (simp add: script_deploy_def load_infrastructure_def main_deploy_def stage_defs prog_defs
      example_defs)

theorem dns_error_not_recorded_counterexample:
  "fst (script_deploy (deny ''create_security_group'' (deny ''list_hosted_zones_by_name'' p_ok))
          w_ledger) = Inl (ClientError ''AccessDenied'')
   \<and> Print ''Error configuring DNS: {str(e)}'' [JStr ''AccessDenied'']
        \<in> set (trace (snd (script_deploy
              (deny ''create_security_group'' (deny ''list_hosted_zones_by_name'' p_ok)) w_ledger)))
   \<and> entered (trace (snd (script_deploy
              (deny ''create_security_group'' (deny ''list_hosted_zones_by_name'' p_ok)) w_ledger)))
        = [''deploy_backend_services'', ''set_up_load_balancer'', ''configure_dns'',
           ''deploy_frontend'']
   \<and> g_infrastructure (snd (script_deploy
              (deny ''create_security_group'' (deny ''list_hosted_zones_by_name'' p_ok)) w_ledger))
        = Some ledger_iac
   \<and> subscript ledger_iac ''dns'' = Inl (KeyError ''dns'')
   \<and> files (snd (script_deploy
              (deny ''create_security_group'' (deny ''list_hosted_zones_by_name'' p_ok)) w_ledger))
        the_ledger_file = Some ledger_text"
proof -
  have "subscript ledger_iac ''dns'' = Inl (KeyError ''dns'')" by (simp add: ledger_iac_def)
  with run_script_dns_and_frontend_denied show ?thesis by (simp add: case_prod_beta)
qed

end
